theory Spec2Isabelle
  imports Complex_Main "HOL-Library.Log_Nat"
begin

section \<open>Telemetry readings and stored rows\<close>

text \<open>
  The service (\<^verbatim>\<open>src/services/ingestion.service.ts\<close>, which also holds the analytics
  service) writes every reading to two PostgreSQL tables through TypeORM and reads the
  history tables back with aggregate queries. The model keeps the service's control flow
  and the tables it touches:
  \<^item> a number of a reading is a \<^typ>\<open>real\<close>: the decimal the driver sends to the engine (a
    JavaScript \<^verbatim>\<open>number\<close> is sent as the shortest decimal that reads back as it); a
    \<^verbatim>\<open>DECIMAL(p,s)\<close> column stores it rounded to \<open>s\<close> places;
  \<^item> the analytics service computes on binary64 floating point numbers. The health tier,
    which one rounding error can change, is modelled as the code computes it, on the
    binary64 numbers; the numbers printed in the report are modelled on exact reals, and
    are the code's up to the rounding of its floating point operations;
  \<^item> a timestamp is an instant in milliseconds since the epoch, the value of
    \<^verbatim>\<open>new Date(data.timestamp).getTime()\<close> (a string that is no date is outside the model);
  \<^item> an optional or nullable field is an \<^typ>\<open>'a option\<close>, \<^term>\<open>None\<close> standing for
    \<^verbatim>\<open>undefined\<close> on the JavaScript side and for \<^verbatim>\<open>NULL\<close> on the SQL side;
  \<^item> the columns the database engine fills from its own clock and sequences
    (\<^verbatim>\<open>id\<close>, \<^verbatim>\<open>created_at\<close>, \<^verbatim>\<open>updated_at\<close>) are left out: the service never reads them;
  \<^item> the storage can fail any statement: every operation takes a fault plan saying which
    of its statements the storage fails and with which error, and the properties below
    hold for every plan.
\<close>

type_synonym instant = int

datatype TelemetryStatus = VALID | ANOMALY | MISSING

record MeterTelemetryDto =
  meterId :: string
  kwhConsumedAc :: real
  voltage :: real
  timestamp :: instant

record VehicleTelemetryDto =
  vehicleId :: string
  soc :: real
  kwhDeliveredDc :: real
  batteryTemp :: "real option"
  timestamp_v :: instant

text \<open>Rows of \<^verbatim>\<open>current_meter_status\<close> and \<^verbatim>\<open>current_vehicle_status\<close>. The primary key
  (\<^verbatim>\<open>meter_id\<close>, \<^verbatim>\<open>vehicle_id\<close>) is the key under which the table holds the row.\<close>

record CurrentMeterStatus =
  cm_kwhConsumedAc :: real
  cm_voltage :: real
  cm_lastUpdateTimestamp :: instant
  cm_status :: TelemetryStatus

record CurrentVehicleStatus =
  cv_soc :: real
  cv_kwhDeliveredDc :: real
  cv_batteryTemp :: "real option"
  cv_lastUpdateTimestamp :: instant
  cv_status :: TelemetryStatus

text \<open>Rows of \<^verbatim>\<open>meter_telemetry_history\<close> and \<^verbatim>\<open>vehicle_telemetry_history\<close>.\<close>

record MeterTelemetryHistory =
  mh_meterId :: string
  mh_kwhConsumedAc :: real
  mh_voltage :: real
  mh_timestamp :: instant
  mh_status :: TelemetryStatus

record VehicleTelemetryHistory =
  vh_vehicleId :: string
  vh_soc :: real
  vh_kwhDeliveredDc :: real
  vh_batteryTemp :: "real option"
  vh_timestamp :: instant
  vh_status :: TelemetryStatus


section \<open>The database\<close>

text \<open>
  The two current-status tables are keyed by their primary key; the two history tables
  are lists in insertion order. Each history table is \<^verbatim>\<open>PARTITION BY RANGE (timestamp)\<close>
  (\<^verbatim>\<open>init-db.sql\<close>): the partitions are half-open ranges \<open>[from, to)\<close>.
\<close>

record db =
  current_meter_status :: "string \<rightharpoonup> CurrentMeterStatus"
  current_vehicle_status :: "string \<rightharpoonup> CurrentVehicleStatus"
  meter_telemetry_history :: "MeterTelemetryHistory list"
  vehicle_telemetry_history :: "VehicleTelemetryHistory list"
  meter_history_partitions :: "(instant \<times> instant) list"
  vehicle_history_partitions :: "(instant \<times> instant) list"

text \<open>
  What a statement can fail with. \<^term>\<open>NoPartitionFound\<close> and \<^term>\<open>CardinalityViolation\<close> are
  decided by the data (below); the others are injected by the fault argument of each
  operation and stand for every reason outside the model for which the engine rejects a
  statement (lost connection, timeout, a column constraint such as a number with more
  digits than the precision of its column, or \<^verbatim>\<open>CHECK (soc >= 0 AND soc <= 100)\<close>).
\<close>

datatype db_error =
    ConnectionLost
  | QueryTimeout
  | ConstraintViolation
  | NoPartitionFound
  | CardinalityViolation

text \<open>The two statements of a write transaction; a fault plan names, for each transaction of
  a call (counted from 0) and each of its statements, the error the storage injects there.\<close>

datatype step = HotUpsert | ColdInsert

type_synonym faults = "nat \<Rightarrow> step \<Rightarrow> db_error option"

definition no_faults :: faults where
  "no_faults = (\<lambda>k st. None)"

subsection \<open>DECIMAL columns\<close>

text \<open>
  The numeric columns are \<^verbatim>\<open>DECIMAL(10,3)\<close> (\<^verbatim>\<open>kwh_consumed_ac\<close>, \<^verbatim>\<open>kwh_delivered_dc\<close>),
  \<^verbatim>\<open>DECIMAL(6,2)\<close> (\<^verbatim>\<open>voltage\<close>) and \<^verbatim>\<open>DECIMAL(5,2)\<close> (\<^verbatim>\<open>soc\<close>, \<^verbatim>\<open>battery_temp\<close>), in the
  entities and in \<^verbatim>\<open>init-db.sql\<close> alike. The engine stores a number in such a column rounded
  to the scale of the column, a tie going away from zero: a scale-3 column stores
  \<open>0.0005\<close> as \<open>0.001\<close>, a scale-2 column stores \<open>240.555\<close> as \<open>240.56\<close>.
\<close>

definition decimal_column :: "nat \<Rightarrow> real \<Rightarrow> real" where
  "decimal_column scale x = sgn x * real_of_int \<lfloor>\<bar>x\<bar> * 10 ^ scale + 1 / 2\<rfloor> / 10 ^ scale"

subsection \<open>INSERT ... ON CONFLICT (id) DO UPDATE on the current-status tables\<close>

text \<open>
  \<^verbatim>\<open>.insert().into(CurrentMeterStatus).values(v).orUpdate([...], ['meter_id'])\<close>: a proposed
  row whose key is absent is inserted (\<^verbatim>\<open>status\<close> takes its default); one whose key is
  present overwrites the columns listed in \<^verbatim>\<open>orUpdate\<close> and keeps the others. The numbers
  are stored as their columns round them.
\<close>

definition upsert_CurrentMeterStatus ::
  "MeterTelemetryDto \<Rightarrow> (string \<rightharpoonup> CurrentMeterStatus) \<Rightarrow> (string \<rightharpoonup> CurrentMeterStatus)" where
  "upsert_CurrentMeterStatus r tbl =
     (case tbl (meterId r) of
        None \<Rightarrow> tbl(meterId r \<mapsto>
          \<lparr>cm_kwhConsumedAc = decimal_column 3 (kwhConsumedAc r),
           cm_voltage = decimal_column 2 (voltage r),
           cm_lastUpdateTimestamp = timestamp r, cm_status = VALID\<rparr>)
      | Some old \<Rightarrow> tbl(meterId r \<mapsto>
          old\<lparr>cm_kwhConsumedAc := decimal_column 3 (kwhConsumedAc r),
              cm_voltage := decimal_column 2 (voltage r),
              cm_lastUpdateTimestamp := timestamp r\<rparr>))"

definition upsert_CurrentVehicleStatus ::
  "VehicleTelemetryDto \<Rightarrow> (string \<rightharpoonup> CurrentVehicleStatus) \<Rightarrow> (string \<rightharpoonup> CurrentVehicleStatus)" where
  "upsert_CurrentVehicleStatus r tbl =
     (case tbl (vehicleId r) of
        None \<Rightarrow> tbl(vehicleId r \<mapsto>
          \<lparr>cv_soc = decimal_column 2 (soc r),
           cv_kwhDeliveredDc = decimal_column 3 (kwhDeliveredDc r),
           cv_batteryTemp = map_option (decimal_column 2) (batteryTemp r),
           cv_lastUpdateTimestamp = timestamp_v r, cv_status = VALID\<rparr>)
      | Some old \<Rightarrow> tbl(vehicleId r \<mapsto>
          old\<lparr>cv_soc := decimal_column 2 (soc r),
              cv_kwhDeliveredDc := decimal_column 3 (kwhDeliveredDc r),
              cv_batteryTemp := map_option (decimal_column 2) (batteryTemp r),
              cv_lastUpdateTimestamp := timestamp_v r\<rparr>))"

text \<open>
  The statement as the engine runs it on the rows \<open>vs\<close> of one \<^verbatim>\<open>.values(...)\<close> call (one
  row for a single reading, the whole chunk for a batch). PostgreSQL does not let one
  \<^verbatim>\<open>ON CONFLICT DO UPDATE\<close> command touch a row twice: when two proposed rows carry the same
  key the whole statement is rejected (``ON CONFLICT DO UPDATE command cannot affect row a
  second time''). A statement returns the error, if any, and the state it leaves inside
  the open transaction.
\<close>

definition execute_upsert_CurrentMeterStatus ::
  "db_error option \<Rightarrow> MeterTelemetryDto list \<Rightarrow> db \<Rightarrow> db_error option \<times> db" where
  "execute_upsert_CurrentMeterStatus fault vs s =
     (case fault of
        Some e \<Rightarrow> (Some e, s)
      | None \<Rightarrow>
          if distinct (map meterId vs)
          then (None, s\<lparr>current_meter_status := fold upsert_CurrentMeterStatus vs (current_meter_status s)\<rparr>)
          else (Some CardinalityViolation, s))"

definition execute_upsert_CurrentVehicleStatus ::
  "db_error option \<Rightarrow> VehicleTelemetryDto list \<Rightarrow> db \<Rightarrow> db_error option \<times> db" where
  "execute_upsert_CurrentVehicleStatus fault vs s =
     (case fault of
        Some e \<Rightarrow> (Some e, s)
      | None \<Rightarrow>
          if distinct (map vehicleId vs)
          then (None, s\<lparr>current_vehicle_status := fold upsert_CurrentVehicleStatus vs (current_vehicle_status s)\<rparr>)
          else (Some CardinalityViolation, s))"

subsection \<open>INSERT into the partitioned history tables\<close>

definition has_partition :: "(instant \<times> instant) list \<Rightarrow> instant \<Rightarrow> bool" where
  "has_partition ps t = list_ex (\<lambda>(lo, hi). lo \<le> t \<and> t < hi) ps"

text \<open>The row the insert builds from a reading: \<^verbatim>\<open>batteryTemp ?? null\<close> keeps an omitted
  temperature as \<^verbatim>\<open>NULL\<close>, \<^verbatim>\<open>status\<close> takes its default.\<close>

definition meterHistoryRow :: "MeterTelemetryDto \<Rightarrow> MeterTelemetryHistory" where
  "meterHistoryRow r =
     \<lparr>mh_meterId = meterId r, mh_kwhConsumedAc = decimal_column 3 (kwhConsumedAc r),
      mh_voltage = decimal_column 2 (voltage r), mh_timestamp = timestamp r, mh_status = VALID\<rparr>"

definition vehicleHistoryRow :: "VehicleTelemetryDto \<Rightarrow> VehicleTelemetryHistory" where
  "vehicleHistoryRow r =
     \<lparr>vh_vehicleId = vehicleId r, vh_soc = decimal_column 2 (soc r),
      vh_kwhDeliveredDc = decimal_column 3 (kwhDeliveredDc r),
      vh_batteryTemp = map_option (decimal_column 2) (batteryTemp r),
      vh_timestamp = timestamp_v r, vh_status = VALID\<rparr>"

text \<open>A row whose timestamp falls in no partition makes the whole insert fail
  (``no partition of relation found for row'').\<close>

definition execute_insert_MeterTelemetryHistory ::
  "db_error option \<Rightarrow> MeterTelemetryDto list \<Rightarrow> db \<Rightarrow> db_error option \<times> db" where
  "execute_insert_MeterTelemetryHistory fault vs s =
     (case fault of
        Some e \<Rightarrow> (Some e, s)
      | None \<Rightarrow>
          if list_all (\<lambda>r. has_partition (meter_history_partitions s) (timestamp r)) vs
          then (None, s\<lparr>meter_telemetry_history := meter_telemetry_history s @ map meterHistoryRow vs\<rparr>)
          else (Some NoPartitionFound, s))"

definition execute_insert_VehicleTelemetryHistory ::
  "db_error option \<Rightarrow> VehicleTelemetryDto list \<Rightarrow> db \<Rightarrow> db_error option \<times> db" where
  "execute_insert_VehicleTelemetryHistory fault vs s =
     (case fault of
        Some e \<Rightarrow> (Some e, s)
      | None \<Rightarrow>
          if list_all (\<lambda>r. has_partition (vehicle_history_partitions s) (timestamp_v r)) vs
          then (None, s\<lparr>vehicle_telemetry_history := vehicle_telemetry_history s @ map vehicleHistoryRow vs\<rparr>)
          else (Some NoPartitionFound, s))"

subsection \<open>Transactions\<close>

text \<open>
  \<^verbatim>\<open>dataSource.transaction(cb)\<close> runs the callback on the open transaction; when the
  callback throws, the transaction is rolled back (the database is as before) and the
  error is rethrown; otherwise the callback's writes are committed. The callback hands
  back the state it reached inside the transaction, which a rollback discards. Faults
  strike statements; \<^verbatim>\<open>BEGIN\<close> and \<^verbatim>\<open>COMMIT\<close> themselves are taken to succeed.
\<close>

definition transaction :: "(db \<Rightarrow> db_error option \<times> db) \<Rightarrow> db \<Rightarrow> db_error option \<times> db" where
  "transaction runInTransaction s =
     (case runInTransaction s of
        (None, s') \<Rightarrow> (None, s')
      | (Some e, s') \<Rightarrow> (Some e, s))"


section \<open>The ingestion service\<close>

text \<open>
  The callback of every write transaction: the upsert of the hot table, then the insert
  into the cold table, each awaited; the first failing statement throws out of the
  callback. The single-reading functions pass one row to \<^verbatim>\<open>.values\<close>, the batch functions
  the rows of one chunk.
\<close>

definition meterDualWrite ::
  "(step \<Rightarrow> db_error option) \<Rightarrow> MeterTelemetryDto list \<Rightarrow> db \<Rightarrow> db_error option \<times> db" where
  "meterDualWrite fault vs s =
     (case execute_upsert_CurrentMeterStatus (fault HotUpsert) vs s of
        (Some e, s1) \<Rightarrow> (Some e, s1)
      | (None, s1) \<Rightarrow> execute_insert_MeterTelemetryHistory (fault ColdInsert) vs s1)"

definition vehicleDualWrite ::
  "(step \<Rightarrow> db_error option) \<Rightarrow> VehicleTelemetryDto list \<Rightarrow> db \<Rightarrow> db_error option \<times> db" where
  "vehicleDualWrite fault vs s =
     (case execute_upsert_CurrentVehicleStatus (fault HotUpsert) vs s of
        (Some e, s1) \<Rightarrow> (Some e, s1)
      | (None, s1) \<Rightarrow> execute_insert_VehicleTelemetryHistory (fault ColdInsert) vs s1)"

text \<open>
  What a call leaves behind: the error it rethrows to its caller (\<^term>\<open>None\<close> when the
  promise resolves; the functions return \<^verbatim>\<open>Promise<void>\<close>), the database, the lines it
  logged (without the elapsed time) and the number of \<^verbatim>\<open>dataSource.transaction\<close> calls it
  made.
\<close>

datatype log_entry =
    Debug_ingested string
  | Debug_processed_batch nat
  | Log_batch_ingested nat
  | Error_failed db_error

record outcome =
  thrown :: "db_error option"
  store :: db
  logged :: "log_entry list"
  transactions :: nat

definition ingestMeterTelemetry :: "faults \<Rightarrow> MeterTelemetryDto \<Rightarrow> db \<Rightarrow> outcome" where
  "ingestMeterTelemetry fault data s =
     (case transaction (meterDualWrite (fault 0) [data]) s of
        (None, s') \<Rightarrow>
          \<lparr>thrown = None, store = s', logged = [Debug_ingested (meterId data)], transactions = 1\<rparr>
      | (Some e, s') \<Rightarrow>
          \<lparr>thrown = Some e, store = s', logged = [Error_failed e], transactions = 1\<rparr>)"

definition ingestVehicleTelemetry :: "faults \<Rightarrow> VehicleTelemetryDto \<Rightarrow> db \<Rightarrow> outcome" where
  "ingestVehicleTelemetry fault data s =
     (case transaction (vehicleDualWrite (fault 0) [data]) s of
        (None, s') \<Rightarrow>
          \<lparr>thrown = None, store = s', logged = [Debug_ingested (vehicleId data)], transactions = 1\<rparr>
      | (Some e, s') \<Rightarrow>
          \<lparr>thrown = Some e, store = s', logged = [Error_failed e], transactions = 1\<rparr>)"

subsection \<open>Batch ingestion\<close>

definition batchSize :: nat where
  "batchSize = 1000"

text \<open>\<^verbatim>\<open>readings.slice(a, b)\<close> for \<open>0 \<le> a \<le> b\<close>: the elements at the indices from \<open>a\<close>
  up to but not including \<open>b\<close>, cut at the end of the array.\<close>

definition slice :: "'a list \<Rightarrow> nat \<Rightarrow> nat \<Rightarrow> 'a list" where
  "slice xs a b = take (b - a) (drop a xs)"

text \<open>
  The loop of \<^verbatim>\<open>ingestMeterBatch\<close> and of \<^verbatim>\<open>ingestVehicleBatch\<close>
  (\<^verbatim>\<open>for (let i = 0; i < readings.length; i += batchSize)\<close>), written once for both: the
  two differ only in the callback \<open>cb\<close> they hand to \<^verbatim>\<open>dataSource.transaction\<close>. An error
  thrown by a transaction leaves the loop at once; after a committed chunk the loop logs
  \<^verbatim>\<open>Processed batch ${i / batchSize + 1}\<close> (\<open>i\<close> is a multiple of \<open>batchSize\<close>, so the
  division is exact). The callback also receives the number \<open>i div batchSize\<close> of its
  transaction, under which the fault plan is looked up. The result is the error thrown
  (if any), the database, the debug lines and the number of transactions run, from index
  \<open>i\<close> on.
\<close>

function chunk_loop ::
  "(nat \<Rightarrow> 'a list \<Rightarrow> db \<Rightarrow> db_error option \<times> db) \<Rightarrow> 'a list \<Rightarrow> nat \<Rightarrow> db
     \<Rightarrow> db_error option \<times> db \<times> log_entry list \<times> nat" where
  "chunk_loop cb readings i s =
     (if i < length readings then
        (let batch = slice readings i (i + batchSize) in
         case transaction (cb (i div batchSize) batch) s of
           (Some e, s') \<Rightarrow> (Some e, s', [], 1)
         | (None, s') \<Rightarrow>
             (case chunk_loop cb readings (i + batchSize) s' of
                (r, s'', lg, n) \<Rightarrow> (r, s'', Debug_processed_batch (i div batchSize + 1) # lg, Suc n)))
      else (None, s, [], 0))"
  by pat_completeness auto
termination
  by (relation "measure (\<lambda>(cb, readings, i, s). length readings - i)")
     (auto simp: batchSize_def)

declare chunk_loop.simps [simp del]

definition ingestMeterBatch :: "faults \<Rightarrow> MeterTelemetryDto list \<Rightarrow> db \<Rightarrow> outcome" where
  "ingestMeterBatch fault readings s =
     (case chunk_loop (\<lambda>k. meterDualWrite (fault k)) readings 0 s of
        (None, s', lg, n) \<Rightarrow>
          \<lparr>thrown = None, store = s', logged = lg @ [Log_batch_ingested (length readings)],
           transactions = n\<rparr>
      | (Some e, s', lg, n) \<Rightarrow>
          \<lparr>thrown = Some e, store = s', logged = lg @ [Error_failed e], transactions = n\<rparr>)"

definition ingestVehicleBatch :: "faults \<Rightarrow> VehicleTelemetryDto list \<Rightarrow> db \<Rightarrow> outcome" where
  "ingestVehicleBatch fault readings s =
     (case chunk_loop (\<lambda>k. vehicleDualWrite (fault k)) readings 0 s of
        (None, s', lg, n) \<Rightarrow>
          \<lparr>thrown = None, store = s', logged = lg @ [Log_batch_ingested (length readings)],
           transactions = n\<rparr>
      | (Some e, s', lg, n) \<Rightarrow>
          \<lparr>thrown = Some e, store = s', logged = lg @ [Error_failed e], transactions = n\<rparr>)"


section \<open>The analytics service\<close>

datatype health = healthy | degraded | critical

record PerformanceAnalyticsDto =
  pa_vehicleId :: string
  periodStart :: instant
  periodEnd :: instant
  totalKwhConsumedAc :: real
  totalKwhDeliveredDc :: real
  efficiencyRatio :: real
  avgBatteryTemp :: real
  readingCount :: nat
  healthStatus :: health

text \<open>A call either returns its report or throws: \<^verbatim>\<open>NotFoundException\<close>, or the error of a
  failed query, which the \<^verbatim>\<open>catch\<close> block logs and rethrows. The queries change nothing in
  the database; their log lines are not modelled.\<close>

datatype analytics_error = NotFoundException | QueryFailed db_error

subsection \<open>The two aggregate queries\<close>

text \<open>\<^verbatim>\<open>SUM\<close> and \<^verbatim>\<open>AVG\<close> skip \<^verbatim>\<open>NULL\<close>s and are \<^verbatim>\<open>NULL\<close> over no value at all.\<close>

definition sql_SUM :: "real option list \<Rightarrow> real option" where
  "sql_SUM xs = (let ys = [y. Some y \<leftarrow> xs] in if ys = [] then None else Some (sum_list ys))"

definition sql_AVG :: "real option list \<Rightarrow> real option" where
  "sql_AVG xs =
     (let ys = [y. Some y \<leftarrow> xs] in if ys = [] then None else Some (sum_list ys / real (length ys)))"

text \<open>The row the vehicle query returns for its single group.\<close>

record vehicleStats =
  reading_count :: nat
  total_kwh_delivered_dc :: "real option"
  avg_battery_temp :: "real option"
  period_start :: instant
  period_end :: instant

text \<open>\<^verbatim>\<open>WHERE vehicle_id = $1 AND timestamp >= $2 AND timestamp <= $3\<close>\<close>

definition vehicleWindow :: "db \<Rightarrow> string \<Rightarrow> instant \<Rightarrow> instant \<Rightarrow> VehicleTelemetryHistory list" where
  "vehicleWindow s vehicle lo hi =
     filter (\<lambda>r. vh_vehicleId r = vehicle \<and> lo \<le> vh_timestamp r \<and> vh_timestamp r \<le> hi)
       (vehicle_telemetry_history s)"

text \<open>\<^verbatim>\<open>SELECT vehicle_id, COUNT(*), SUM(kwh_delivered_dc), AVG(battery_temp), MIN(timestamp),
  MAX(timestamp) ... GROUP BY vehicle_id\<close>: no matching row, no group, and the result set is
  empty; otherwise it has one row.\<close>

definition vehicleQuery :: "db \<Rightarrow> string \<Rightarrow> instant \<Rightarrow> instant \<Rightarrow> vehicleStats list" where
  "vehicleQuery s vehicle lo hi =
     (let rows = vehicleWindow s vehicle lo hi in
      if rows = [] then []
      else [\<lparr>reading_count = length rows,
             total_kwh_delivered_dc = sql_SUM (map (\<lambda>r. Some (vh_kwhDeliveredDc r)) rows),
             avg_battery_temp = sql_AVG (map vh_batteryTemp rows),
             period_start = Min (set (map vh_timestamp rows)),
             period_end = Max (set (map vh_timestamp rows))\<rparr>])"

text \<open>\<^verbatim>\<open>WHERE timestamp >= $1 AND timestamp <= $2\<close>, with \<^verbatim>\<open>AND meter_id = $3\<close> appended when a
  meter is named.\<close>

definition meterWindow :: "db \<Rightarrow> instant \<Rightarrow> instant \<Rightarrow> string option \<Rightarrow> MeterTelemetryHistory list" where
  "meterWindow s lo hi meter =
     filter (\<lambda>r. lo \<le> mh_timestamp r \<and> mh_timestamp r \<le> hi
                \<and> (case meter of None \<Rightarrow> True | Some m \<Rightarrow> mh_meterId r = m))
       (meter_telemetry_history s)"

text \<open>\<^verbatim>\<open>SELECT SUM(kwh_consumed_ac) as total_kwh_consumed_ac\<close> without \<^verbatim>\<open>GROUP BY\<close>: always one
  row; this is its only column.\<close>

definition meterQuery :: "db \<Rightarrow> instant \<Rightarrow> instant \<Rightarrow> string option \<Rightarrow> real option" where
  "meterQuery s lo hi meter = sql_SUM (map (\<lambda>r. Some (mh_kwhConsumedAc r)) (meterWindow s lo hi meter))"

subsection \<open>From the aggregates to the report\<close>

text \<open>\<^verbatim>\<open>parseFloat(x) || 0\<close> on the decimal the column holds: \<^verbatim>\<open>parseFloat(null)\<close> is \<^verbatim>\<open>NaN\<close>, which
  is falsy, as is \<open>0\<close>.\<close>

definition parseFloat_or_0 :: "real option \<Rightarrow> real" where
  "parseFloat_or_0 x = (case x of None \<Rightarrow> 0 | Some v \<Rightarrow> if v = 0 then 0 else v)"

text \<open>\<^verbatim>\<open>parseFloat(x.toFixed(d))\<close>: \<^verbatim>\<open>toFixed\<close> prints the integer \<open>n\<close> for which \<open>n / 10^d\<close> is
  nearest to \<open>\<bar>x\<bar>\<close>, the larger one on a tie, with the sign of \<open>x\<close>; from \<open>10^21\<close> on it
  prints \<open>x\<close> itself. Here \<open>x\<close> is the exact real: the code rounds the binary64 number
  nearest to it, so that the two differ where \<open>x * 10^d\<close> is at a tie or within the
  floating point error of one (the code prints \<open>35.205\<close> as \<open>35.2\<close>); they agree at \<open>0\<close>.\<close>

definition toFixed :: "nat \<Rightarrow> real \<Rightarrow> real" where
  "toFixed d x =
     (if 10 ^ 21 \<le> \<bar>x\<bar> then x
      else sgn x * real_of_int \<lfloor>\<bar>x\<bar> * 10 ^ d + 1 / 2\<rfloor> / 10 ^ d)"

text \<open>\<^verbatim>\<open>totalKwhConsumedAc > 0 ? totalKwhDeliveredDc / totalKwhConsumedAc : 0\<close> on the exact
  totals: the ratio the report prints, up to the rounding of the division.\<close>

definition efficiencyRatio_of :: "real \<Rightarrow> real \<Rightarrow> real" where
  "efficiencyRatio_of totalConsumedAc totalDeliveredDc =
     (if totalConsumedAc > 0 then totalDeliveredDc / totalConsumedAc else 0)"

subsection \<open>The health tier, in binary64 arithmetic\<close>

text \<open>
  A JavaScript \<^verbatim>\<open>number\<close>: a finite binary64 value, given by the real it stands for, or one
  of \<^verbatim>\<open>Infinity\<close>, \<^verbatim>\<open>-Infinity\<close> and \<^verbatim>\<open>NaN\<close>. The two zeros are one value here: the
  comparisons do not tell them apart, and the service divides by positive numbers only.
\<close>

datatype number = Num real | Infinity | Minus_Infinity | NaN

text \<open>The integer nearest to a real, the even one of the two on a tie.\<close>

definition roundTiesToEven :: "real \<Rightarrow> int" where
  "roundTiesToEven y =
     (let f = \<lfloor>y\<rfloor> in
      if y - real_of_int f < 1 / 2 then f
      else if 1 / 2 < y - real_of_int f then f + 1
      else if even f then f else f + 1)"

text \<open>
  The binary64 number nearest to a real \<open>x\<close>, which is what \<^verbatim>\<open>parseFloat\<close> returns for the
  decimal \<open>x\<close>, what the literal \<open>x\<close> denotes in the source, and what an arithmetic
  operation returns when \<open>x\<close> is its exact result: with \<open>2^e \<le> \<bar>x\<bar> < 2^(e+1)\<close>, the nearest
  multiple of \<open>2^(e - 52)\<close> (53 significant bits); below \<open>2^(-1022)\<close> the multiples of
  \<open>2^(-1074)\<close> (subnormal numbers); an infinity when the result reaches \<open>2^1024\<close>. A
  tie goes to the multiple with the even factor.
\<close>

definition binary64 :: "real \<Rightarrow> number" where
  "binary64 x =
     (if x = 0 then Num 0
      else let e = max \<lfloor>log 2 \<bar>x\<bar>\<rfloor> (- 1022);
               ulp = 2 powi (e - 52);
               y = real_of_int (roundTiesToEven (\<bar>x\<bar> / ulp)) * ulp
           in if 2 ^ 1024 \<le> y then (if 0 < x then Infinity else Minus_Infinity)
              else Num (sgn x * y))"

text \<open>\<^verbatim>\<open>a >= b\<close> and \<^verbatim>\<open>a > b\<close> on numbers: false as soon as one of them is \<^verbatim>\<open>NaN\<close>.\<close>

fun number_ge :: "number \<Rightarrow> number \<Rightarrow> bool" where
  "number_ge NaN b = False"
| "number_ge a NaN = False"
| "number_ge Infinity b = True"
| "number_ge a Minus_Infinity = True"
| "number_ge (Num x) (Num y) = (y \<le> x)"
| "number_ge (Num x) Infinity = False"
| "number_ge Minus_Infinity b = False"

fun number_gt :: "number \<Rightarrow> number \<Rightarrow> bool" where
  "number_gt NaN b = False"
| "number_gt a NaN = False"
| "number_gt (Num x) (Num y) = (y < x)"
| "number_gt Infinity Infinity = False"
| "number_gt Infinity b = True"
| "number_gt a Infinity = False"
| "number_gt Minus_Infinity b = False"
| "number_gt (Num x) Minus_Infinity = True"

text \<open>
  \<^verbatim>\<open>a / b\<close> on numbers: the binary64 number nearest to the exact quotient of two finite
  numbers; a finite number divided by an infinity is zero; an infinity divided by a
  finite number is an infinity; an infinity divided by an infinity is \<^verbatim>\<open>NaN\<close>, and so is
  everything divided by or dividing \<^verbatim>\<open>NaN\<close>. A zero divisor is the positive zero (the service
  makes no other: \<^verbatim>\<open>|| 0\<close> replaces the negative one): dividing by it gives the infinity of
  the sign of the dividend, and \<^verbatim>\<open>NaN\<close> for \<open>0 / 0\<close>.
\<close>

fun number_divide :: "number \<Rightarrow> number \<Rightarrow> number" where
  "number_divide NaN b = NaN"
| "number_divide a NaN = NaN"
| "number_divide (Num x) (Num y) =
     (if y = 0 then (if 0 < x then Infinity else if x < 0 then Minus_Infinity else NaN)
      else binary64 (x / y))"
| "number_divide (Num x) b = Num 0"
| "number_divide Infinity (Num y) = (if 0 \<le> y then Infinity else Minus_Infinity)"
| "number_divide Minus_Infinity (Num y) = (if 0 \<le> y then Minus_Infinity else Infinity)"
| "number_divide a b = NaN"

text \<open>\<^verbatim>\<open>totalKwhConsumedAc > 0 ? totalKwhDeliveredDc / totalKwhConsumedAc : 0\<close> on numbers.\<close>

definition efficiencyRatio_binary64 :: "number \<Rightarrow> number \<Rightarrow> number" where
  "efficiencyRatio_binary64 totalConsumedAc totalDeliveredDc =
     (if number_gt totalConsumedAc (Num 0) then number_divide totalDeliveredDc totalConsumedAc
      else Num 0)"

text \<open>The \<^verbatim>\<open>if / else if / else\<close> chain that sets \<^verbatim>\<open>healthStatus\<close>; the literals \<^verbatim>\<open>0.85\<close> and
  \<^verbatim>\<open>0.75\<close> denote the binary64 numbers nearest to them.\<close>

definition healthStatus_of :: "number \<Rightarrow> health" where
  "healthStatus_of ratio =
     (if number_ge ratio (binary64 0.85) then healthy
      else if number_ge ratio (binary64 0.75) then degraded
      else critical)"

subsection \<open>The report\<close>

text \<open>
  The tail both query functions share word for word, from
  \<^verbatim>\<open>const totalKwhConsumedAc = parseFloat(meterData[0]?.total_kwh_consumed_ac) || 0\<close> to the
  \<^verbatim>\<open>result\<close> object. The two totals are decimal strings: \<^verbatim>\<open>parseFloat\<close> reads each as the
  binary64 number nearest to its decimal, from which the tier is decided (a total that
  rounds to zero is zero with or without \<^verbatim>\<open>|| 0\<close>).
\<close>

definition performanceResult :: "string \<Rightarrow> vehicleStats \<Rightarrow> real option \<Rightarrow> PerformanceAnalyticsDto" where
  "performanceResult vehicle stats total_kwh_consumed_ac =
     (let totalConsumedAc = parseFloat_or_0 total_kwh_consumed_ac;
          totalDeliveredDc = parseFloat_or_0 (total_kwh_delivered_dc stats);
          ratio = efficiencyRatio_of totalConsumedAc totalDeliveredDc
      in \<lparr>pa_vehicleId = vehicle,
          periodStart = period_start stats,
          periodEnd = period_end stats,
          totalKwhConsumedAc = toFixed 3 totalConsumedAc,
          totalKwhDeliveredDc = toFixed 3 totalDeliveredDc,
          efficiencyRatio = toFixed 4 ratio,
          avgBatteryTemp = toFixed 2 (parseFloat_or_0 (avg_battery_temp stats)),
          readingCount = reading_count stats,
          healthStatus = healthStatus_of
            (efficiencyRatio_binary64 (binary64 totalConsumedAc) (binary64 totalDeliveredDc))\<rparr>)"

subsection \<open>The two query functions\<close>

text \<open>
  \<open>now\<close> is the value of \<^verbatim>\<open>new Date()\<close> at the call; \<open>fault 0\<close> and \<open>fault 1\<close> are the errors
  the storage injects into the vehicle query and the meter query.
\<close>

definition getVehiclePerformance24h ::
  "(nat \<Rightarrow> db_error option) \<Rightarrow> instant \<Rightarrow> db \<Rightarrow> string \<Rightarrow> analytics_error + PerformanceAnalyticsDto" where
  "getVehiclePerformance24h fault now s vehicle =
     (let twentyFourHoursAgo = now - 24 * 60 * 60 * 1000 in
      case fault 0 of
        Some e \<Rightarrow> Inl (QueryFailed e)
      | None \<Rightarrow>
         (case vehicleQuery s vehicle twentyFourHoursAgo now of
            [] \<Rightarrow> Inl NotFoundException
          | stats # _ \<Rightarrow>
             (case fault 1 of
                Some e \<Rightarrow> Inl (QueryFailed e)
              | None \<Rightarrow>
                 Inr (performanceResult vehicle stats
                        (meterQuery s twentyFourHoursAgo now None)))))"

text \<open>\<^verbatim>\<open>if (meterId)\<close> is false for \<^verbatim>\<open>undefined\<close> and for the empty string.\<close>

definition getVehiclePerformanceWithMeter ::
  "(nat \<Rightarrow> db_error option) \<Rightarrow> instant \<Rightarrow> db \<Rightarrow> string \<Rightarrow> string option
     \<Rightarrow> analytics_error + PerformanceAnalyticsDto" where
  "getVehiclePerformanceWithMeter fault now s vehicle meterId_opt =
     (let twentyFourHoursAgo = now - 24 * 60 * 60 * 1000 in
      case fault 0 of
        Some e \<Rightarrow> Inl (QueryFailed e)
      | None \<Rightarrow>
         (case vehicleQuery s vehicle twentyFourHoursAgo now of
            [] \<Rightarrow> Inl NotFoundException
          | stats # _ \<Rightarrow>
             (let meterFilter = (case meterId_opt of
                                   None \<Rightarrow> None
                                 | Some m \<Rightarrow> if m = [] then None else Some m) in
              case fault 1 of
                Some e \<Rightarrow> Inl (QueryFailed e)
              | None \<Rightarrow>
                 Inr (performanceResult vehicle stats
                        (meterQuery s twentyFourHoursAgo now meterFilter)))))"



section \<open>Notions the properties are stated with\<close>

text \<open>The database with the readings \<open>vs\<close> applied one after the other, each to both of its
  tables: the state a run is compared with.\<close>

definition withMeterReadings :: "MeterTelemetryDto list \<Rightarrow> db \<Rightarrow> db" where
  "withMeterReadings vs s =
     s\<lparr>current_meter_status := fold upsert_CurrentMeterStatus vs (current_meter_status s),
       meter_telemetry_history := meter_telemetry_history s @ map meterHistoryRow vs\<rparr>"

definition withVehicleReadings :: "VehicleTelemetryDto list \<Rightarrow> db \<Rightarrow> db" where
  "withVehicleReadings vs s =
     s\<lparr>current_vehicle_status := fold upsert_CurrentVehicleStatus vs (current_vehicle_status s),
       vehicle_telemetry_history := vehicle_telemetry_history s @ map vehicleHistoryRow vs\<rparr>"

text \<open>The number of chunks of \<open>n\<close> readings, and the number of history rows of one device.\<close>

definition chunkCount :: "nat \<Rightarrow> nat" where
  "chunkCount n = (n + (batchSize - 1)) div batchSize"

definition meterRowCount :: "string \<Rightarrow> db \<Rightarrow> nat" where
  "meterRowCount dev s = length (filter (\<lambda>r. mh_meterId r = dev) (meter_telemetry_history s))"

definition vehicleRowCount :: "string \<Rightarrow> db \<Rightarrow> nat" where
  "vehicleRowCount dev s = length (filter (\<lambda>r. vh_vehicleId r = dev) (vehicle_telemetry_history s))"

text \<open>
  The energy the analytics sum over the 24 hours up to \<open>now\<close>: over every meter reading,
  whatever its meter; over the readings of one meter; over the readings of one vehicle.
\<close>

definition fleetEnergy :: "db \<Rightarrow> instant \<Rightarrow> real" where
  "fleetEnergy s now =
     sum_list (map mh_kwhConsumedAc
       (filter (\<lambda>r. now - 86400000 \<le> mh_timestamp r \<and> mh_timestamp r \<le> now)
          (meter_telemetry_history s)))"

definition meterEnergy :: "db \<Rightarrow> string \<Rightarrow> instant \<Rightarrow> real" where
  "meterEnergy s m now =
     sum_list (map mh_kwhConsumedAc
       (filter (\<lambda>r. mh_meterId r = m \<and> now - 86400000 \<le> mh_timestamp r \<and> mh_timestamp r \<le> now)
          (meter_telemetry_history s)))"

definition vehicleEnergy :: "db \<Rightarrow> string \<Rightarrow> instant \<Rightarrow> real" where
  "vehicleEnergy s v now =
     sum_list (map vh_kwhDeliveredDc
       (filter (\<lambda>r. vh_vehicleId r = v \<and> now - 86400000 \<le> vh_timestamp r \<and> vh_timestamp r \<le> now)
          (vehicle_telemetry_history s)))"

subsection \<open>Sample data\<close>

text \<open>
  The freshly initialised database of \<^verbatim>\<open>init-db.sql\<close>: empty tables, and the partitions of
  9, 10 and 11 February 2026 (UTC) on both history tables. The sample readings carry the
  example values of the DTOs and are stamped \<^verbatim>\<open>2026-02-09T10:30:00Z\<close>.
\<close>

definition feb09 :: instant where "feb09 = 1770595200000"
definition feb10 :: instant where "feb10 = 1770681600000"
definition feb11 :: instant where "feb11 = 1770768000000"
definition feb12 :: instant where "feb12 = 1770854400000"

definition db0 :: db where
  "db0 = \<lparr>current_meter_status = Map.empty, current_vehicle_status = Map.empty,
          meter_telemetry_history = [], vehicle_telemetry_history = [],
          meter_history_partitions = [(feb09, feb10), (feb10, feb11), (feb11, feb12)],
          vehicle_history_partitions = [(feb09, feb10), (feb10, feb11), (feb11, feb12)]\<rparr>"

definition meter_001 :: MeterTelemetryDto where
  "meter_001 = \<lparr>meterId = ''METER_001'', kwhConsumedAc = 125.456, voltage = 240.5,
                timestamp = 1770633000000\<rparr>"

definition vehicle_001 :: VehicleTelemetryDto where
  "vehicle_001 = \<lparr>vehicleId = ''VEHICLE_001'', soc = 85.5, kwhDeliveredDc = 106.638,
                  batteryTemp = Some 35.2, timestamp_v = 1770633000000\<rparr>"

text \<open>Readings of the same two devices one minute later; the vehicle's omits
  \<^verbatim>\<open>batteryTemp\<close>.\<close>

definition meter_001_later :: MeterTelemetryDto where
  "meter_001_later = \<lparr>meterId = ''METER_001'', kwhConsumedAc = 130, voltage = 239,
                      timestamp = 1770633060000\<rparr>"

definition vehicle_001_later :: VehicleTelemetryDto where
  "vehicle_001_later = \<lparr>vehicleId = ''VEHICLE_001'', soc = 86, kwhDeliveredDc = 107,
                        batteryTemp = None, timestamp_v = 1770633060000\<rparr>"

text \<open>Readings of the same two devices one minute earlier, with more decimals than their
  columns keep.\<close>

definition meter_001_fine :: MeterTelemetryDto where
  "meter_001_fine = \<lparr>meterId = ''METER_001'', kwhConsumedAc = 0.0005, voltage = 240.555,
                     timestamp = 1770632940000\<rparr>"

definition vehicle_001_fine :: VehicleTelemetryDto where
  "vehicle_001_fine = \<lparr>vehicleId = ''VEHICLE_001'', soc = 85.555, kwhDeliveredDc = 0.0005,
                       batteryTemp = Some 35.205, timestamp_v = 1770632940000\<rparr>"

text \<open>Readings stamped 1 March 2026, for which no partition exists.\<close>

definition meter_001_march :: MeterTelemetryDto where
  "meter_001_march = \<lparr>meterId = ''METER_001'', kwhConsumedAc = 140, voltage = 240,
                      timestamp = 1772323200000\<rparr>"

definition vehicle_001_march :: VehicleTelemetryDto where
  "vehicle_001_march = \<lparr>vehicleId = ''VEHICLE_001'', soc = 90, kwhDeliveredDc = 110,
                        batteryTemp = None, timestamp_v = 1772323200000\<rparr>"

text \<open>Fleets of \<open>n \<le> 2500\<close> devices with pairwise different ids, one reading each.\<close>

definition deviceSuffix :: "nat \<Rightarrow> string" where
  "deviceSuffix i = [char_of (48 + i div 50), char_of (48 + i mod 50)]"

definition meterFleet :: "nat \<Rightarrow> MeterTelemetryDto list" where
  "meterFleet n =
     map (\<lambda>i. \<lparr>meterId = ''METER_'' @ deviceSuffix i, kwhConsumedAc = 100, voltage = 240,
               timestamp = 1770633000000\<rparr>) [0..<n]"

definition vehicleFleet :: "nat \<Rightarrow> VehicleTelemetryDto list" where
  "vehicleFleet n =
     map (\<lambda>i. \<lparr>vehicleId = ''VEHICLE_'' @ deviceSuffix i, soc = 50, kwhDeliveredDc = 30,
               batteryTemp = Some 35, timestamp_v = 1770633000000\<rparr>) [0..<n]"

text \<open>A second meter, and the database after one meter reading of \<open>ac\<close> kWh and one vehicle
  reading of \<open>dc\<close> kWh have been ingested into the fresh one.\<close>

definition meter_002 :: MeterTelemetryDto where
  "meter_002 = \<lparr>meterId = ''METER_002'', kwhConsumedAc = 100, voltage = 240,
                timestamp = 1770633000000\<rparr>"

definition db_with_energy :: "real \<Rightarrow> real \<Rightarrow> db" where
  "db_with_energy ac dc =
     withVehicleReadings [vehicle_001\<lparr>kwhDeliveredDc := dc\<rparr>]
       (withMeterReadings [meter_001\<lparr>kwhConsumedAc := ac\<rparr>] db0)"

text \<open>The fresh database after the sample readings of two meters and of one vehicle.\<close>

definition db_two_meters :: db where
  "db_two_meters = withVehicleReadings [vehicle_001] (withMeterReadings [meter_001, meter_002] db0)"

text \<open>The time of the sample queries, \<^verbatim>\<open>2026-02-09T11:30:00Z\<close>, and the plan under which both
  queries run.\<close>

definition query_time :: instant where
  "query_time = 1770636600000"

definition no_query_faults :: "nat \<Rightarrow> db_error option" where
  "no_query_faults = (\<lambda>k. None)"

text \<open>The fault plan that fails the upsert of transaction \<open>k\<close> with a lost connection.\<close>

definition connectionLostAt :: "nat \<Rightarrow> faults" where
  "connectionLostAt k = (\<lambda>j st. if j = k \<and> st = HotUpsert then Some ConnectionLost else None)"


section \<open>Basic facts about statements, transactions and the chunk loop\<close>

lemma transaction_None: "transaction f s = (None, s') \<longleftrightarrow> f s = (None, s')"
  by (auto simp: transaction_def split: prod.splits option.splits)

lemma transaction_Some: "transaction f s = (Some e, s') \<longleftrightarrow> fst (f s) = Some e \<and> s' = s"
  by (auto simp: transaction_def split: prod.splits option.splits)

lemma meterDualWrite_None:
  "meterDualWrite fault vs s = (None, s') \<longleftrightarrow>
     fault HotUpsert = None \<and> fault ColdInsert = None \<and> distinct (map meterId vs)
     \<and> list_all (\<lambda>r. has_partition (meter_history_partitions s) (timestamp r)) vs
     \<and> s' = withMeterReadings vs s"
  by (auto simp: meterDualWrite_def execute_upsert_CurrentMeterStatus_def
      execute_insert_MeterTelemetryHistory_def withMeterReadings_def
      split: option.splits if_splits prod.splits)

lemma vehicleDualWrite_None:
  "vehicleDualWrite fault vs s = (None, s') \<longleftrightarrow>
     fault HotUpsert = None \<and> fault ColdInsert = None \<and> distinct (map vehicleId vs)
     \<and> list_all (\<lambda>r. has_partition (vehicle_history_partitions s) (timestamp_v r)) vs
     \<and> s' = withVehicleReadings vs s"
  by (auto simp: vehicleDualWrite_def execute_upsert_CurrentVehicleStatus_def
      execute_insert_VehicleTelemetryHistory_def withVehicleReadings_def
      split: option.splits if_splits prod.splits)

lemma withMeterReadings_append:
  "withMeterReadings (xs @ ys) s = withMeterReadings ys (withMeterReadings xs s)"
  by (simp add: withMeterReadings_def)

lemma withVehicleReadings_append:
  "withVehicleReadings (xs @ ys) s = withVehicleReadings ys (withVehicleReadings xs s)"
  by (simp add: withVehicleReadings_def)

lemma withMeterReadings_Nil: "withMeterReadings [] s = s"
  by (simp add: withMeterReadings_def)

lemma withVehicleReadings_Nil: "withVehicleReadings [] s = s"
  by (simp add: withVehicleReadings_def)

lemma take_chunks:
  "take (Suc k * n) (drop i xs) = take n (drop i xs) @ take (k * n) (drop (i + n) xs)"
  by (simp add: take_add add.commute)


lemma chunk_loop_stop: "\<not> i < length rs \<Longrightarrow> chunk_loop cb rs i s = (None, s, [], 0)"
  by (simp add: chunk_loop.simps)

lemma chunk_loop_fail:
  "i < length rs \<Longrightarrow> transaction (cb (i div batchSize) (slice rs i (i + batchSize))) s = (Some e, s1)
   \<Longrightarrow> chunk_loop cb rs i s = (Some e, s1, [], 1)"
  by (simp add: chunk_loop.simps[of cb rs i s])

lemma chunk_loop_step:
  "i < length rs \<Longrightarrow> transaction (cb (i div batchSize) (slice rs i (i + batchSize))) s = (None, s1)
   \<Longrightarrow> chunk_loop cb rs (i + batchSize) s1 = (r, s2, lg, n)
   \<Longrightarrow> chunk_loop cb rs i s = (r, s2, Debug_processed_batch (i div batchSize + 1) # lg, Suc n)"
  by (simp add: chunk_loop.simps[of cb rs i s])


text \<open>
  The chunk loop, for a callback whose committed effect on the database is \<open>ap\<close> of its
  chunk: started at index \<open>i\<close>, the loop commits \<open>k\<close> whole chunks and then either runs
  out of readings or stops at the transaction that threw.
\<close>

lemma chunk_arith:
  "i < (L::nat) \<Longrightarrow>
     (L - i + (batchSize - 1)) div batchSize = Suc ((L - (i + batchSize) + (batchSize - 1)) div batchSize)"
proof (cases "i + batchSize \<le> L")
  case True
  then have "L - i + (batchSize - 1) = (L - (i + batchSize) + (batchSize - 1)) + batchSize" by simp
  then show ?thesis by (simp only: div_add_self2) (simp add: batchSize_def)
next
  case False
  assume "i < L"
  with False have "L - (i + batchSize) = 0" "batchSize \<le> L - i + (batchSize - 1)"
    "L - i + (batchSize - 1) < 2 * batchSize" by (simp_all add: batchSize_def)
  then show ?thesis by (simp add: batchSize_def)
qed

lemma chunk_loop_run:
  assumes app: "\<And>xs ys s. ap (xs @ ys) s = ap ys (ap xs s)"
    and nil: "\<And>s. ap [] s = s"
  shows "(\<And>k b s s'. cb k b s = (None, s') \<Longrightarrow> s' = ap b s) \<Longrightarrow>
     chunk_loop cb rs i s = (r, s', lg, n) \<Longrightarrow>
     \<exists>k. s' = ap (take (k * batchSize) (drop i rs)) s
        \<and> lg = map (\<lambda>j. Debug_processed_batch (i div batchSize + j + 1)) [0..<k]
        \<and> (case r of
              None \<Rightarrow> n = k \<and> k = (length rs - i + (batchSize - 1)) div batchSize
            | Some e \<Rightarrow> n = Suc k \<and> i + k * batchSize < length rs
                \<and> fst (cb (i div batchSize + k)
                          (slice rs (i + k * batchSize) (i + k * batchSize + batchSize)) s') = Some e)"
proof (induction cb rs i s arbitrary: r s' lg n rule: chunk_loop.induct)
  case (1 cb readings i s)
  note eff = "1.prems"(1) and run = "1.prems"(2)
  show ?case
  proof (cases "i < length readings")
    case False
    with run have "r = None" "s' = s" "lg = []" "n = 0"
      by (simp_all add: chunk_loop_stop)
    with False show ?thesis
      by (intro exI[of _ 0]) (simp add: nil batchSize_def)
  next
    case True
    let ?batch = "slice readings i (i + batchSize)"
    obtain r1 s1 where tx: "transaction (cb (i div batchSize) ?batch) s = (r1, s1)"
      by (cases "transaction (cb (i div batchSize) ?batch) s")
    show ?thesis
    proof (cases r1)
      case (Some e)
      with tx True run have res: "r = Some e" "s' = s1" "lg = []" "n = 1"
        by (simp_all add: chunk_loop_fail)
      from tx Some have "fst (cb (i div batchSize) ?batch s) = Some e" "s1 = s"
        by (simp_all add: transaction_Some)
      with res True show ?thesis
        by (intro exI[of _ 0]) (simp add: nil)
    next
      case None
      with tx have s1: "s1 = ap ?batch s"
        by (auto simp: transaction_None dest: eff)
      obtain r2 s2 lg2 n2 where rec: "chunk_loop cb readings (i + batchSize) s1 = (r2, s2, lg2, n2)"
        by (cases "chunk_loop cb readings (i + batchSize) s1") auto
      from chunk_loop_step[OF True tx[unfolded None] rec] run
      have res: "r = r2" "s' = s2" "lg = Debug_processed_batch (i div batchSize + 1) # lg2" "n = Suc n2"
        by simp_all
      have "\<exists>k. s2 = ap (take (k * batchSize) (drop (i + batchSize) readings)) s1
        \<and> lg2 = map (\<lambda>j. Debug_processed_batch ((i + batchSize) div batchSize + j + 1)) [0..<k]
        \<and> (case r2 of
              None \<Rightarrow> n2 = k \<and> k = (length readings - (i + batchSize) + (batchSize - 1)) div batchSize
            | Some e \<Rightarrow> n2 = Suc k \<and> i + batchSize + k * batchSize < length readings
                \<and> fst (cb ((i + batchSize) div batchSize + k)
                          (slice readings (i + batchSize + k * batchSize) (i + batchSize + k * batchSize + batchSize)) s2) = Some e)"
        by (rule "1.IH"[OF True refl tx[unfolded None, symmetric] refl _ rec]) (erule eff)
      then obtain k where k: "s2 = ap (take (k * batchSize) (drop (i + batchSize) readings)) s1"
        "lg2 = map (\<lambda>j. Debug_processed_batch ((i + batchSize) div batchSize + j + 1)) [0..<k]"
        "(case r2 of
              None \<Rightarrow> n2 = k \<and> k = (length readings - (i + batchSize) + (batchSize - 1)) div batchSize
            | Some e \<Rightarrow> n2 = Suc k \<and> i + batchSize + k * batchSize < length readings
                \<and> fst (cb ((i + batchSize) div batchSize + k)
                          (slice readings (i + batchSize + k * batchSize) (i + batchSize + k * batchSize + batchSize)) s2) = Some e)"
        by blast
      have bs: "0 < batchSize" by (simp add: batchSize_def)
      have d: "(i + batchSize) div batchSize = Suc (i div batchSize)"
        using bs by simp
      have st: "s' = ap (take (Suc k * batchSize) (drop i readings)) s"
        unfolding res k s1 take_chunks app slice_def by simp
      have lgs: "lg = map (\<lambda>j. Debug_processed_batch (i div batchSize + j + 1)) [0..<Suc k]"
        unfolding res k d by (simp add: upt_rec[of 0 "Suc k"] map_Suc_upt[symmetric] del: upt_Suc)
      have cs: "(case r of
              None \<Rightarrow> n = Suc k \<and> Suc k = (length readings - i + (batchSize - 1)) div batchSize
            | Some e \<Rightarrow> n = Suc (Suc k) \<and> i + Suc k * batchSize < length readings
                \<and> fst (cb (i div batchSize + Suc k)
                          (slice readings (i + Suc k * batchSize) (i + Suc k * batchSize + batchSize)) s') = Some e)"
      proof (cases r2)
        case None
        from k(3) None have n2: "n2 = k"
          and kk: "k = (length readings - (i + batchSize) + (batchSize - 1)) div batchSize"
          by simp_all
        have "Suc k = (length readings - i + (batchSize - 1)) div batchSize"
          unfolding chunk_arith[OF True] using kk by (rule arg_cong)
        with n2 show ?thesis unfolding res(1) res(4) None by (simp only: option.case)
      next
        case (Some e)
        with k(3) res d show ?thesis by (simp add: add.assoc add.commute add.left_commute)
      qed
      from st lgs cs show ?thesis by blast
    qed
  qed
qed


lemma transaction_eq:
  "transaction f s = (case fst (f s) of None \<Rightarrow> (None, snd (f s)) | Some e \<Rightarrow> (Some e, s))"
  by (simp add: transaction_def split: prod.splits option.splits)

lemma meterDualWrite_snd:
  "fst (meterDualWrite fault vs s) = None \<Longrightarrow> snd (meterDualWrite fault vs s) = withMeterReadings vs s"
  using meterDualWrite_None[of fault vs s "snd (meterDualWrite fault vs s)"]
  by (cases "meterDualWrite fault vs s") simp

lemma vehicleDualWrite_snd:
  "fst (vehicleDualWrite fault vs s) = None \<Longrightarrow> snd (vehicleDualWrite fault vs s) = withVehicleReadings vs s"
  using vehicleDualWrite_None[of fault vs s "snd (vehicleDualWrite fault vs s)"]
  by (cases "vehicleDualWrite fault vs s") simp

lemma ingestMeterTelemetry_thrown:
  "thrown (ingestMeterTelemetry fault d s) = fst (meterDualWrite (fault 0) [d] s)"
  by (simp add: ingestMeterTelemetry_def transaction_eq split: option.splits)

lemma ingestVehicleTelemetry_thrown:
  "thrown (ingestVehicleTelemetry fault d s) = fst (vehicleDualWrite (fault 0) [d] s)"
  by (simp add: ingestVehicleTelemetry_def transaction_eq split: option.splits)

lemma ingestMeterTelemetry_store:
  "store (ingestMeterTelemetry fault d s) =
     (case thrown (ingestMeterTelemetry fault d s) of None \<Rightarrow> withMeterReadings [d] s | Some e \<Rightarrow> s)"
  by (simp add: ingestMeterTelemetry_def transaction_eq meterDualWrite_snd split: option.splits)

lemma ingestVehicleTelemetry_store:
  "store (ingestVehicleTelemetry fault d s) =
     (case thrown (ingestVehicleTelemetry fault d s) of None \<Rightarrow> withVehicleReadings [d] s | Some e \<Rightarrow> s)"
  by (simp add: ingestVehicleTelemetry_def transaction_eq vehicleDualWrite_snd split: option.splits)

lemma upsert_meter_holds:
  "\<exists>c. upsert_CurrentMeterStatus d tbl (meterId d) = Some c
     \<and> cm_kwhConsumedAc c = decimal_column 3 (kwhConsumedAc d)
     \<and> cm_voltage c = decimal_column 2 (voltage d)
     \<and> cm_lastUpdateTimestamp c = timestamp d"
  by (cases "tbl (meterId d)") (simp_all add: upsert_CurrentMeterStatus_def)

lemma upsert_vehicle_holds:
  "\<exists>c. upsert_CurrentVehicleStatus d tbl (vehicleId d) = Some c
     \<and> cv_soc c = decimal_column 2 (soc d)
     \<and> cv_kwhDeliveredDc c = decimal_column 3 (kwhDeliveredDc d)
     \<and> cv_batteryTemp c = map_option (decimal_column 2) (batteryTemp d)
     \<and> cv_lastUpdateTimestamp c = timestamp_v d"
  by (cases "tbl (vehicleId d)") (simp_all add: upsert_CurrentVehicleStatus_def)

lemma decimal_column_grid:
  "decimal_column s (real_of_int n / 10 ^ s) = real_of_int n / 10 ^ s"
proof -
  have "\<bar>real_of_int n / 10 ^ s\<bar> * 10 ^ s + 1 / 2 = real_of_int \<bar>n\<bar> + 1 / 2" by simp
  then have "\<lfloor>\<bar>real_of_int n / 10 ^ s\<bar> * 10 ^ s + 1 / 2\<rfloor> = \<bar>n\<bar>" by (simp only:) linarith
  moreover have "sgn (real_of_int n / 10 ^ s) = sgn (real_of_int n)"
    by (simp add: sgn_if zero_less_divide_iff divide_less_0_iff)
  moreover have "sgn (real_of_int n) * real_of_int \<bar>n\<bar> = real_of_int n"
    by (simp add: sgn_if)
  ultimately show ?thesis
    by (simp add: decimal_column_def)
qed

lemma decimal_column_3: "x = real_of_int n / 1000 \<Longrightarrow> decimal_column 3 x = x"
proof -
  assume x: "x = real_of_int n / 1000"
  have e: "(10::real) ^ 3 = 1000" by simp
  from decimal_column_grid[of 3 n] show ?thesis unfolding e x .
qed

lemma decimal_column_2: "x = real_of_int n / 100 \<Longrightarrow> decimal_column 2 x = x"
proof -
  assume x: "x = real_of_int n / 100"
  have e: "(10::real) ^ 2 = 100" by simp
  from decimal_column_grid[of 2 n] show ?thesis unfolding e x .
qed

lemma decimal_column_option:
  "t = map_option (\<lambda>j. real_of_int j / 100) k \<Longrightarrow> map_option (decimal_column 2) t = t"
  by (cases k) (simp_all add: decimal_column_2[OF refl])

lemma decimal_column_close: "\<bar>decimal_column s x - x\<bar> \<le> 1 / (2 * 10 ^ s)"
proof -
  let ?y = "\<bar>x\<bar> * 10 ^ s"
  let ?f = "real_of_int \<lfloor>?y + 1 / 2\<rfloor>"
  have f: "\<bar>?f - ?y\<bar> \<le> 1 / 2" by linarith
  have "decimal_column s x - x = sgn x * ((?f - ?y) / 10 ^ s)"
    by (simp add: decimal_column_def sgn_if field_simps)
  then have "\<bar>decimal_column s x - x\<bar> = \<bar>sgn x\<bar> * (\<bar>?f - ?y\<bar> / 10 ^ s)"
    by (simp add: abs_mult)
  also have "\<dots> \<le> 1 * (\<bar>?f - ?y\<bar> / 10 ^ s)"
    by (intro mult_right_mono) (simp_all add: sgn_if)
  also have "\<dots> \<le> 1 * ((1 / 2) / 10 ^ s)"
    using f by (intro mult_left_mono divide_right_mono) simp_all
  finally show ?thesis by simp
qed

lemma decimal_column_close_3: "\<bar>decimal_column 3 x - x\<bar> \<le> 0.0005"
  using decimal_column_close[of 3 x] by simp

lemma decimal_column_close_2: "\<bar>decimal_column 2 x - x\<bar> \<le> 0.005"
  using decimal_column_close[of 2 x] by simp


lemma ingestMeterTelemetry_transactions: "transactions (ingestMeterTelemetry fault d s) = 1"
  by (simp add: ingestMeterTelemetry_def split: prod.splits option.splits)

lemma ingestVehicleTelemetry_transactions: "transactions (ingestVehicleTelemetry fault d s) = 1"
  by (simp add: ingestVehicleTelemetry_def split: prod.splits option.splits)

lemma transaction_commit: "f s = (None, s') \<Longrightarrow> transaction f s = (None, s')"
  by (simp add: transaction_def)

lemma transaction_rollback: "fst (f s) = Some e \<Longrightarrow> transaction f s = (Some e, s)"
  by (simp add: transaction_eq)

lemma chunkCount_covers: "n \<le> chunkCount n * batchSize"
proof -
  let ?m = "n + (batchSize - 1)"
  have "?m = ?m div batchSize * batchSize + ?m mod batchSize" by simp
  moreover have "?m mod batchSize \<le> batchSize - 1" by (simp add: batchSize_def)
  ultimately have "?m \<le> ?m div batchSize * batchSize + (batchSize - 1)" by linarith
  then show ?thesis by (simp add: chunkCount_def)
qed

lemma slice_set: "set (slice xs a b) \<subseteq> set xs"
  unfolding slice_def by (meson set_take_subset set_drop_subset subset_trans)

lemma slice_distinct: "distinct (map f xs) \<Longrightarrow> distinct (map f (slice xs a b))"
  unfolding slice_def by (simp add: take_map[symmetric] drop_map[symmetric] distinct_take distinct_drop)

lemma slice_all: "list_all P xs \<Longrightarrow> list_all P (slice xs a b)"
  using slice_set[of xs a b] by (auto simp: list_all_iff)

lemma meterDualWrite_succeeds:
  "fault HotUpsert = None \<Longrightarrow> fault ColdInsert = None \<Longrightarrow> distinct (map meterId vs) \<Longrightarrow>
   list_all (\<lambda>r. has_partition (meter_history_partitions s) (timestamp r)) vs \<Longrightarrow>
   meterDualWrite fault vs s = (None, withMeterReadings vs s)"
  by (simp add: meterDualWrite_None)

lemma vehicleDualWrite_succeeds:
  "fault HotUpsert = None \<Longrightarrow> fault ColdInsert = None \<Longrightarrow> distinct (map vehicleId vs) \<Longrightarrow>
   list_all (\<lambda>r. has_partition (vehicle_history_partitions s) (timestamp_v r)) vs \<Longrightarrow>
   vehicleDualWrite fault vs s = (None, withVehicleReadings vs s)"
  by (simp add: vehicleDualWrite_None)

lemma meterDualWrite_fault: "fault HotUpsert = Some e \<Longrightarrow> fst (meterDualWrite fault vs s) = Some e"
  by (simp add: meterDualWrite_def execute_upsert_CurrentMeterStatus_def)

lemma vehicleDualWrite_fault: "fault HotUpsert = Some e \<Longrightarrow> fst (vehicleDualWrite fault vs s) = Some e"
  by (simp add: vehicleDualWrite_def execute_upsert_CurrentVehicleStatus_def)

lemma withMeterReadings_partitions [simp]:
  "meter_history_partitions (withMeterReadings vs s) = meter_history_partitions s"
  by (simp add: withMeterReadings_def)

lemma withVehicleReadings_partitions [simp]:
  "vehicle_history_partitions (withVehicleReadings vs s) = vehicle_history_partitions s"
  by (simp add: withVehicleReadings_def)

text \<open>What a batch call leaves behind, in terms of the number \<open>k\<close> of chunks it committed.\<close>

lemma ingestMeterBatch_run:
  "\<exists>k. store (ingestMeterBatch fault rs s) = withMeterReadings (take (k * batchSize) rs) s
      \<and> logged (ingestMeterBatch fault rs s)
          = map (\<lambda>j. Debug_processed_batch (j + 1)) [0..<k]
            @ [case thrown (ingestMeterBatch fault rs s) of
                 None \<Rightarrow> Log_batch_ingested (length rs) | Some e \<Rightarrow> Error_failed e]
      \<and> (case thrown (ingestMeterBatch fault rs s) of
            None \<Rightarrow> transactions (ingestMeterBatch fault rs s) = k \<and> k = chunkCount (length rs)
          | Some e \<Rightarrow> transactions (ingestMeterBatch fault rs s) = Suc k \<and> k * batchSize < length rs
              \<and> fst (meterDualWrite (fault k) (slice rs (k * batchSize) (k * batchSize + batchSize))
                       (store (ingestMeterBatch fault rs s))) = Some e)"
proof -
  obtain r s' lg n where run: "chunk_loop (\<lambda>k. meterDualWrite (fault k)) rs 0 s = (r, s', lg, n)"
    by (cases "chunk_loop (\<lambda>k. meterDualWrite (fault k)) rs 0 s") auto
  have out: "thrown (ingestMeterBatch fault rs s) = r" "store (ingestMeterBatch fault rs s) = s'"
    "transactions (ingestMeterBatch fault rs s) = n"
    "logged (ingestMeterBatch fault rs s)
       = lg @ [case r of None \<Rightarrow> Log_batch_ingested (length rs) | Some e \<Rightarrow> Error_failed e]"
    by (simp_all add: ingestMeterBatch_def run split: option.splits)
  have "\<exists>k. s' = withMeterReadings (take (k * batchSize) (drop 0 rs)) s
        \<and> lg = map (\<lambda>j. Debug_processed_batch (0 div batchSize + j + 1)) [0..<k]
        \<and> (case r of
              None \<Rightarrow> n = k \<and> k = (length rs - 0 + (batchSize - 1)) div batchSize
            | Some e \<Rightarrow> n = Suc k \<and> 0 + k * batchSize < length rs
                \<and> fst (meterDualWrite (fault (0 div batchSize + k))
                          (slice rs (0 + k * batchSize) (0 + k * batchSize + batchSize)) s') = Some e)"
    by (rule chunk_loop_run[where ap = withMeterReadings, OF withMeterReadings_append withMeterReadings_Nil _ run])
       (simp add: meterDualWrite_None)
  then show ?thesis
    unfolding out by (simp add: chunkCount_def cong: option.case_cong)
qed


lemma ingestVehicleBatch_run:
  "\<exists>k. store (ingestVehicleBatch fault rs s) = withVehicleReadings (take (k * batchSize) rs) s
      \<and> logged (ingestVehicleBatch fault rs s)
          = map (\<lambda>j. Debug_processed_batch (j + 1)) [0..<k]
            @ [case thrown (ingestVehicleBatch fault rs s) of
                 None \<Rightarrow> Log_batch_ingested (length rs) | Some e \<Rightarrow> Error_failed e]
      \<and> (case thrown (ingestVehicleBatch fault rs s) of
            None \<Rightarrow> transactions (ingestVehicleBatch fault rs s) = k \<and> k = chunkCount (length rs)
          | Some e \<Rightarrow> transactions (ingestVehicleBatch fault rs s) = Suc k \<and> k * batchSize < length rs
              \<and> fst (vehicleDualWrite (fault k) (slice rs (k * batchSize) (k * batchSize + batchSize))
                       (store (ingestVehicleBatch fault rs s))) = Some e)"
proof -
  obtain r s' lg n where run: "chunk_loop (\<lambda>k. vehicleDualWrite (fault k)) rs 0 s = (r, s', lg, n)"
    by (cases "chunk_loop (\<lambda>k. vehicleDualWrite (fault k)) rs 0 s") auto
  have out: "thrown (ingestVehicleBatch fault rs s) = r" "store (ingestVehicleBatch fault rs s) = s'"
    "transactions (ingestVehicleBatch fault rs s) = n"
    "logged (ingestVehicleBatch fault rs s)
       = lg @ [case r of None \<Rightarrow> Log_batch_ingested (length rs) | Some e \<Rightarrow> Error_failed e]"
    by (simp_all add: ingestVehicleBatch_def run split: option.splits)
  have "\<exists>k. s' = withVehicleReadings (take (k * batchSize) (drop 0 rs)) s
        \<and> lg = map (\<lambda>j. Debug_processed_batch (0 div batchSize + j + 1)) [0..<k]
        \<and> (case r of
              None \<Rightarrow> n = k \<and> k = (length rs - 0 + (batchSize - 1)) div batchSize
            | Some e \<Rightarrow> n = Suc k \<and> 0 + k * batchSize < length rs
                \<and> fst (vehicleDualWrite (fault (0 div batchSize + k))
                          (slice rs (0 + k * batchSize) (0 + k * batchSize + batchSize)) s') = Some e)"
    by (rule chunk_loop_run[where ap = withVehicleReadings, OF withVehicleReadings_append withVehicleReadings_Nil _ run])
       (simp add: vehicleDualWrite_None)
  then show ?thesis
    unfolding out by (simp add: chunkCount_def cong: option.case_cong)
qed


text \<open>A batch goes through when the storage accepts every statement, no two readings name
  the same device and every timestamp has its partition.\<close>

lemma ingestMeterBatch_succeeds:
  assumes nf: "\<And>k st. fault k st = None"
    and dist: "distinct (map meterId rs)"
    and part: "list_all (\<lambda>r. has_partition (meter_history_partitions s) (timestamp r)) rs"
  shows "thrown (ingestMeterBatch fault rs s) = None"
proof (rule ccontr)
  assume "thrown (ingestMeterBatch fault rs s) \<noteq> None"
  then obtain e where e: "thrown (ingestMeterBatch fault rs s) = Some e" by auto
  from ingestMeterBatch_run[of fault rs s] e
  obtain k where st: "store (ingestMeterBatch fault rs s) = withMeterReadings (take (k * batchSize) rs) s"
    and fl: "fst (meterDualWrite (fault k) (slice rs (k * batchSize) (k * batchSize + batchSize))
                       (store (ingestMeterBatch fault rs s))) = Some e"
    by auto
  have "meterDualWrite (fault k) (slice rs (k * batchSize) (k * batchSize + batchSize))
          (store (ingestMeterBatch fault rs s))
        = (None, withMeterReadings (slice rs (k * batchSize) (k * batchSize + batchSize))
                   (store (ingestMeterBatch fault rs s)))"
    by (rule meterDualWrite_succeeds) (simp_all add: nf slice_distinct[OF dist] st slice_all[OF part])
  with fl show False by simp
qed

lemma ingestVehicleBatch_succeeds:
  assumes nf: "\<And>k st. fault k st = None"
    and dist: "distinct (map vehicleId rs)"
    and part: "list_all (\<lambda>r. has_partition (vehicle_history_partitions s) (timestamp_v r)) rs"
  shows "thrown (ingestVehicleBatch fault rs s) = None"
proof (rule ccontr)
  assume "thrown (ingestVehicleBatch fault rs s) \<noteq> None"
  then obtain e where e: "thrown (ingestVehicleBatch fault rs s) = Some e" by auto
  from ingestVehicleBatch_run[of fault rs s] e
  obtain k where st: "store (ingestVehicleBatch fault rs s) = withVehicleReadings (take (k * batchSize) rs) s"
    and fl: "fst (vehicleDualWrite (fault k) (slice rs (k * batchSize) (k * batchSize + batchSize))
                       (store (ingestVehicleBatch fault rs s))) = Some e"
    by auto
  have "vehicleDualWrite (fault k) (slice rs (k * batchSize) (k * batchSize + batchSize))
          (store (ingestVehicleBatch fault rs s))
        = (None, withVehicleReadings (slice rs (k * batchSize) (k * batchSize + batchSize))
                   (store (ingestVehicleBatch fault rs s)))"
    by (rule vehicleDualWrite_succeeds) (simp_all add: nf slice_distinct[OF dist] st slice_all[OF part])
  with fl show False by simp
qed

text \<open>Unfolding sets for evaluating the service on the sample data.\<close>

lemmas sample_defs = db0_def feb09_def feb10_def feb11_def feb12_def meter_001_def vehicle_001_def
  meter_001_later_def vehicle_001_later_def meter_001_march_def vehicle_001_march_def meter_002_def
  meter_001_fine_def vehicle_001_fine_def

lemmas write_defs = meterDualWrite_def vehicleDualWrite_def execute_upsert_CurrentMeterStatus_def
  execute_upsert_CurrentVehicleStatus_def execute_insert_MeterTelemetryHistory_def
  execute_insert_VehicleTelemetryHistory_def transaction_def has_partition_def no_faults_def


lemma chunkCount_2500: "chunkCount 2500 = 3"
  by (simp add: chunkCount_def batchSize_def)

lemma below_chunkCount: "k * batchSize < n \<Longrightarrow> k < chunkCount n"
proof (rule ccontr)
  assume a: "k * batchSize < n" and "\<not> k < chunkCount n"
  then have "chunkCount n * batchSize \<le> k * batchSize" by simp
  with chunkCount_covers[of n] a show False by linarith
qed

lemma take_all_chunks: "take (chunkCount (length rs) * batchSize) rs = rs"
  using chunkCount_covers[of "length rs"] by simp

lemma meterBatch_chunks:
  "\<exists>k. store (ingestMeterBatch fault rs s) = withMeterReadings (take (k * batchSize) rs) s
      \<and> (case thrown (ingestMeterBatch fault rs s) of
            None \<Rightarrow> k = chunkCount (length rs)
              \<and> transactions (ingestMeterBatch fault rs s) = chunkCount (length rs)
              \<and> store (ingestMeterBatch fault rs s) = withMeterReadings rs s
          | Some e \<Rightarrow> k < chunkCount (length rs)
              \<and> transactions (ingestMeterBatch fault rs s) = k + 1
              \<and> fst (meterDualWrite (fault k) (slice rs (k * batchSize) (k * batchSize + batchSize))
                       (store (ingestMeterBatch fault rs s))) = Some e)"
proof -
  from ingestMeterBatch_run[of fault rs s] obtain k where
    st: "store (ingestMeterBatch fault rs s) = withMeterReadings (take (k * batchSize) rs) s"
    and cs: "(case thrown (ingestMeterBatch fault rs s) of
            None \<Rightarrow> transactions (ingestMeterBatch fault rs s) = k \<and> k = chunkCount (length rs)
          | Some e \<Rightarrow> transactions (ingestMeterBatch fault rs s) = Suc k \<and> k * batchSize < length rs
              \<and> fst (meterDualWrite (fault k) (slice rs (k * batchSize) (k * batchSize + batchSize))
                       (store (ingestMeterBatch fault rs s))) = Some e)"
    by blast
  show ?thesis
  proof (cases "thrown (ingestMeterBatch fault rs s)")
    case None
    with cs st show ?thesis by (intro exI[of _ k]) (simp add: take_all_chunks)
  next
    case (Some e)
    with cs st show ?thesis by (intro exI[of _ k]) (simp add: below_chunkCount)
  qed
qed

lemma meterBatch_second_unit:
  assumes "thrown (ingestMeterBatch fault rs s) \<noteq> None" "transactions (ingestMeterBatch fault rs s) = 2"
  shows "store (ingestMeterBatch fault rs s) = withMeterReadings (take 1000 rs) s"
proof -
  from assms obtain e where e: "thrown (ingestMeterBatch fault rs s) = Some e" by auto
  from ingestMeterBatch_run[of fault rs s] e assms(2)
  show ?thesis by (auto simp: batchSize_def)
qed

lemma vehicleBatch_chunks:
  "\<exists>k. store (ingestVehicleBatch fault rs s) = withVehicleReadings (take (k * batchSize) rs) s
      \<and> (case thrown (ingestVehicleBatch fault rs s) of
            None \<Rightarrow> k = chunkCount (length rs)
              \<and> transactions (ingestVehicleBatch fault rs s) = chunkCount (length rs)
              \<and> store (ingestVehicleBatch fault rs s) = withVehicleReadings rs s
          | Some e \<Rightarrow> k < chunkCount (length rs)
              \<and> transactions (ingestVehicleBatch fault rs s) = k + 1
              \<and> fst (vehicleDualWrite (fault k) (slice rs (k * batchSize) (k * batchSize + batchSize))
                       (store (ingestVehicleBatch fault rs s))) = Some e)"
proof -
  from ingestVehicleBatch_run[of fault rs s] obtain k where
    st: "store (ingestVehicleBatch fault rs s) = withVehicleReadings (take (k * batchSize) rs) s"
    and cs: "(case thrown (ingestVehicleBatch fault rs s) of
            None \<Rightarrow> transactions (ingestVehicleBatch fault rs s) = k \<and> k = chunkCount (length rs)
          | Some e \<Rightarrow> transactions (ingestVehicleBatch fault rs s) = Suc k \<and> k * batchSize < length rs
              \<and> fst (vehicleDualWrite (fault k) (slice rs (k * batchSize) (k * batchSize + batchSize))
                       (store (ingestVehicleBatch fault rs s))) = Some e)"
    by blast
  show ?thesis
  proof (cases "thrown (ingestVehicleBatch fault rs s)")
    case None
    with cs st show ?thesis by (intro exI[of _ k]) (simp add: take_all_chunks)
  next
    case (Some e)
    with cs st show ?thesis by (intro exI[of _ k]) (simp add: below_chunkCount)
  qed
qed

lemma vehicleBatch_second_unit:
  assumes "thrown (ingestVehicleBatch fault rs s) \<noteq> None" "transactions (ingestVehicleBatch fault rs s) = 2"
  shows "store (ingestVehicleBatch fault rs s) = withVehicleReadings (take 1000 rs) s"
proof -
  from assms obtain e where e: "thrown (ingestVehicleBatch fault rs s) = Some e" by auto
  from ingestVehicleBatch_run[of fault rs s] e assms(2)
  show ?thesis by (auto simp: batchSize_def)
qed


lemma meterRowCount_withMeter:
  "meterRowCount dev (withMeterReadings xs s)
     = meterRowCount dev s + length (filter (\<lambda>r. meterId r = dev) xs)"
  by (simp add: meterRowCount_def withMeterReadings_def meterHistoryRow_def filter_map o_def)

lemma vehicleRowCount_withVehicle:
  "vehicleRowCount dev (withVehicleReadings xs s)
     = vehicleRowCount dev s + length (filter (\<lambda>r. vehicleId r = dev) xs)"
  by (simp add: vehicleRowCount_def withVehicleReadings_def vehicleHistoryRow_def filter_map o_def)

lemma rowCount_other_class [simp]:
  "vehicleRowCount dev (withMeterReadings xs s) = vehicleRowCount dev s"
  "meterRowCount dev (withVehicleReadings ys s) = meterRowCount dev s"
  by (simp_all add: meterRowCount_def vehicleRowCount_def withMeterReadings_def withVehicleReadings_def)

lemma ingestMeterTelemetry_after:
  "store (ingestMeterTelemetry fault d s) = s \<or> store (ingestMeterTelemetry fault d s) = withMeterReadings [d] s"
  by (simp add: ingestMeterTelemetry_store split: option.splits)

lemma ingestVehicleTelemetry_after:
  "store (ingestVehicleTelemetry fault d s) = s \<or> store (ingestVehicleTelemetry fault d s) = withVehicleReadings [d] s"
  by (simp add: ingestVehicleTelemetry_store split: option.splits)

lemma ingestMeterBatch_after:
  "\<exists>xs. store (ingestMeterBatch fault rs s) = withMeterReadings xs s"
  using ingestMeterBatch_run[of fault rs s] by blast

lemma ingestVehicleBatch_after:
  "\<exists>xs. store (ingestVehicleBatch fault rs s) = withVehicleReadings xs s"
  using ingestVehicleBatch_run[of fault rs s] by blast

lemma ingestMeterBatch_ok:
  "thrown (ingestMeterBatch fault rs s) = None \<Longrightarrow> store (ingestMeterBatch fault rs s) = withMeterReadings rs s"
  using meterBatch_chunks[of fault rs s] by auto

lemma ingestVehicleBatch_ok:
  "thrown (ingestVehicleBatch fault rs s) = None \<Longrightarrow> store (ingestVehicleBatch fault rs s) = withVehicleReadings rs s"
  using vehicleBatch_chunks[of fault rs s] by auto

lemma meterBatch_failure:
  "thrown (ingestMeterBatch fault rs s) = Some e \<Longrightarrow>
     \<exists>k. k < chunkCount (length rs)
       \<and> store (ingestMeterBatch fault rs s) = withMeterReadings (take (k * batchSize) rs) s
       \<and> fst (meterDualWrite (fault k) (slice rs (k * batchSize) (k * batchSize + batchSize))
                (withMeterReadings (take (k * batchSize) rs) s)) = Some e
       \<and> logged (ingestMeterBatch fault rs s)
            = map (\<lambda>j. Debug_processed_batch (j + 1)) [0..<k] @ [Error_failed e]
       \<and> transactions (ingestMeterBatch fault rs s) = k + 1"
  using ingestMeterBatch_run[of fault rs s] by (auto simp: below_chunkCount)

lemma meterBatch_no_retry: "transactions (ingestMeterBatch fault rs s) \<le> chunkCount (length rs)"
  using meterBatch_chunks[of fault rs s] by (auto split: option.splits)

lemma vehicleBatch_failure:
  "thrown (ingestVehicleBatch fault rs s) = Some e \<Longrightarrow>
     \<exists>k. k < chunkCount (length rs)
       \<and> store (ingestVehicleBatch fault rs s) = withVehicleReadings (take (k * batchSize) rs) s
       \<and> fst (vehicleDualWrite (fault k) (slice rs (k * batchSize) (k * batchSize + batchSize))
                (withVehicleReadings (take (k * batchSize) rs) s)) = Some e
       \<and> logged (ingestVehicleBatch fault rs s)
            = map (\<lambda>j. Debug_processed_batch (j + 1)) [0..<k] @ [Error_failed e]
       \<and> transactions (ingestVehicleBatch fault rs s) = k + 1"
  using ingestVehicleBatch_run[of fault rs s] by (auto simp: below_chunkCount)

lemma vehicleBatch_no_retry: "transactions (ingestVehicleBatch fault rs s) \<le> chunkCount (length rs)"
  using vehicleBatch_chunks[of fault rs s] by (auto split: option.splits)


subsection \<open>Facts about the two queries and the report\<close>

lemma somes_map_Some: "[y. Some y \<leftarrow> map (\<lambda>r. Some (f r)) rows] = map f rows"
  by (induction rows) simp_all

lemma sql_SUM_total: "parseFloat_or_0 (sql_SUM (map (\<lambda>r. Some (f r)) rows)) = sum_list (map f rows)"
  unfolding sql_SUM_def somes_map_Some by (simp add: parseFloat_or_0_def)

lemma sql_AVG_all_null: "\<forall>x \<in> set xs. x = None \<Longrightarrow> sql_AVG xs = None"
proof -
  assume a: "\<forall>x \<in> set xs. x = None"
  then have "[y. Some y \<leftarrow> xs] = []"
    by (induction xs) simp_all
  then show ?thesis by (simp add: sql_AVG_def)
qed

lemma toFixed_0 [simp]: "toFixed d 0 = 0"
  by (simp add: toFixed_def)


text \<open>Binary64 rounding: how to evaluate it, and its relative error.\<close>

lemma roundTiesToEven_bounds:
  "real_of_int (roundTiesToEven y) \<le> y + 1 / 2" "y - 1 / 2 \<le> real_of_int (roundTiesToEven y)"
  unfolding roundTiesToEven_def Let_def by (auto; linarith)+

lemma roundTiesToEven_int [simp]: "roundTiesToEven (real_of_int n) = n"
  by (simp add: roundTiesToEven_def)

lemma roundTiesToEven_le: "y \<le> real_of_int n \<Longrightarrow> roundTiesToEven y \<le> n"
  unfolding roundTiesToEven_def Let_def by (auto; linarith)

lemma roundTiesToEven_nonneg: "0 \<le> y \<Longrightarrow> 0 \<le> roundTiesToEven y"
  unfolding roundTiesToEven_def Let_def by (auto; linarith)

lemma floor_log2:
  assumes "2 powi e \<le> x" "x < 2 powi (e + 1)"
  shows "\<lfloor>log 2 x\<rfloor> = e"
proof -
  have pos: "0 < x" using assms(1) zero_less_power_int[of "2::real" e] by linarith
  have "(2::real) powr real_of_int e = 2 powi e" "(2::real) powr real_of_int (e + 1) = 2 powi (e + 1)"
    using powr_real_of_int'[of 2 e] powr_real_of_int'[of 2 "e + 1"] by simp_all
  then have "2 powr real_of_int e \<le> x \<and> x < 2 powr real_of_int (e + 1)"
    using assms by simp
  then show ?thesis
    using pos floor_log_eq_powr_iff[of x 2 e] by simp
qed

lemma binary64_eval:
  assumes lo: "2 powi e \<le> \<bar>x\<bar>" and hi: "\<bar>x\<bar> < 2 powi (e + 1)"
    and e: "- 1022 \<le> e" "e < 1023"
    and m: "roundTiesToEven (\<bar>x\<bar> / 2 powi (e - 52)) = m"
  shows "binary64 x = Num (sgn x * (real_of_int m * 2 powi (e - 52)))"
proof -
  have x0: "x \<noteq> 0"
  proof
    assume "x = 0"
    with lo have "2 powi e \<le> (0::real)" by simp
    moreover have "0 < (2::real) powi e" by (rule zero_less_power_int) simp
    ultimately show False by linarith
  qed
  have fl: "\<lfloor>log 2 \<bar>x\<bar>\<rfloor> = e" using lo hi by (rule floor_log2)
  have ex: "max \<lfloor>log 2 \<bar>x\<bar>\<rfloor> (- 1022) = e" using fl e by simp
  have ulp: "0 < (2::real) powi (e - 52)" by simp
  have "\<bar>x\<bar> / 2 powi (e - 52) < 2 powi (e + 1) / 2 powi (e - 52)"
    using hi ulp by (simp add: divide_strict_right_mono)
  also have "(2::real) powi (e + 1) / 2 powi (e - 52) = 2 powi 53"
    by (simp add: power_int_diff[symmetric])
  finally have "\<bar>x\<bar> / 2 powi (e - 52) \<le> real_of_int (2 ^ 53)" by simp
  then have "m \<le> 2 ^ 53" unfolding m[symmetric] by (rule roundTiesToEven_le)
  then have "real_of_int m \<le> real_of_int (2 ^ 53)" by (simp only: of_int_le_iff)
  then have "real_of_int m \<le> 2 powi 53" by simp
  then have "real_of_int m * 2 powi (e - 52) \<le> 2 powi 53 * 2 powi (e - 52)"
    using ulp by (simp add: mult_right_mono)
  also have "\<dots> = 2 powi (e + 1)"
  proof -
    have "(2::real) powi (53 + (e - 52)) = 2 powi 53 * 2 powi (e - 52)"
      by (rule power_int_add) simp
    moreover have "53 + (e - 52) = e + 1" by simp
    ultimately show ?thesis by (simp only:)
  qed
  also have "\<dots> \<le> 2 powi 1023" using e by (intro power_int_increasing) simp_all
  also have "\<dots> < (2::real) ^ 1024" by simp
  finally have small: "\<not> 2 ^ 1024 \<le> real_of_int m * 2 powi (e - 52)" by simp
  show ?thesis
    unfolding binary64_def ex Let_def m using x0 small by simp
qed

text \<open>The exponent of a positive real from the bit length of an integer, which makes
  \<open>binary64\<close> a function that can be run.\<close>

lemma floor_log2_bitlen:
  assumes "0 < x"
  shows "\<lfloor>log 2 x\<rfloor> = (if 1 \<le> x then bitlen \<lfloor>x\<rfloor> - 1 else - bitlen (\<lceil>1 / x\<rceil> - 1))"
proof (cases "1 \<le> x")
  case True
  define n where "n = \<lfloor>x\<rfloor>"
  have n: "0 < n" using True unfolding n_def by linarith
  have L: "1 \<le> bitlen n" using n by (simp add: bitlen_alt_def)
  from bitlen_bounds[OF n] have b: "2 ^ nat (bitlen n - 1) \<le> n" "n < 2 ^ nat (bitlen n)" by simp_all
  have p: "(2::real) powi (bitlen n - 1) = 2 ^ nat (bitlen n - 1)"
    "(2::real) powi (bitlen n - 1 + 1) = 2 ^ nat (bitlen n)"
    using L by (simp_all add: power_int_def)
  have "(2::real) ^ nat (bitlen n - 1) \<le> real_of_int n" using b(1) by simp
  moreover have "real_of_int n \<le> x" unfolding n_def by linarith
  ultimately have lo: "2 powi (bitlen n - 1) \<le> x" unfolding p by linarith
  have "n + 1 \<le> 2 ^ nat (bitlen n)" using b(2) by simp
  then have "real_of_int (n + 1) \<le> (2::real) ^ nat (bitlen n)"
    by (metis of_int_le_iff of_int_numeral of_int_power)
  moreover have "x < real_of_int (n + 1)" unfolding n_def by linarith
  ultimately have hi: "x < 2 powi (bitlen n - 1 + 1)" unfolding p by linarith
  from floor_log2[OF lo hi] True show ?thesis by (simp add: n_def)
next
  case False
  then have x1: "x < 1" by simp
  define k where "k = \<lceil>1 / x\<rceil>"
  have inv: "1 < 1 / x" using assms x1 by simp
  have k: "real_of_int k - 1 < 1 / x" "1 / x \<le> real_of_int k" unfolding k_def by linarith+
  have k1: "0 < k - 1" using inv k(2) by linarith
  define L where "L = bitlen (k - 1)"
  have L: "1 \<le> L" using k1 by (simp add: L_def bitlen_alt_def)
  from bitlen_bounds[OF k1] have b: "2 ^ nat (L - 1) \<le> k - 1" "k - 1 < 2 ^ nat L"
    unfolding L_def by simp_all
  have p: "(2::real) powi (- L) = 1 / 2 ^ nat L" "(2::real) powi (- L + 1) = 1 / 2 ^ nat (L - 1)"
  proof -
    show "(2::real) powi (- L) = 1 / 2 ^ nat L"
      using L by (simp add: power_int_def field_simps)
    have "nat (- (- L + 1)) = nat (L - 1)" by simp
    then show "(2::real) powi (- L + 1) = 1 / 2 ^ nat (L - 1)"
      using L by (cases "L = 1") (simp_all add: power_int_def field_simps)
  qed
  have "k \<le> 2 ^ nat L" using b(2) by simp
  then have "real_of_int k \<le> (2::real) ^ nat L"
    by (metis of_int_le_iff of_int_numeral of_int_power)
  with k(2) have "1 / x \<le> 2 ^ nat L" by linarith
  then have lo: "2 powi (- L) \<le> x" unfolding p using assms by (simp add: field_simps)
  have "(2::real) ^ nat (L - 1) \<le> real_of_int (k - 1)"
    using b(1) by (metis of_int_le_iff of_int_numeral of_int_power)
  with k(1) have "2 ^ nat (L - 1) < 1 / x" by simp
  then have hi: "x < 2 powi (- L + 1)" unfolding p using assms by (simp add: field_simps)
  from floor_log2[OF lo hi] False show ?thesis by (simp add: k_def L_def)
qed

lemma binary64_code [code]:
  "binary64 x =
     (if x = 0 then Num 0
      else let e = max (if 1 \<le> \<bar>x\<bar> then bitlen \<lfloor>\<bar>x\<bar>\<rfloor> - 1 else - bitlen (\<lceil>1 / \<bar>x\<bar>\<rceil> - 1)) (- 1022);
               ulp = 2 powi (e - 52);
               y = real_of_int (roundTiesToEven (\<bar>x\<bar> / ulp)) * ulp
           in if 2 ^ 1024 \<le> y then (if 0 < x then Infinity else Minus_Infinity)
              else Num (sgn x * y))"
proof (cases "x = 0")
  case True
  then show ?thesis by (simp add: binary64_def)
next
  case False
  then have "0 < \<bar>x\<bar>" by simp
  from floor_log2_bitlen[OF this] show ?thesis
    unfolding binary64_def by (simp only:)
qed

lemma binary64_0 [simp]: "binary64 0 = Num 0"
  by (simp add: binary64_def)

lemma binary64_thresholds:
  "binary64 0.85 = Num (7656119366529843 / 2 ^ 53)"
  "binary64 0.75 = Num 0.75"
  by (subst binary64_eval[where e = "-1" and m = 7656119366529843], simp_all add: roundTiesToEven_def)
     (subst binary64_eval[where e = "-1" and m = "6755399441055744"], simp_all add: roundTiesToEven_def)

lemma healthStatus_of_Num:
  "healthStatus_of (Num r) =
     (if 7656119366529843 / 2 ^ 53 \<le> r then healthy else if 0.75 \<le> r then degraded else critical)"
  unfolding healthStatus_of_def binary64_thresholds by simp

lemma binary64_samples:
  "binary64 100 = Num 100"
  "binary64 85 = Num 85"
  "binary64 10000 = Num 10000"
  "binary64 8499 = Num 8499"
  "binary64 7499 = Num 7499"
  "binary64 0.14 = Num (5044031582654956 / 2 ^ 55)"
  "binary64 0.119 = Num (8574853690513424 / 2 ^ 56)"
  "binary64 0.1 = Num (7205759403792794 / 2 ^ 56)"
  "binary64 0.075 = Num (5404319552844595 / 2 ^ 56)"
  "binary64 125.456 = Num (8828181169553015 / 2 ^ 46)"
  "binary64 106.638 = Num (7503982141617734 / 2 ^ 46)"
  "binary64 0.8499 = Num (7655218646604369 / 2 ^ 53)"
  "binary64 0.7499 = Num (6754498721130270 / 2 ^ 53)"
                      apply (subst binary64_eval[where e = 6 and m = "100 * 2 ^ 46"], simp_all add: roundTiesToEven_def)[1]
                     apply (subst binary64_eval[where e = 6 and m = "85 * 2 ^ 46"], simp_all add: roundTiesToEven_def)[1]
                    apply (subst binary64_eval[where e = 13 and m = "10000 * 2 ^ 39"], simp_all add: roundTiesToEven_def)[1]
                   apply (subst binary64_eval[where e = 13 and m = "8499 * 2 ^ 39"], simp_all add: roundTiesToEven_def)[1]
                  apply (subst binary64_eval[where e = 12 and m = "7499 * 2 ^ 40"], simp_all add: roundTiesToEven_def)[1]
                 apply (subst binary64_eval[where e = "-3" and m = 5044031582654956], simp_all add: roundTiesToEven_def)[1]
                apply (subst binary64_eval[where e = "-4" and m = 8574853690513424], simp_all add: roundTiesToEven_def)[1]
               apply (subst binary64_eval[where e = "-4" and m = 7205759403792794], simp_all add: roundTiesToEven_def)[1]
              apply (subst binary64_eval[where e = "-4" and m = 5404319552844595], simp_all add: roundTiesToEven_def)[1]
             apply (subst binary64_eval[where e = 6 and m = 8828181169553015], simp_all add: roundTiesToEven_def)[1]
            apply (subst binary64_eval[where e = 6 and m = 7503982141617734], simp_all add: roundTiesToEven_def)[1]
           apply (subst binary64_eval[where e = "-1" and m = 7655218646604369], simp_all add: roundTiesToEven_def)[1]
          apply (subst binary64_eval[where e = "-1" and m = 6754498721130270], simp_all add: roundTiesToEven_def)[1]
  done

lemma sample_ratios:
  "efficiencyRatio_binary64 (binary64 100) (binary64 85) = Num (7656119366529843 / 2 ^ 53)"
  "efficiencyRatio_binary64 (binary64 10000) (binary64 8499) = Num (7655218646604369 / 2 ^ 53)"
  "efficiencyRatio_binary64 (binary64 10000) (binary64 7499) = Num (6754498721130270 / 2 ^ 53)"
  "efficiencyRatio_binary64 (binary64 0.14) (binary64 0.119) = Num (7656119366529842 / 2 ^ 53)"
  "efficiencyRatio_binary64 (binary64 0.1) (binary64 0.075) = Num (6755399441055743 / 2 ^ 53)"
  "efficiencyRatio_binary64 (binary64 125.456) (binary64 106.638) = Num (7656148084803197 / 2 ^ 53)"
  unfolding binary64_samples
       apply (simp add: efficiencyRatio_binary64_def,
      subst binary64_eval[where e = "-1" and m = 7656119366529843], simp_all add: roundTiesToEven_def)[1]
      apply (simp add: efficiencyRatio_binary64_def,
      subst binary64_eval[where e = "-1" and m = 7655218646604369], simp_all add: roundTiesToEven_def)[1]
     apply (simp add: efficiencyRatio_binary64_def,
      subst binary64_eval[where e = "-1" and m = 6754498721130270], simp_all add: roundTiesToEven_def)[1]
    apply (simp add: efficiencyRatio_binary64_def,
      subst binary64_eval[where e = "-1" and m = 7656119366529842], simp_all add: roundTiesToEven_def)[1]
   apply (simp add: efficiencyRatio_binary64_def,
      subst binary64_eval[where e = "-1" and m = 6755399441055743], simp_all add: roundTiesToEven_def)[1]
  apply (simp add: efficiencyRatio_binary64_def,
      subst binary64_eval[where e = "-1" and m = 7656148084803197], simp_all add: roundTiesToEven_def)[1]
  done

lemma sample_tiers:
  "healthStatus_of (efficiencyRatio_binary64 (binary64 100) (binary64 85)) = healthy"
  "healthStatus_of (efficiencyRatio_binary64 (binary64 10000) (binary64 8499)) = degraded"
  "healthStatus_of (efficiencyRatio_binary64 (binary64 10000) (binary64 7499)) = critical"
  "healthStatus_of (efficiencyRatio_binary64 (binary64 0.14) (binary64 0.119)) = degraded"
  "healthStatus_of (efficiencyRatio_binary64 (binary64 0.1) (binary64 0.075)) = critical"
  "healthStatus_of (efficiencyRatio_binary64 (binary64 125.456) (binary64 106.638)) = healthy"
  unfolding sample_ratios healthStatus_of_Num by simp_all

lemma zero_source_tier: "healthStatus_of (efficiencyRatio_binary64 (binary64 0) d) = critical"
  by (simp add: efficiencyRatio_binary64_def healthStatus_of_Num)

lemma exponent_exists:
  assumes "0 < x"
  shows "2 powi \<lfloor>log 2 x\<rfloor> \<le> x \<and> x < 2 powi (\<lfloor>log 2 x\<rfloor> + 1)"
proof -
  have "2 powr real_of_int \<lfloor>log 2 x\<rfloor> \<le> x \<and> x < 2 powr real_of_int (\<lfloor>log 2 x\<rfloor> + 1)"
    using floor_log_eq_powr_iff[of x 2 "\<lfloor>log 2 x\<rfloor>"] assms by simp
  then show ?thesis
    using powr_real_of_int'[of 2 "\<lfloor>log 2 x\<rfloor>"] powr_real_of_int'[of 2 "\<lfloor>log 2 x\<rfloor> + 1"]
    by simp
qed

lemma binary64_relative_error:
  assumes lo: "2 powi (- 1022) \<le> \<bar>x\<bar>" and hi: "\<bar>x\<bar> < 2 powi 1023"
  shows "\<exists>y. binary64 x = Num y \<and> \<bar>y - x\<bar> \<le> \<bar>x\<bar> / 2 ^ 53"
proof -
  define e where "e = \<lfloor>log 2 \<bar>x\<bar>\<rfloor>"
  have pos: "0 < \<bar>x\<bar>"
  proof -
    have "0 < (2::real) powi (- 1022)" by (rule zero_less_power_int) simp
    with lo show ?thesis by linarith
  qed
  from exponent_exists[OF pos] have b: "2 powi e \<le> \<bar>x\<bar>" "\<bar>x\<bar> < 2 powi (e + 1)"
    unfolding e_def by simp_all
  have e_lo: "- 1022 \<le> e"
  proof (rule ccontr)
    assume "\<not> - 1022 \<le> e"
    then have "e + 1 \<le> - 1022" by simp
    then have "(2::real) powi (e + 1) \<le> 2 powi (- 1022)" by (intro power_int_increasing) simp_all
    with b(2) lo show False by linarith
  qed
  have e_hi: "e < 1023"
  proof (rule ccontr)
    assume "\<not> e < 1023"
    then have "1023 \<le> e" by simp
    then have "(2::real) powi 1023 \<le> 2 powi e" by (intro power_int_increasing) simp_all
    with b(1) hi show False by linarith
  qed
  define ulp :: real where "ulp = 2 powi (e - 52)"
  define m where "m = roundTiesToEven (\<bar>x\<bar> / ulp)"
  have ulp: "0 < ulp" unfolding ulp_def by (rule zero_less_power_int) simp
  have val: "binary64 x = Num (sgn x * (real_of_int m * ulp))"
    unfolding ulp_def m_def by (rule binary64_eval[OF b e_lo e_hi]) (simp add: ulp_def)
  have "\<bar>real_of_int m - \<bar>x\<bar> / ulp\<bar> \<le> 1 / 2"
    unfolding m_def using roundTiesToEven_bounds[of "\<bar>x\<bar> / ulp"] by linarith
  then have "\<bar>real_of_int m - \<bar>x\<bar> / ulp\<bar> * ulp \<le> 1 / 2 * ulp"
    using ulp by (intro mult_right_mono) simp_all
  moreover have "\<bar>real_of_int m - \<bar>x\<bar> / ulp\<bar> * ulp = \<bar>real_of_int m * ulp - \<bar>x\<bar>\<bar>"
  proof -
    have "\<bar>real_of_int m - \<bar>x\<bar> / ulp\<bar> * ulp = \<bar>(real_of_int m - \<bar>x\<bar> / ulp) * ulp\<bar>"
      using ulp by (simp add: abs_mult)
    also have "(real_of_int m - \<bar>x\<bar> / ulp) * ulp = real_of_int m * ulp - \<bar>x\<bar>"
      using ulp by (simp add: field_simps)
    finally show ?thesis .
  qed
  ultimately have d: "\<bar>real_of_int m * ulp - \<bar>x\<bar>\<bar> \<le> ulp / 2" by simp
  have "ulp / 2 = 2 powi e / 2 ^ 53"
  proof -
    have "(2::real) powi (e - 52) = 2 powi e / 2 powi 52"
      by (rule power_int_diff) simp
    then show ?thesis unfolding ulp_def by simp
  qed
  also have "\<dots> \<le> \<bar>x\<bar> / 2 ^ 53" using b(1) by (simp add: divide_right_mono)
  finally have u: "ulp / 2 \<le> \<bar>x\<bar> / 2 ^ 53" .
  have "sgn x * (real_of_int m * ulp) - x = sgn x * (real_of_int m * ulp - \<bar>x\<bar>)"
    by (simp add: sgn_if algebra_simps)
  then have "\<bar>sgn x * (real_of_int m * ulp) - x\<bar> = \<bar>real_of_int m * ulp - \<bar>x\<bar>\<bar>"
    using pos by (simp add: abs_mult sgn_if)
  with d u have "\<bar>sgn x * (real_of_int m * ulp) - x\<bar> \<le> \<bar>x\<bar> / 2 ^ 53" by linarith
  with val show ?thesis by blast
qed

lemma binary64_positive:
  assumes "1 / 2000 \<le> x" "x \<le> 2 ^ 72"
  shows "\<exists>y. binary64 x = Num y \<and> x * (1 - 1 / 2 ^ 53) \<le> y \<and> y \<le> x * (1 + 1 / 2 ^ 53)"
proof -
  have "2 powi (- 1022) \<le> (1 / 2000 :: real)" by simp
  with assms(1) have lo: "2 powi (- 1022) \<le> \<bar>x\<bar>" by linarith
  have "(2::real) ^ 72 < 2 powi 1023" by simp
  with assms have hi: "\<bar>x\<bar> < 2 powi 1023" by linarith
  from binary64_relative_error[OF lo hi] obtain y
    where y: "binary64 x = Num y" "\<bar>y - x\<bar> \<le> \<bar>x\<bar> / 2 ^ 53" by blast
  have "\<bar>x\<bar> = x" using assms(1) by simp
  with y(2) have "x - x / 2 ^ 53 \<le> y" "y \<le> x + x / 2 ^ 53" by linarith+
  then have "x * (1 - 1 / 2 ^ 53) \<le> y \<and> y \<le> x * (1 + 1 / 2 ^ 53)"
    by (simp add: algebra_simps)
  with y(1) show ?thesis by blast
qed

lemma ratio_bounds:
  assumes S: "1 / 1000 \<le> S" "S \<le> 2 ^ 60" and D: "1 / 1000 \<le> D" "D \<le> 2 ^ 60"
  shows "\<exists>z. efficiencyRatio_binary64 (binary64 S) (binary64 D) = Num z
      \<and> D / S * ((1 - 1 / 2 ^ 53)\<^sup>2 / (1 + 1 / 2 ^ 53)) \<le> z
      \<and> z \<le> D / S * ((1 + 1 / 2 ^ 53)\<^sup>2 / (1 - 1 / 2 ^ 53))"
proof -
  define u :: real where "u = 1 / 2 ^ 53"
  have u: "0 < u" "u < 1" "0 < 1 - u" "0 < 1 + u" "1 / 2 \<le> 1 - u" "1 + u \<le> 2"
    by (simp_all add: u_def)
  have S': "1 / 2000 \<le> S" "S \<le> 2 ^ 72" and D': "1 / 2000 \<le> D" "D \<le> 2 ^ 72"
    using S D by simp_all
  from binary64_positive[OF S'] obtain a
    where a: "binary64 S = Num a" "S * (1 - u) \<le> a" "a \<le> S * (1 + u)" unfolding u_def by blast
  from binary64_positive[OF D'] obtain b
    where b: "binary64 D = Num b" "D * (1 - u) \<le> b" "b \<le> D * (1 + u)" unfolding u_def by blast
  have Spos: "0 < S" and Dpos: "0 < D" using S(1) D(1) by linarith+
  have Sl: "1 / 2000 \<le> S * (1 - u)"
  proof -
    have "1 / 1000 * (1 / 2) \<le> S * (1 - u)" using S(1) u(5) by (intro mult_mono) simp_all
    then show ?thesis by simp
  qed
  have Dl: "1 / 2000 \<le> D * (1 - u)"
  proof -
    have "1 / 1000 * (1 / 2) \<le> D * (1 - u)" using D(1) u(5) by (intro mult_mono) simp_all
    then show ?thesis by simp
  qed
  have Su: "S * (1 + u) \<le> 2 ^ 61"
  proof -
    have "S * (1 + u) \<le> 2 ^ 60 * 2" using S(2) u Spos by (intro mult_mono) simp_all
    then show ?thesis by simp
  qed
  have Du: "D * (1 + u) \<le> 2 ^ 61"
  proof -
    have "D * (1 + u) \<le> 2 ^ 60 * 2" using D(2) u Dpos by (intro mult_mono) simp_all
    then show ?thesis by simp
  qed
  have al: "1 / 2000 \<le> a" and au: "a \<le> 2 ^ 61" and bl: "1 / 2000 \<le> b" and bu: "b \<le> 2 ^ 61"
    using a b Sl Dl Su Du by linarith+
  have apos: "0 < a" and bpos: "0 < b" using al bl by linarith+
  have ratio: "efficiencyRatio_binary64 (binary64 S) (binary64 D) = binary64 (b / a)"
    unfolding a(1) b(1) using apos by (simp add: efficiencyRatio_binary64_def)
  have lower: "D * (1 - u) / (S * (1 + u)) \<le> b / a"
  proof (rule frac_le)
    show "0 \<le> b" using bpos by linarith
    show "D * (1 - u) \<le> b" by (rule b(2))
    show "0 < a" by (rule apos)
    show "a \<le> S * (1 + u)" by (rule a(3))
  qed
  have upper: "b / a \<le> D * (1 + u) / (S * (1 - u))"
  proof (rule frac_le)
    show "0 \<le> D * (1 + u)" using b(3) bpos by linarith
    show "b \<le> D * (1 + u)" by (rule b(3))
    show "0 < S * (1 - u)" using Sl by linarith
    show "S * (1 - u) \<le> a" by (rule a(2))
  qed
  have ql: "1 / 2000 / 2 ^ 61 \<le> b / a"
    using bl au apos by (intro frac_le) simp_all
  have qu: "b / a \<le> 2 ^ 61 / (1 / 2000)"
    using bu al bpos by (intro frac_le) simp_all
  have "1 / 2000 \<le> (1 / 2000 / 2 ^ 61 :: real) * 2 ^ 61" by simp
  have q_lo: "2 powi (- 1022) \<le> \<bar>b / a\<bar>"
  proof -
    have "2 powi (- 1022) \<le> (1 / 2000 / 2 ^ 61 :: real)" by simp
    with ql show ?thesis by linarith
  qed
  have q_hi: "\<bar>b / a\<bar> < 2 powi 1023"
  proof -
    have "(2 ^ 61 / (1 / 2000) :: real) < 2 powi 1023" by simp
    moreover have "0 < b / a" using apos bpos by simp
    ultimately show ?thesis using qu by linarith
  qed
  from binary64_relative_error[OF q_lo q_hi] obtain z
    where z: "binary64 (b / a) = Num z" "\<bar>z - b / a\<bar> \<le> \<bar>b / a\<bar> / 2 ^ 53" by blast
  have qpos: "0 < b / a" using apos bpos by simp
  then have "\<bar>b / a\<bar> = b / a" by (rule abs_of_pos)
  with z(2) have zb: "b / a * (1 - u) \<le> z" "z \<le> b / a * (1 + u)"
    unfolding u_def by (simp_all add: algebra_simps)
  have "D * (1 - u) / (S * (1 + u)) * (1 - u) \<le> b / a * (1 - u)"
    using lower u by (intro mult_right_mono) simp_all
  moreover have "D * (1 - u) / (S * (1 + u)) * (1 - u) = D / S * ((1 - u)\<^sup>2 / (1 + u))"
    by (simp add: power2_eq_square)
  ultimately have L: "D / S * ((1 - u)\<^sup>2 / (1 + u)) \<le> z" using zb(1) by linarith
  have "b / a * (1 + u) \<le> D * (1 + u) / (S * (1 - u)) * (1 + u)"
    using upper u by (intro mult_right_mono) simp_all
  moreover have "D * (1 + u) / (S * (1 - u)) * (1 + u) = D / S * ((1 + u)\<^sup>2 / (1 - u))"
    by (simp add: power2_eq_square)
  ultimately have U: "z \<le> D / S * ((1 + u)\<^sup>2 / (1 - u))" using zb(2) by linarith
  from ratio z(1) L U show ?thesis unfolding u_def by auto
qed

lemma tier_of_exact_ratio:
  assumes S: "1 / 1000 \<le> S" "S \<le> 2 ^ 60" and D: "1 / 1000 \<le> D" "D \<le> 2 ^ 60"
  shows "0.85 * (1 + 1 / 2 ^ 50) \<le> D / S \<Longrightarrow>
           healthStatus_of (efficiencyRatio_binary64 (binary64 S) (binary64 D)) = healthy"
    and "0.75 * (1 + 1 / 2 ^ 50) \<le> D / S \<Longrightarrow> D / S \<le> 0.85 * (1 - 1 / 2 ^ 50) \<Longrightarrow>
           healthStatus_of (efficiencyRatio_binary64 (binary64 S) (binary64 D)) = degraded"
    and "D / S \<le> 0.75 * (1 - 1 / 2 ^ 50) \<Longrightarrow>
           healthStatus_of (efficiencyRatio_binary64 (binary64 S) (binary64 D)) = critical"
proof -
  define k1 :: real where "k1 = (1 - 1 / 2 ^ 53)\<^sup>2 / (1 + 1 / 2 ^ 53)"
  define k2 :: real where "k2 = (1 + 1 / 2 ^ 53)\<^sup>2 / (1 - 1 / 2 ^ 53)"
  have k: "0 < k1" "0 < k2" by (simp_all add: k1_def k2_def)
  from ratio_bounds[OF S D] obtain z
    where z: "efficiencyRatio_binary64 (binary64 S) (binary64 D) = Num z"
      "D / S * k1 \<le> z" "z \<le> D / S * k2" unfolding k1_def k2_def by blast
  have c1: "7656119366529843 / 2 ^ 53 \<le> 0.85 * (1 + 1 / 2 ^ 50) * k1"
    by (simp add: k1_def power2_eq_square)
  have c2: "0.85 * (1 - 1 / 2 ^ 50) * k2 < 7656119366529843 / 2 ^ 53"
    by (simp add: k2_def power2_eq_square)
  have c3: "0.75 \<le> 0.75 * (1 + 1 / 2 ^ 50) * k1"
    by (simp add: k1_def power2_eq_square)
  have c4: "0.75 * (1 - 1 / 2 ^ 50) * k2 < 0.75"
    by (simp add: k2_def power2_eq_square)
  {
    assume "0.85 * (1 + 1 / 2 ^ 50) \<le> D / S"
    then have "0.85 * (1 + 1 / 2 ^ 50) * k1 \<le> D / S * k1"
      using k by (intro mult_right_mono) simp_all
    with c1 z(2) have "7656119366529843 / 2 ^ 53 \<le> z" by linarith
    then show "healthStatus_of (efficiencyRatio_binary64 (binary64 S) (binary64 D)) = healthy"
      unfolding z(1) healthStatus_of_Num by simp
  }
  {
    assume lo: "0.75 * (1 + 1 / 2 ^ 50) \<le> D / S" and hi: "D / S \<le> 0.85 * (1 - 1 / 2 ^ 50)"
    from lo have "0.75 * (1 + 1 / 2 ^ 50) * k1 \<le> D / S * k1"
      using k by (intro mult_right_mono) simp_all
    with c3 z(2) have a: "0.75 \<le> z" by linarith
    from hi have "D / S * k2 \<le> 0.85 * (1 - 1 / 2 ^ 50) * k2"
      using k by (intro mult_right_mono) simp_all
    with c2 z(3) have b: "z < 7656119366529843 / 2 ^ 53" by linarith
    from a b show "healthStatus_of (efficiencyRatio_binary64 (binary64 S) (binary64 D)) = degraded"
      unfolding z(1) healthStatus_of_Num by simp
  }
  {
    assume hi: "D / S \<le> 0.75 * (1 - 1 / 2 ^ 50)"
    then have "D / S * k2 \<le> 0.75 * (1 - 1 / 2 ^ 50) * k2"
      using k by (intro mult_right_mono) simp_all
    with c4 z(3) have b: "z < 0.75" by linarith
    moreover have "(0.75 :: real) < 7656119366529843 / 2 ^ 53" by simp
    ultimately show "healthStatus_of (efficiencyRatio_binary64 (binary64 S) (binary64 D)) = critical"
      unfolding z(1) healthStatus_of_Num by simp
  }
qed

lemma meterWindow_None:
  "meterWindow s lo hi None
     = filter (\<lambda>r. lo \<le> mh_timestamp r \<and> mh_timestamp r \<le> hi) (meter_telemetry_history s)"
  by (simp add: meterWindow_def)

lemma meterWindow_Some:
  "meterWindow s lo hi (Some m)
     = filter (\<lambda>r. mh_meterId r = m \<and> lo \<le> mh_timestamp r \<and> mh_timestamp r \<le> hi)
         (meter_telemetry_history s)"
  by (simp add: meterWindow_def conj_commute conj_left_commute)

lemma meterQuery_energy:
  "parseFloat_or_0 (meterQuery s (now - 86400000) now None) = fleetEnergy s now"
  "parseFloat_or_0 (meterQuery s (now - 86400000) now (Some m)) = meterEnergy s m now"
  by (simp_all add: meterQuery_def sql_SUM_total fleetEnergy_def meterEnergy_def
      meterWindow_None meterWindow_Some)

lemma vehicleQuery_cases:
  "vehicleQuery s v lo hi = [] \<longleftrightarrow> vehicleWindow s v lo hi = []"
  "vehicleQuery s v lo hi = stats # rest \<Longrightarrow>
     rest = [] \<and> vehicleWindow s v lo hi \<noteq> []
     \<and> reading_count stats = length (vehicleWindow s v lo hi)
     \<and> parseFloat_or_0 (total_kwh_delivered_dc stats)
         = sum_list (map vh_kwhDeliveredDc (vehicleWindow s v lo hi))
     \<and> avg_battery_temp stats = sql_AVG (map vh_batteryTemp (vehicleWindow s v lo hi))"
  by (auto simp: vehicleQuery_def Let_def sql_SUM_total split: if_splits)

text \<open>The report of a call that returns.\<close>

lemma performance24h_Inr:
  "getVehiclePerformance24h fault now s v = Inr rep \<Longrightarrow>
     \<exists>stats. vehicleQuery s v (now - 86400000) now = [stats]
       \<and> rep = performanceResult v stats (meterQuery s (now - 86400000) now None)"
  by (auto simp: getVehiclePerformance24h_def Let_def split: option.splits list.splits
      dest: vehicleQuery_cases(2))

lemma performanceWithMeter_Inr:
  "getVehiclePerformanceWithMeter fault now s v mo = Inr rep \<Longrightarrow>
     \<exists>stats. vehicleQuery s v (now - 86400000) now = [stats]
       \<and> rep = performanceResult v stats
           (meterQuery s (now - 86400000) now
              (case mo of None \<Rightarrow> None | Some m \<Rightarrow> if m = [] then None else Some m))"
  by (auto simp: getVehiclePerformanceWithMeter_def Let_def split: option.splits list.splits
      dest: vehicleQuery_cases(2))

lemma vehicleWindow_energy:
  "sum_list (map vh_kwhDeliveredDc (vehicleWindow s v (now - 86400000) now)) = vehicleEnergy s v now"
  by (simp add: vehicleWindow_def vehicleEnergy_def)

lemma performanceResult_fields:
  "vehicleQuery s v (now - 86400000) now = [stats] \<Longrightarrow>
   rep = performanceResult v stats (meterQuery s (now - 86400000) now None) \<Longrightarrow>
     totalKwhConsumedAc rep = toFixed 3 (fleetEnergy s now)
   \<and> totalKwhDeliveredDc rep = toFixed 3 (vehicleEnergy s v now)
   \<and> efficiencyRatio rep = toFixed 4 (efficiencyRatio_of (fleetEnergy s now) (vehicleEnergy s v now))
   \<and> healthStatus rep = healthStatus_of
         (efficiencyRatio_binary64 (binary64 (fleetEnergy s now)) (binary64 (vehicleEnergy s v now)))"
  by (auto simp: performanceResult_def Let_def meterQuery_energy vehicleWindow_energy
      dest!: vehicleQuery_cases(2))

lemma performanceResult_fields_meter:
  "vehicleQuery s v (now - 86400000) now = [stats] \<Longrightarrow>
   rep = performanceResult v stats (meterQuery s (now - 86400000) now (Some m)) \<Longrightarrow>
     totalKwhConsumedAc rep = toFixed 3 (meterEnergy s m now)
   \<and> totalKwhDeliveredDc rep = toFixed 3 (vehicleEnergy s v now)
   \<and> efficiencyRatio rep = toFixed 4 (efficiencyRatio_of (meterEnergy s m now) (vehicleEnergy s v now))
   \<and> healthStatus rep = healthStatus_of
         (efficiencyRatio_binary64 (binary64 (meterEnergy s m now)) (binary64 (vehicleEnergy s v now)))"
  by (auto simp: performanceResult_def Let_def meterQuery_energy vehicleWindow_energy
      dest!: vehicleQuery_cases(2))


lemma no_meter_rows_result:
  assumes q: "vehicleQuery s v lo hi = [stats]" and none: "meterWindow s lo hi mf = []"
  shows "totalKwhConsumedAc (performanceResult v stats (meterQuery s lo hi mf)) = 0
       \<and> efficiencyRatio (performanceResult v stats (meterQuery s lo hi mf)) = 0
       \<and> healthStatus (performanceResult v stats (meterQuery s lo hi mf)) = critical"
proof -
  have "meterQuery s lo hi mf = None"
    by (simp add: meterQuery_def none sql_SUM_def)
  then show ?thesis
    by (simp add: performanceResult_def Let_def parseFloat_or_0_def efficiencyRatio_of_def
        zero_source_tier[unfolded binary64_0])
qed

lemma vehicleQuery_single:
  "vehicleWindow s v lo hi \<noteq> [] \<Longrightarrow> \<exists>stats. vehicleQuery s v lo hi = [stats]"
  by (simp add: vehicleQuery_def Let_def)


subsection \<open>Runs on the sample data\<close>

lemma deviceSuffix_inj: "i < 2500 \<Longrightarrow> j < 2500 \<Longrightarrow> deviceSuffix i = deviceSuffix j \<Longrightarrow> i = j"
proof -
  assume i: "i < 2500" and j: "j < 2500" and eq: "deviceSuffix i = deviceSuffix j"
  from eq have "(of_char (char_of (48 + i div 50)) :: nat) = of_char (char_of (48 + j div 50))"
    and "(of_char (char_of (48 + i mod 50)) :: nat) = of_char (char_of (48 + j mod 50))"
    by (simp_all add: deviceSuffix_def)
  then have "(48 + i div 50) mod 256 = (48 + j div 50) mod 256"
    and "(48 + i mod 50) mod 256 = (48 + j mod 50) mod 256"
    by simp_all
  moreover from i j have "48 + i div 50 < 256" "48 + j div 50 < 256" by simp_all
  moreover have "48 + i mod 50 < 256" "48 + j mod 50 < 256"
    using mod_less_divisor[of 50 i] mod_less_divisor[of 50 j] by simp_all
  ultimately have "i div 50 = j div 50" "i mod 50 = j mod 50" by simp_all
  then show "i = j" by (metis div_mult_mod_eq)
qed

lemma meterFleet_distinct: "n \<le> 2500 \<Longrightarrow> distinct (map meterId (meterFleet n))"
proof -
  assume n: "n \<le> 2500"
  have "inj_on (\<lambda>i. ''METER_'' @ deviceSuffix i) {0..<n}"
  proof (rule inj_onI)
    fix x y assume "x \<in> {0..<n}" "y \<in> {0..<n}"
      and "''METER_'' @ deviceSuffix x = ''METER_'' @ deviceSuffix y"
    with n show "x = y" by (intro deviceSuffix_inj) simp_all
  qed
  then show ?thesis by (simp add: meterFleet_def distinct_map o_def)
qed

lemma meterFleet_partition:
  "list_all (\<lambda>r. has_partition (meter_history_partitions db0) (timestamp r)) (meterFleet n)"
  by (simp add: meterFleet_def list_all_iff has_partition_def sample_defs)

lemma length_meterFleet [simp]: "length (meterFleet n) = n"
  by (simp add: meterFleet_def)


lemma vehicleFleet_distinct: "n \<le> 2500 \<Longrightarrow> distinct (map vehicleId (vehicleFleet n))"
proof -
  assume n: "n \<le> 2500"
  have "inj_on (\<lambda>i. ''VEHICLE_'' @ deviceSuffix i) {0..<n}"
  proof (rule inj_onI)
    fix x y assume "x \<in> {0..<n}" "y \<in> {0..<n}"
      and "''VEHICLE_'' @ deviceSuffix x = ''VEHICLE_'' @ deviceSuffix y"
    with n show "x = y" by (intro deviceSuffix_inj) simp_all
  qed
  then show ?thesis by (simp add: vehicleFleet_def distinct_map o_def)
qed

lemma vehicleFleet_partition:
  "list_all (\<lambda>r. has_partition (vehicle_history_partitions db0) (timestamp_v r)) (vehicleFleet n)"
  by (simp add: vehicleFleet_def list_all_iff has_partition_def sample_defs)

lemma length_vehicleFleet [simp]: "length (vehicleFleet n) = n"
  by (simp add: vehicleFleet_def)


lemma connectionLostAt_simps:
  "connectionLostAt k k HotUpsert = Some ConnectionLost"
  "j \<noteq> k \<Longrightarrow> connectionLostAt k j st = None"
  by (simp_all add: connectionLostAt_def)

lemma slice_0: "slice xs 0 n = take n xs"
  by (simp add: slice_def)

lemma meterBatch_lost_at_0:
  "0 < n \<Longrightarrow> ingestMeterBatch (connectionLostAt 0) (meterFleet n) db0 =
     \<lparr>thrown = Some ConnectionLost, store = db0, logged = [Error_failed ConnectionLost],
      transactions = 1\<rparr>"
proof -
  assume n: "0 < n"
  let ?cb = "\<lambda>k. meterDualWrite (connectionLostAt 0 k)"
  have "transaction (?cb (0 div batchSize) (slice (meterFleet n) 0 (0 + batchSize))) db0
          = (Some ConnectionLost, db0)"
    by (rule transaction_rollback) (simp add: meterDualWrite_fault connectionLostAt_simps)
  then have "chunk_loop ?cb (meterFleet n) 0 db0 = (Some ConnectionLost, db0, [], 1)"
    using n by (intro chunk_loop_fail) simp_all
  then show ?thesis by (simp add: ingestMeterBatch_def)
qed

lemma meterBatch_lost_at_1:
  assumes n: "1000 < n" "n \<le> 2500"
  shows "ingestMeterBatch (connectionLostAt 1) (meterFleet n) db0 =
     \<lparr>thrown = Some ConnectionLost, store = withMeterReadings (take 1000 (meterFleet n)) db0,
      logged = [Debug_processed_batch 1, Error_failed ConnectionLost], transactions = 2\<rparr>"
proof -
  let ?cb = "\<lambda>k. meterDualWrite (connectionLostAt 1 k)"
  let ?s1 = "withMeterReadings (take 1000 (meterFleet n)) db0"
  have b: "batchSize = 1000" by (simp add: batchSize_def)
  have "meterDualWrite (connectionLostAt 1 0) (slice (meterFleet n) 0 1000) db0
          = (None, withMeterReadings (slice (meterFleet n) 0 1000) db0)"
    using n by (intro meterDualWrite_succeeds slice_distinct slice_all meterFleet_distinct
        meterFleet_partition) (simp_all add: connectionLostAt_simps)
  then have tx0: "transaction (?cb (0 div batchSize) (slice (meterFleet n) 0 (0 + batchSize))) db0
          = (None, ?s1)"
    by (intro transaction_commit) (simp add: b slice_0)
  have tx1: "transaction (?cb ((0 + batchSize) div batchSize)
               (slice (meterFleet n) (0 + batchSize) (0 + batchSize + batchSize))) ?s1
          = (Some ConnectionLost, ?s1)"
    by (rule transaction_rollback) (simp add: b meterDualWrite_fault connectionLostAt_simps)
  have l0: "0 < length (meterFleet n)" and l1: "0 + batchSize < length (meterFleet n)"
    using n by (simp_all add: b)
  note run = chunk_loop_step[where cb = "\<lambda>k. meterDualWrite (connectionLostAt 1 k)", OF l0 tx0
            chunk_loop_fail[where cb = "\<lambda>k. meterDualWrite (connectionLostAt 1 k)", OF l1 tx1]]
  show ?thesis
    unfolding ingestMeterBatch_def run by simp
qed

lemma vehicleBatch_lost_at_0:
  "0 < n \<Longrightarrow> ingestVehicleBatch (connectionLostAt 0) (vehicleFleet n) db0 =
     \<lparr>thrown = Some ConnectionLost, store = db0, logged = [Error_failed ConnectionLost],
      transactions = 1\<rparr>"
proof -
  assume n: "0 < n"
  let ?cb = "\<lambda>k. vehicleDualWrite (connectionLostAt 0 k)"
  have "transaction (?cb (0 div batchSize) (slice (vehicleFleet n) 0 (0 + batchSize))) db0
          = (Some ConnectionLost, db0)"
    by (rule transaction_rollback) (simp add: vehicleDualWrite_fault connectionLostAt_simps)
  then have "chunk_loop ?cb (vehicleFleet n) 0 db0 = (Some ConnectionLost, db0, [], 1)"
    using n by (intro chunk_loop_fail) simp_all
  then show ?thesis by (simp add: ingestVehicleBatch_def)
qed

lemma vehicleBatch_lost_at_1:
  assumes n: "1000 < n" "n \<le> 2500"
  shows "ingestVehicleBatch (connectionLostAt 1) (vehicleFleet n) db0 =
     \<lparr>thrown = Some ConnectionLost, store = withVehicleReadings (take 1000 (vehicleFleet n)) db0,
      logged = [Debug_processed_batch 1, Error_failed ConnectionLost], transactions = 2\<rparr>"
proof -
  let ?cb = "\<lambda>k. vehicleDualWrite (connectionLostAt 1 k)"
  let ?s1 = "withVehicleReadings (take 1000 (vehicleFleet n)) db0"
  have b: "batchSize = 1000" by (simp add: batchSize_def)
  have "vehicleDualWrite (connectionLostAt 1 0) (slice (vehicleFleet n) 0 1000) db0
          = (None, withVehicleReadings (slice (vehicleFleet n) 0 1000) db0)"
    using n by (intro vehicleDualWrite_succeeds slice_distinct slice_all vehicleFleet_distinct
        vehicleFleet_partition) (simp_all add: connectionLostAt_simps)
  then have tx0: "transaction (?cb (0 div batchSize) (slice (vehicleFleet n) 0 (0 + batchSize))) db0
          = (None, ?s1)"
    by (intro transaction_commit) (simp add: b slice_0)
  have tx1: "transaction (?cb ((0 + batchSize) div batchSize)
               (slice (vehicleFleet n) (0 + batchSize) (0 + batchSize + batchSize))) ?s1
          = (Some ConnectionLost, ?s1)"
    by (rule transaction_rollback) (simp add: b vehicleDualWrite_fault connectionLostAt_simps)
  have l0: "0 < length (vehicleFleet n)" and l1: "0 + batchSize < length (vehicleFleet n)"
    using n by (simp_all add: b)
  note run = chunk_loop_step[where cb = "\<lambda>k. vehicleDualWrite (connectionLostAt 1 k)", OF l0 tx0
            chunk_loop_fail[where cb = "\<lambda>k. vehicleDualWrite (connectionLostAt 1 k)", OF l1 tx1]]
  show ?thesis
    unfolding ingestVehicleBatch_def run by simp
qed


lemma sample_single_ok:
  "thrown (ingestMeterTelemetry no_faults meter_001 db0) = None"
  "thrown (ingestVehicleTelemetry no_faults vehicle_001 db0) = None"
  by (simp_all add: ingestMeterTelemetry_def ingestVehicleTelemetry_def write_defs sample_defs)

lemma sample_fleet_ok:
  "thrown (ingestMeterBatch no_faults (meterFleet 2500) db0) = None"
  "thrown (ingestVehicleBatch no_faults (vehicleFleet 2500) db0) = None"
  by (rule ingestMeterBatch_succeeds ingestVehicleBatch_succeeds;
      simp add: no_faults_def meterFleet_distinct meterFleet_partition
        vehicleFleet_distinct vehicleFleet_partition)+

lemma sample_out_of_order_ok:
  "thrown (ingestMeterTelemetry no_faults meter_001_later db0) = None"
  "thrown (ingestMeterTelemetry no_faults meter_001
             (store (ingestMeterTelemetry no_faults meter_001_later db0))) = None"
  "thrown (ingestVehicleTelemetry no_faults vehicle_001_later db0) = None"
  "thrown (ingestVehicleTelemetry no_faults vehicle_001
             (store (ingestVehicleTelemetry no_faults vehicle_001_later db0))) = None"
  by (simp_all add: ingestMeterTelemetry_def ingestVehicleTelemetry_def write_defs sample_defs)

lemmas query_defs = getVehiclePerformance24h_def getVehiclePerformanceWithMeter_def vehicleQuery_def
  vehicleWindow_def Let_def no_query_faults_def query_time_def db_with_energy_def db_two_meters_def
  withMeterReadings_def withVehicleReadings_def meterHistoryRow_def vehicleHistoryRow_def
  decimal_column_def

lemmas energy_defs = fleetEnergy_def meterEnergy_def vehicleEnergy_def query_time_def
  db_with_energy_def db_two_meters_def withMeterReadings_def withVehicleReadings_def
  meterHistoryRow_def vehicleHistoryRow_def decimal_column_def

lemma sample_query_returns:
  "\<exists>rep. getVehiclePerformance24h no_query_faults query_time (db_with_energy ac dc) ''VEHICLE_001'' = Inr rep"
  "\<exists>rep. getVehiclePerformance24h no_query_faults query_time db_two_meters ''VEHICLE_001'' = Inr rep"
  "\<exists>rep. getVehiclePerformanceWithMeter no_query_faults query_time db_two_meters ''VEHICLE_001''
           (Some ''METER_001'') = Inr rep"
  "\<exists>rep. getVehiclePerformance24h no_query_faults query_time
           (withVehicleReadings [vehicle_001] db0) ''VEHICLE_001'' = Inr rep"
  "\<exists>rep. getVehiclePerformanceWithMeter no_query_faults query_time (db_with_energy ac dc) ''VEHICLE_001''
           (Some m) = Inr rep"
  by (simp_all add: query_defs sample_defs)

lemma sample_energy:
  "fleetEnergy (db_with_energy ac dc) query_time = decimal_column 3 ac"
  "vehicleEnergy (db_with_energy ac dc) ''VEHICLE_001'' query_time = decimal_column 3 dc"
  "fleetEnergy db_two_meters query_time = 225.456"
  "meterEnergy db_two_meters ''METER_001'' query_time = 125.456"
  "vehicleEnergy db_two_meters ''VEHICLE_001'' query_time = 106.638"
  "fleetEnergy (withVehicleReadings [vehicle_001] db0) query_time = 0"
  by (simp_all add: energy_defs sample_defs)

text \<open>The tier of a report, from the totals of its window.\<close>

lemma report_tier:
  "getVehiclePerformance24h fault now s v = Inr rep \<Longrightarrow>
     healthStatus rep = healthStatus_of
       (efficiencyRatio_binary64 (binary64 (fleetEnergy s now)) (binary64 (vehicleEnergy s v now)))"
  using performanceResult_fields[of s v now _ rep] by (auto dest!: performance24h_Inr)

lemma report_tier_meter:
  "m \<noteq> [] \<Longrightarrow> getVehiclePerformanceWithMeter fault now s v (Some m) = Inr rep \<Longrightarrow>
     healthStatus rep = healthStatus_of
       (efficiencyRatio_binary64 (binary64 (meterEnergy s m now)) (binary64 (vehicleEnergy s v now)))"
  using performanceResult_fields_meter[of s v now _ rep m] by (auto dest!: performanceWithMeter_Inr)

lemma number_ge_thresholds: "number_ge q (binary64 0.85) \<Longrightarrow> number_ge q (binary64 0.75)"
  unfolding binary64_thresholds by (cases q) simp_all

lemma healthStatus_of_iff:
  "healthStatus_of q = healthy \<longleftrightarrow> number_ge q (binary64 0.85)"
  "healthStatus_of q = degraded \<longleftrightarrow> number_ge q (binary64 0.75) \<and> \<not> number_ge q (binary64 0.85)"
  "healthStatus_of q = critical \<longleftrightarrow> \<not> number_ge q (binary64 0.75)"
  using number_ge_thresholds[of q] by (auto simp: healthStatus_of_def)

lemma healthStatus_of_Num_iff:
  "healthStatus_of (Num r) = healthy \<longleftrightarrow> 7656119366529843 / 2 ^ 53 \<le> r"
  "healthStatus_of (Num r) = degraded \<longleftrightarrow> 0.75 \<le> r \<and> r < 7656119366529843 / 2 ^ 53"
  "healthStatus_of (Num r) = critical \<longleftrightarrow> r < 0.75"
  unfolding healthStatus_of_Num by auto

lemma healthStatus_of_points:
  "healthStatus_of (binary64 0.85) = healthy"
  "healthStatus_of (binary64 0.8499) = degraded"
  "healthStatus_of (binary64 0.7499) = critical"
  "healthStatus_of (Num 0) = critical"
  unfolding binary64_thresholds binary64_samples healthStatus_of_Num by simp_all

lemma efficiencyRatio_binary64_nonpositive:
  assumes "x \<le> 0"
  shows "efficiencyRatio_binary64 (binary64 x) d = Num 0"
proof (cases "x = 0")
  case True
  then show ?thesis by (simp add: efficiencyRatio_binary64_def)
next
  case False
  define y where "y = real_of_int (roundTiesToEven (\<bar>x\<bar> / 2 powi (max \<lfloor>log 2 \<bar>x\<bar>\<rfloor> (- 1022) - 52)))
    * 2 powi (max \<lfloor>log 2 \<bar>x\<bar>\<rfloor> (- 1022) - 52)"
  have y: "0 \<le> y"
    unfolding y_def by (intro mult_nonneg_nonneg) (simp_all add: roundTiesToEven_nonneg)
  have "binary64 x = (if 2 ^ 1024 \<le> y then Minus_Infinity else Num (- y))"
    using False assms by (simp add: binary64_def Let_def y_def sgn_if)
  then show ?thesis using y by (simp add: efficiencyRatio_binary64_def)
qed

lemma efficiencyRatio_binary64_finite:
  "binary64 source = Num a \<Longrightarrow> 0 < a \<Longrightarrow> binary64 delivered = Num b \<Longrightarrow>
     efficiencyRatio_binary64 (binary64 source) (binary64 delivered) = binary64 (b / a)"
  "binary64 source = Num a \<Longrightarrow> \<not> 0 < a \<Longrightarrow>
     efficiencyRatio_binary64 (binary64 source) d = Num 0"
  by (simp_all add: efficiencyRatio_binary64_def)

lemma sample_energy_with:
  "meterEnergy (db_with_energy ac dc) ''METER_001'' query_time = decimal_column 3 ac"
  "meterEnergy (db_with_energy ac dc) ''METER_002'' query_time = 0"
  by (simp_all add: energy_defs sample_defs)

lemma sample_totals:
  "fleetEnergy (db_with_energy 100 85) query_time = 100"
  "vehicleEnergy (db_with_energy 100 85) ''VEHICLE_001'' query_time = 85"
  "fleetEnergy (db_with_energy 100 90) query_time = 100"
  "meterEnergy (db_with_energy 100 90) ''METER_001'' query_time = 100"
  "vehicleEnergy (db_with_energy 100 90) ''VEHICLE_001'' query_time = 90"
  "fleetEnergy (db_with_energy 10000 8499) query_time = 10000"
  "meterEnergy (db_with_energy 10000 8499) ''METER_001'' query_time = 10000"
  "vehicleEnergy (db_with_energy 10000 8499) ''VEHICLE_001'' query_time = 8499"
  "fleetEnergy (db_with_energy 10000 7499) query_time = 10000"
  "meterEnergy (db_with_energy 10000 7499) ''METER_001'' query_time = 10000"
  "vehicleEnergy (db_with_energy 10000 7499) ''VEHICLE_001'' query_time = 7499"
  "fleetEnergy (db_with_energy 0.14 0.119) query_time = 0.14"
  "vehicleEnergy (db_with_energy 0.14 0.119) ''VEHICLE_001'' query_time = 0.119"
  "fleetEnergy (db_with_energy 0.1 0.075) query_time = 0.1"
  "vehicleEnergy (db_with_energy 0.1 0.075) ''VEHICLE_001'' query_time = 0.075"
  unfolding sample_energy sample_energy_with by (simp_all add: decimal_column_def)


section \<open>Write atomicity of a single reading\<close>

text \<open>
  Claim C1 says that a reading that was ingested is found with its own field values in
  its new history row and in the current-status row of its device. The numeric columns
  keep three decimals of an energy and two of a voltage, a state of charge and a
  temperature: on the fresh database the meter reading of \<open>0.0005\<close> kWh at \<open>240.555\<close> V is
  ingested and stored in both tables as \<open>0.001\<close> kWh at \<open>240.56\<close> V, and the vehicle reading
  of \<open>0.0005\<close> kWh at \<open>85.555\<close> percent and \<open>35.205\<close> degrees as \<open>0.001\<close>, \<open>85.56\<close> and
  \<open>35.21\<close>.
\<close>

theorem write_atomicity_counterexample:
  "thrown (ingestMeterTelemetry no_faults meter_001_fine db0) = None
   \<and> kwhConsumedAc meter_001_fine = 0.0005 \<and> voltage meter_001_fine = 240.555
   \<and> map mh_kwhConsumedAc
        (meter_telemetry_history (store (ingestMeterTelemetry no_faults meter_001_fine db0))) = [0.001]
   \<and> map mh_voltage
        (meter_telemetry_history (store (ingestMeterTelemetry no_faults meter_001_fine db0))) = [240.56]
   \<and> map_option cm_kwhConsumedAc
        (current_meter_status (store (ingestMeterTelemetry no_faults meter_001_fine db0)) ''METER_001'')
       = Some 0.001
   \<and> map_option cm_voltage
        (current_meter_status (store (ingestMeterTelemetry no_faults meter_001_fine db0)) ''METER_001'')
       = Some 240.56
   \<and> thrown (ingestVehicleTelemetry no_faults vehicle_001_fine db0) = None
   \<and> soc vehicle_001_fine = 85.555 \<and> kwhDeliveredDc vehicle_001_fine = 0.0005
   \<and> batteryTemp vehicle_001_fine = Some 35.205
   \<and> map vh_soc
        (vehicle_telemetry_history (store (ingestVehicleTelemetry no_faults vehicle_001_fine db0))) = [85.56]
   \<and> map vh_kwhDeliveredDc
        (vehicle_telemetry_history (store (ingestVehicleTelemetry no_faults vehicle_001_fine db0))) = [0.001]
   \<and> map vh_batteryTemp
        (vehicle_telemetry_history (store (ingestVehicleTelemetry no_faults vehicle_001_fine db0)))
       = [Some 35.21]
   \<and> map_option cv_soc
        (current_vehicle_status (store (ingestVehicleTelemetry no_faults vehicle_001_fine db0)) ''VEHICLE_001'')
       = Some 85.56
   \<and> map_option cv_kwhDeliveredDc
        (current_vehicle_status (store (ingestVehicleTelemetry no_faults vehicle_001_fine db0)) ''VEHICLE_001'')
       = Some 0.001
   \<and> map_option cv_batteryTemp
        (current_vehicle_status (store (ingestVehicleTelemetry no_faults vehicle_001_fine db0)) ''VEHICLE_001'')
       = Some (Some 35.21)"
proof -
  have m_ok: "thrown (ingestMeterTelemetry no_faults meter_001_fine db0) = None"
    by (simp add: ingestMeterTelemetry_def write_defs sample_defs)
  have v_ok: "thrown (ingestVehicleTelemetry no_faults vehicle_001_fine db0) = None"
    by (simp add: ingestVehicleTelemetry_def write_defs sample_defs)
  have m_st: "store (ingestMeterTelemetry no_faults meter_001_fine db0)
      = withMeterReadings [meter_001_fine] db0"
    using m_ok by (simp add: ingestMeterTelemetry_store)
  have v_st: "store (ingestVehicleTelemetry no_faults vehicle_001_fine db0)
      = withVehicleReadings [vehicle_001_fine] db0"
    using v_ok by (simp add: ingestVehicleTelemetry_store)
  have r3: "decimal_column 3 (5 / 10000) = 1 / 1000"
    by (simp add: decimal_column_def)
  have r2: "decimal_column 2 (240555 / 1000) = 24056 / 100"
    "decimal_column 2 (85555 / 1000) = 8556 / 100"
    "decimal_column 2 (35205 / 1000) = 3521 / 100"
    by (simp_all add: decimal_column_def)
  show ?thesis
    unfolding m_st v_st using m_ok v_ok r3 r2
    by (simp add: withMeterReadings_def withVehicleReadings_def meterHistoryRow_def
        vehicleHistoryRow_def upsert_CurrentMeterStatus_def upsert_CurrentVehicleStatus_def
        sample_defs)
qed


text \<open>
  Claim C1 as amended. For every reading, every database and every fault plan,
  \<^verbatim>\<open>ingestMeterTelemetry\<close> runs its two writes in one transaction. When it resolves, the
  meter history is the old one followed by exactly one new row; the row carries the
  reading's meter id and timestamp, and its energy and voltage as their columns store
  them: rounded to three and to two decimals, hence within \<open>0.0005\<close> and \<open>0.005\<close> of the
  reading's, and the reading's own whenever these have no more decimals than that; the
  current-status row of the reading's meter holds the same stored values and the
  reading's timestamp; the vehicle tables are untouched. When it throws, the database is
  the one before the call. The same holds for \<^verbatim>\<open>ingestVehicleTelemetry\<close>, a battery
  temperature being stored like a voltage and an omitted one as \<^verbatim>\<open>NULL\<close>. Either call runs
  exactly one transaction.
\<close>

theorem write_atomicity:
  fixes s :: db
    and fault fault' :: faults
    and d :: MeterTelemetryDto
    and d' :: VehicleTelemetryDto
    and n m n' m' :: int
    and k :: "int option"
  defines "M \<equiv> ingestMeterTelemetry fault d s"
    and "V \<equiv> ingestVehicleTelemetry fault' d' s"
  shows "(thrown M = None \<longrightarrow>
      (\<exists>h c. meter_telemetry_history (store M) = meter_telemetry_history s @ [h]
         \<and> mh_meterId h = meterId d \<and> mh_timestamp h = timestamp d
         \<and> mh_kwhConsumedAc h = decimal_column 3 (kwhConsumedAc d)
         \<and> mh_voltage h = decimal_column 2 (voltage d)
         \<and> \<bar>mh_kwhConsumedAc h - kwhConsumedAc d\<bar> \<le> 0.0005
         \<and> \<bar>mh_voltage h - voltage d\<bar> \<le> 0.005
         \<and> (kwhConsumedAc d = real_of_int n / 1000 \<longrightarrow> mh_kwhConsumedAc h = kwhConsumedAc d)
         \<and> (voltage d = real_of_int m / 100 \<longrightarrow> mh_voltage h = voltage d)
         \<and> current_meter_status (store M) (meterId d) = Some c
         \<and> cm_kwhConsumedAc c = mh_kwhConsumedAc h \<and> cm_voltage c = mh_voltage h
         \<and> cm_lastUpdateTimestamp c = timestamp d)
      \<and> vehicle_telemetry_history (store M) = vehicle_telemetry_history s
      \<and> current_vehicle_status (store M) = current_vehicle_status s)
   \<and> (thrown M \<noteq> None \<longrightarrow> store M = s)
   \<and> (thrown V = None \<longrightarrow>
      (\<exists>h c. vehicle_telemetry_history (store V) = vehicle_telemetry_history s @ [h]
         \<and> vh_vehicleId h = vehicleId d' \<and> vh_timestamp h = timestamp_v d'
         \<and> vh_soc h = decimal_column 2 (soc d')
         \<and> vh_kwhDeliveredDc h = decimal_column 3 (kwhDeliveredDc d')
         \<and> vh_batteryTemp h = map_option (decimal_column 2) (batteryTemp d')
         \<and> \<bar>vh_soc h - soc d'\<bar> \<le> 0.005
         \<and> \<bar>vh_kwhDeliveredDc h - kwhDeliveredDc d'\<bar> \<le> 0.0005
         \<and> (soc d' = real_of_int m' / 100 \<longrightarrow> vh_soc h = soc d')
         \<and> (kwhDeliveredDc d' = real_of_int n' / 1000 \<longrightarrow> vh_kwhDeliveredDc h = kwhDeliveredDc d')
         \<and> (batteryTemp d' = map_option (\<lambda>j. real_of_int j / 100) k \<longrightarrow>
              vh_batteryTemp h = batteryTemp d')
         \<and> current_vehicle_status (store V) (vehicleId d') = Some c
         \<and> cv_soc c = vh_soc h \<and> cv_kwhDeliveredDc c = vh_kwhDeliveredDc h
         \<and> cv_batteryTemp c = vh_batteryTemp h
         \<and> cv_lastUpdateTimestamp c = timestamp_v d')
      \<and> meter_telemetry_history (store V) = meter_telemetry_history s
      \<and> current_meter_status (store V) = current_meter_status s)
   \<and> (thrown V \<noteq> None \<longrightarrow> store V = s)
   \<and> transactions M = 1 \<and> transactions V = 1"
proof -
  have m_fail: "thrown M \<noteq> None \<longrightarrow> store M = s"
    unfolding M_def by (auto simp: ingestMeterTelemetry_store)
  have v_fail: "thrown V \<noteq> None \<longrightarrow> store V = s"
    unfolding V_def by (auto simp: ingestVehicleTelemetry_store)
  have tr: "transactions M = 1" "transactions V = 1"
    unfolding M_def V_def
    by (simp_all add: ingestMeterTelemetry_transactions ingestVehicleTelemetry_transactions)
  have meter: "thrown M = None \<longrightarrow>
      (\<exists>h c. meter_telemetry_history (store M) = meter_telemetry_history s @ [h]
         \<and> mh_meterId h = meterId d \<and> mh_timestamp h = timestamp d
         \<and> mh_kwhConsumedAc h = decimal_column 3 (kwhConsumedAc d)
         \<and> mh_voltage h = decimal_column 2 (voltage d)
         \<and> \<bar>mh_kwhConsumedAc h - kwhConsumedAc d\<bar> \<le> 0.0005
         \<and> \<bar>mh_voltage h - voltage d\<bar> \<le> 0.005
         \<and> (kwhConsumedAc d = real_of_int n / 1000 \<longrightarrow> mh_kwhConsumedAc h = kwhConsumedAc d)
         \<and> (voltage d = real_of_int m / 100 \<longrightarrow> mh_voltage h = voltage d)
         \<and> current_meter_status (store M) (meterId d) = Some c
         \<and> cm_kwhConsumedAc c = mh_kwhConsumedAc h \<and> cm_voltage c = mh_voltage h
         \<and> cm_lastUpdateTimestamp c = timestamp d)
      \<and> vehicle_telemetry_history (store M) = vehicle_telemetry_history s
      \<and> current_vehicle_status (store M) = current_vehicle_status s"
  proof
    assume "thrown M = None"
    then have st: "store M = withMeterReadings [d] s"
      unfolding M_def by (simp add: ingestMeterTelemetry_store)
    obtain c where c: "upsert_CurrentMeterStatus d (current_meter_status s) (meterId d) = Some c"
      "cm_kwhConsumedAc c = decimal_column 3 (kwhConsumedAc d)"
      "cm_voltage c = decimal_column 2 (voltage d)"
      "cm_lastUpdateTimestamp c = timestamp d"
      using upsert_meter_holds[of d "current_meter_status s"] by blast
    have row: "meter_telemetry_history (store M) = meter_telemetry_history s @ [meterHistoryRow d]"
      "current_meter_status (store M) (meterId d) = Some c"
      "vehicle_telemetry_history (store M) = vehicle_telemetry_history s"
      "current_vehicle_status (store M) = current_vehicle_status s"
      unfolding st using c(1) by (simp_all add: withMeterReadings_def)
    have h: "mh_meterId (meterHistoryRow d) = meterId d"
      "mh_timestamp (meterHistoryRow d) = timestamp d"
      "mh_kwhConsumedAc (meterHistoryRow d) = decimal_column 3 (kwhConsumedAc d)"
      "mh_voltage (meterHistoryRow d) = decimal_column 2 (voltage d)"
      by (simp_all add: meterHistoryRow_def)
    have vals: "\<bar>decimal_column 3 (kwhConsumedAc d) - kwhConsumedAc d\<bar> \<le> 0.0005"
      "\<bar>decimal_column 2 (voltage d) - voltage d\<bar> \<le> 0.005"
      "kwhConsumedAc d = real_of_int n / 1000 \<longrightarrow>
         decimal_column 3 (kwhConsumedAc d) = kwhConsumedAc d"
      "voltage d = real_of_int m / 100 \<longrightarrow> decimal_column 2 (voltage d) = voltage d"
      using decimal_column_close_3 decimal_column_close_2 decimal_column_3 decimal_column_2
      by blast+
    show "(\<exists>h c. meter_telemetry_history (store M) = meter_telemetry_history s @ [h]
         \<and> mh_meterId h = meterId d \<and> mh_timestamp h = timestamp d
         \<and> mh_kwhConsumedAc h = decimal_column 3 (kwhConsumedAc d)
         \<and> mh_voltage h = decimal_column 2 (voltage d)
         \<and> \<bar>mh_kwhConsumedAc h - kwhConsumedAc d\<bar> \<le> 0.0005
         \<and> \<bar>mh_voltage h - voltage d\<bar> \<le> 0.005
         \<and> (kwhConsumedAc d = real_of_int n / 1000 \<longrightarrow> mh_kwhConsumedAc h = kwhConsumedAc d)
         \<and> (voltage d = real_of_int m / 100 \<longrightarrow> mh_voltage h = voltage d)
         \<and> current_meter_status (store M) (meterId d) = Some c
         \<and> cm_kwhConsumedAc c = mh_kwhConsumedAc h \<and> cm_voltage c = mh_voltage h
         \<and> cm_lastUpdateTimestamp c = timestamp d)
      \<and> vehicle_telemetry_history (store M) = vehicle_telemetry_history s
      \<and> current_vehicle_status (store M) = current_vehicle_status s"
      apply (intro conjI exI[of _ "meterHistoryRow d"] exI[of _ c])
      using row c(2-) vals unfolding h by simp_all
  qed
  have vehicle: "thrown V = None \<longrightarrow>
      (\<exists>h c. vehicle_telemetry_history (store V) = vehicle_telemetry_history s @ [h]
         \<and> vh_vehicleId h = vehicleId d' \<and> vh_timestamp h = timestamp_v d'
         \<and> vh_soc h = decimal_column 2 (soc d')
         \<and> vh_kwhDeliveredDc h = decimal_column 3 (kwhDeliveredDc d')
         \<and> vh_batteryTemp h = map_option (decimal_column 2) (batteryTemp d')
         \<and> \<bar>vh_soc h - soc d'\<bar> \<le> 0.005
         \<and> \<bar>vh_kwhDeliveredDc h - kwhDeliveredDc d'\<bar> \<le> 0.0005
         \<and> (soc d' = real_of_int m' / 100 \<longrightarrow> vh_soc h = soc d')
         \<and> (kwhDeliveredDc d' = real_of_int n' / 1000 \<longrightarrow> vh_kwhDeliveredDc h = kwhDeliveredDc d')
         \<and> (batteryTemp d' = map_option (\<lambda>j. real_of_int j / 100) k \<longrightarrow>
              vh_batteryTemp h = batteryTemp d')
         \<and> current_vehicle_status (store V) (vehicleId d') = Some c
         \<and> cv_soc c = vh_soc h \<and> cv_kwhDeliveredDc c = vh_kwhDeliveredDc h
         \<and> cv_batteryTemp c = vh_batteryTemp h
         \<and> cv_lastUpdateTimestamp c = timestamp_v d')
      \<and> meter_telemetry_history (store V) = meter_telemetry_history s
      \<and> current_meter_status (store V) = current_meter_status s"
  proof
    assume "thrown V = None"
    then have st: "store V = withVehicleReadings [d'] s"
      unfolding V_def by (simp add: ingestVehicleTelemetry_store)
    obtain c where c: "upsert_CurrentVehicleStatus d' (current_vehicle_status s) (vehicleId d') = Some c"
      "cv_soc c = decimal_column 2 (soc d')"
      "cv_kwhDeliveredDc c = decimal_column 3 (kwhDeliveredDc d')"
      "cv_batteryTemp c = map_option (decimal_column 2) (batteryTemp d')"
      "cv_lastUpdateTimestamp c = timestamp_v d'"
      using upsert_vehicle_holds[of d' "current_vehicle_status s"] by blast
    have row: "vehicle_telemetry_history (store V) = vehicle_telemetry_history s @ [vehicleHistoryRow d']"
      "current_vehicle_status (store V) (vehicleId d') = Some c"
      "meter_telemetry_history (store V) = meter_telemetry_history s"
      "current_meter_status (store V) = current_meter_status s"
      unfolding st using c(1) by (simp_all add: withVehicleReadings_def)
    have h: "vh_vehicleId (vehicleHistoryRow d') = vehicleId d'"
      "vh_timestamp (vehicleHistoryRow d') = timestamp_v d'"
      "vh_soc (vehicleHistoryRow d') = decimal_column 2 (soc d')"
      "vh_kwhDeliveredDc (vehicleHistoryRow d') = decimal_column 3 (kwhDeliveredDc d')"
      "vh_batteryTemp (vehicleHistoryRow d') = map_option (decimal_column 2) (batteryTemp d')"
      by (simp_all add: vehicleHistoryRow_def)
    have vals: "\<bar>decimal_column 2 (soc d') - soc d'\<bar> \<le> 0.005"
      "\<bar>decimal_column 3 (kwhDeliveredDc d') - kwhDeliveredDc d'\<bar> \<le> 0.0005"
      "soc d' = real_of_int m' / 100 \<longrightarrow> decimal_column 2 (soc d') = soc d'"
      "kwhDeliveredDc d' = real_of_int n' / 1000 \<longrightarrow>
         decimal_column 3 (kwhDeliveredDc d') = kwhDeliveredDc d'"
      using decimal_column_close_3 decimal_column_close_2 decimal_column_3 decimal_column_2
      by blast+
    have temp: "batteryTemp d' = map_option (\<lambda>j. real_of_int j / 100) k \<longrightarrow>
        map_option (decimal_column 2) (batteryTemp d') = batteryTemp d'"
      by (simp add: decimal_column_option)
    show "(\<exists>h c. vehicle_telemetry_history (store V) = vehicle_telemetry_history s @ [h]
         \<and> vh_vehicleId h = vehicleId d' \<and> vh_timestamp h = timestamp_v d'
         \<and> vh_soc h = decimal_column 2 (soc d')
         \<and> vh_kwhDeliveredDc h = decimal_column 3 (kwhDeliveredDc d')
         \<and> vh_batteryTemp h = map_option (decimal_column 2) (batteryTemp d')
         \<and> \<bar>vh_soc h - soc d'\<bar> \<le> 0.005
         \<and> \<bar>vh_kwhDeliveredDc h - kwhDeliveredDc d'\<bar> \<le> 0.0005
         \<and> (soc d' = real_of_int m' / 100 \<longrightarrow> vh_soc h = soc d')
         \<and> (kwhDeliveredDc d' = real_of_int n' / 1000 \<longrightarrow> vh_kwhDeliveredDc h = kwhDeliveredDc d')
         \<and> (batteryTemp d' = map_option (\<lambda>j. real_of_int j / 100) k \<longrightarrow>
              vh_batteryTemp h = batteryTemp d')
         \<and> current_vehicle_status (store V) (vehicleId d') = Some c
         \<and> cv_soc c = vh_soc h \<and> cv_kwhDeliveredDc c = vh_kwhDeliveredDc h
         \<and> cv_batteryTemp c = vh_batteryTemp h
         \<and> cv_lastUpdateTimestamp c = timestamp_v d')
      \<and> meter_telemetry_history (store V) = meter_telemetry_history s
      \<and> current_meter_status (store V) = current_meter_status s"
      apply (intro conjI exI[of _ "vehicleHistoryRow d'"] exI[of _ c])
      using row c(2-) vals temp unfolding h by simp_all
  qed
  from meter m_fail vehicle v_fail tr show ?thesis by blast
qed


text \<open>On the fresh database: the sample readings, which have no more decimals than their
  columns, are stored with their own values in both tables; a lost connection leaves the
  database as it was, and so does the March reading, whose upsert had gone through inside
  the transaction when its history insert found no partition.\<close>

theorem write_atomicity_witness:
  "thrown (ingestMeterTelemetry no_faults meter_001 db0) = None
   \<and> (\<exists>h c. meter_telemetry_history (store (ingestMeterTelemetry no_faults meter_001 db0)) = [h]
         \<and> mh_meterId h = ''METER_001'' \<and> mh_timestamp h = 1770633000000
         \<and> mh_kwhConsumedAc h = 125.456 \<and> mh_voltage h = 240.5
         \<and> current_meter_status (store (ingestMeterTelemetry no_faults meter_001 db0)) ''METER_001''
             = Some c
         \<and> cm_kwhConsumedAc c = 125.456 \<and> cm_voltage c = 240.5
         \<and> cm_lastUpdateTimestamp c = 1770633000000)
   \<and> thrown (ingestVehicleTelemetry no_faults vehicle_001 db0) = None
   \<and> (\<exists>h c. vehicle_telemetry_history (store (ingestVehicleTelemetry no_faults vehicle_001 db0)) = [h]
         \<and> vh_vehicleId h = ''VEHICLE_001'' \<and> vh_timestamp h = 1770633000000
         \<and> vh_soc h = 85.5 \<and> vh_kwhDeliveredDc h = 106.638 \<and> vh_batteryTemp h = Some 35.2
         \<and> current_vehicle_status (store (ingestVehicleTelemetry no_faults vehicle_001 db0)) ''VEHICLE_001''
             = Some c
         \<and> cv_soc c = 85.5 \<and> cv_kwhDeliveredDc c = 106.638 \<and> cv_batteryTemp c = Some 35.2
         \<and> cv_lastUpdateTimestamp c = 1770633000000)
   \<and> thrown (ingestMeterTelemetry no_faults meter_001_march db0) = Some NoPartitionFound
   \<and> current_meter_status (snd (meterDualWrite (no_faults 0) [meter_001_march] db0)) ''METER_001''
       \<noteq> None
   \<and> store (ingestMeterTelemetry no_faults meter_001_march db0) = db0
   \<and> thrown (ingestVehicleTelemetry (connectionLostAt 0) vehicle_001 db0) = Some ConnectionLost
   \<and> store (ingestVehicleTelemetry (connectionLostAt 0) vehicle_001 db0) = db0"
proof -
  have m_ok: "thrown (ingestMeterTelemetry no_faults meter_001 db0) = None"
    by (simp add: ingestMeterTelemetry_def write_defs sample_defs)
  have v_ok: "thrown (ingestVehicleTelemetry no_faults vehicle_001 db0) = None"
    by (simp add: ingestVehicleTelemetry_def write_defs sample_defs)
  have m_fail: "thrown (ingestMeterTelemetry no_faults meter_001_march db0) = Some NoPartitionFound"
    by (simp add: ingestMeterTelemetry_def write_defs sample_defs)
  have v_fail: "thrown (ingestVehicleTelemetry (connectionLostAt 0) vehicle_001 db0) = Some ConnectionLost"
    by (simp add: ingestVehicleTelemetry_def write_defs sample_defs connectionLostAt_def)
  have half_written:
    "current_meter_status (snd (meterDualWrite (no_faults 0) [meter_001_march] db0)) ''METER_001''
       \<noteq> None"
    by (simp add: write_defs upsert_CurrentMeterStatus_def sample_defs)
  have fields: "meterId meter_001 = ''METER_001''" "timestamp meter_001 = 1770633000000"
    "kwhConsumedAc meter_001 = 125.456" "voltage meter_001 = 240.5"
    "vehicleId vehicle_001 = ''VEHICLE_001''" "timestamp_v vehicle_001 = 1770633000000"
    "soc vehicle_001 = 85.5" "kwhDeliveredDc vehicle_001 = 106.638"
    "batteryTemp vehicle_001 = Some 35.2"
    by (simp_all add: sample_defs)
  have grid: "kwhConsumedAc meter_001 = real_of_int 125456 / 1000"
    "voltage meter_001 = real_of_int 24050 / 100"
    "soc vehicle_001 = real_of_int 8550 / 100"
    "kwhDeliveredDc vehicle_001 = real_of_int 106638 / 1000"
    "batteryTemp vehicle_001 = map_option (\<lambda>j. real_of_int j / 100) (Some 3520)"
    by (simp_all add: sample_defs)
  have empty: "meter_telemetry_history db0 = []" "vehicle_telemetry_history db0 = []"
    by (simp_all add: db0_def)
  from write_atomicity[of no_faults meter_001 db0 125456 24050 no_faults vehicle_001 8550 106638
      "Some 3520"] m_ok v_ok grid
  have stored: "\<exists>h c. meter_telemetry_history (store (ingestMeterTelemetry no_faults meter_001 db0))
           = meter_telemetry_history db0 @ [h]
         \<and> mh_meterId h = meterId meter_001 \<and> mh_timestamp h = timestamp meter_001
         \<and> mh_kwhConsumedAc h = kwhConsumedAc meter_001 \<and> mh_voltage h = voltage meter_001
         \<and> current_meter_status (store (ingestMeterTelemetry no_faults meter_001 db0))
             (meterId meter_001) = Some c
         \<and> cm_kwhConsumedAc c = kwhConsumedAc meter_001 \<and> cm_voltage c = voltage meter_001
         \<and> cm_lastUpdateTimestamp c = timestamp meter_001"
    "\<exists>h c. vehicle_telemetry_history (store (ingestVehicleTelemetry no_faults vehicle_001 db0))
           = vehicle_telemetry_history db0 @ [h]
         \<and> vh_vehicleId h = vehicleId vehicle_001 \<and> vh_timestamp h = timestamp_v vehicle_001
         \<and> vh_soc h = soc vehicle_001 \<and> vh_kwhDeliveredDc h = kwhDeliveredDc vehicle_001
         \<and> vh_batteryTemp h = batteryTemp vehicle_001
         \<and> current_vehicle_status (store (ingestVehicleTelemetry no_faults vehicle_001 db0))
             (vehicleId vehicle_001) = Some c
         \<and> cv_soc c = soc vehicle_001 \<and> cv_kwhDeliveredDc c = kwhDeliveredDc vehicle_001
         \<and> cv_batteryTemp c = batteryTemp vehicle_001
         \<and> cv_lastUpdateTimestamp c = timestamp_v vehicle_001"
    by metis+
  from write_atomicity[of no_faults meter_001_march db0 0 0 "connectionLostAt 0" vehicle_001 0 0 None]
    m_fail v_fail
  have rolled_back: "store (ingestMeterTelemetry no_faults meter_001_march db0) = db0"
    "store (ingestVehicleTelemetry (connectionLostAt 0) vehicle_001 db0) = db0"
    by simp_all
  from stored show ?thesis
    unfolding fields empty using m_ok v_ok m_fail v_fail half_written rolled_back by simp
qed


section \<open>Batch ingestion in chunks of 1000\<close>

text \<open>
  Claim C2. For every list of readings, every database and every fault plan, a batch call
  commits a whole number \<open>k\<close> of consecutive chunks of 1000 readings and nothing else: the
  database it leaves is the one with the first \<open>1000 * k\<close> readings applied. When the
  call resolves, every chunk went through, in as many transactions as there are chunks
  (3 for 2500 readings). When it throws, \<open>k\<close> chunks are committed, the transaction of
  chunk \<open>k + 1\<close> is the one that failed and the last one run: a 2500-reading batch whose
  second transaction fails leaves exactly the 1000 history rows of the first chunk. The
  same holds for meters and for vehicles.
\<close>

theorem batch_chunking:
  "batchSize = 1000 \<and> chunkCount 2500 = 3
   \<and> (\<exists>k. store (ingestMeterBatch fault rs s) = withMeterReadings (take (k * batchSize) rs) s
      \<and> (case thrown (ingestMeterBatch fault rs s) of
            None \<Rightarrow> k = chunkCount (length rs)
              \<and> transactions (ingestMeterBatch fault rs s) = chunkCount (length rs)
              \<and> store (ingestMeterBatch fault rs s) = withMeterReadings rs s
          | Some e \<Rightarrow> k < chunkCount (length rs)
              \<and> transactions (ingestMeterBatch fault rs s) = k + 1
              \<and> fst (meterDualWrite (fault k) (slice rs (k * batchSize) (k * batchSize + batchSize))
                       (store (ingestMeterBatch fault rs s))) = Some e))
   \<and> (length rs = 2500 \<and> thrown (ingestMeterBatch fault rs s) = None \<longrightarrow>
      transactions (ingestMeterBatch fault rs s) = 3)
   \<and> (length rs = 2500 \<and> thrown (ingestMeterBatch fault rs s) \<noteq> None
        \<and> transactions (ingestMeterBatch fault rs s) = 2 \<longrightarrow>
      meter_telemetry_history (store (ingestMeterBatch fault rs s))
        = meter_telemetry_history s @ map meterHistoryRow (take 1000 rs)
      \<and> length (meter_telemetry_history (store (ingestMeterBatch fault rs s)))
        = length (meter_telemetry_history s) + 1000)
   \<and> (\<exists>k. store (ingestVehicleBatch fault2 vs s) = withVehicleReadings (take (k * batchSize) vs) s
      \<and> (case thrown (ingestVehicleBatch fault2 vs s) of
            None \<Rightarrow> k = chunkCount (length vs)
              \<and> transactions (ingestVehicleBatch fault2 vs s) = chunkCount (length vs)
              \<and> store (ingestVehicleBatch fault2 vs s) = withVehicleReadings vs s
          | Some e \<Rightarrow> k < chunkCount (length vs)
              \<and> transactions (ingestVehicleBatch fault2 vs s) = k + 1
              \<and> fst (vehicleDualWrite (fault2 k) (slice vs (k * batchSize) (k * batchSize + batchSize))
                       (store (ingestVehicleBatch fault2 vs s))) = Some e))
   \<and> (length vs = 2500 \<and> thrown (ingestVehicleBatch fault2 vs s) = None \<longrightarrow>
      transactions (ingestVehicleBatch fault2 vs s) = 3)
   \<and> (length vs = 2500 \<and> thrown (ingestVehicleBatch fault2 vs s) \<noteq> None
        \<and> transactions (ingestVehicleBatch fault2 vs s) = 2 \<longrightarrow>
      vehicle_telemetry_history (store (ingestVehicleBatch fault2 vs s))
        = vehicle_telemetry_history s @ map vehicleHistoryRow (take 1000 vs)
      \<and> length (vehicle_telemetry_history (store (ingestVehicleBatch fault2 vs s)))
        = length (vehicle_telemetry_history s) + 1000)"
proof -
  have m2: "(length rs = 2500 \<and> thrown (ingestMeterBatch fault rs s) = None \<longrightarrow>
      transactions (ingestMeterBatch fault rs s) = 3)
   \<and> (length rs = 2500 \<and> thrown (ingestMeterBatch fault rs s) \<noteq> None
        \<and> transactions (ingestMeterBatch fault rs s) = 2 \<longrightarrow>
      meter_telemetry_history (store (ingestMeterBatch fault rs s))
        = meter_telemetry_history s @ map meterHistoryRow (take 1000 rs)
      \<and> length (meter_telemetry_history (store (ingestMeterBatch fault rs s)))
        = length (meter_telemetry_history s) + 1000)"
    using meterBatch_chunks[of fault rs s] chunkCount_2500
    by (auto simp: meterBatch_second_unit withMeterReadings_def)
  have v2: "(length vs = 2500 \<and> thrown (ingestVehicleBatch fault2 vs s) = None \<longrightarrow>
      transactions (ingestVehicleBatch fault2 vs s) = 3)
   \<and> (length vs = 2500 \<and> thrown (ingestVehicleBatch fault2 vs s) \<noteq> None
        \<and> transactions (ingestVehicleBatch fault2 vs s) = 2 \<longrightarrow>
      vehicle_telemetry_history (store (ingestVehicleBatch fault2 vs s))
        = vehicle_telemetry_history s @ map vehicleHistoryRow (take 1000 vs)
      \<and> length (vehicle_telemetry_history (store (ingestVehicleBatch fault2 vs s)))
        = length (vehicle_telemetry_history s) + 1000)"
    using vehicleBatch_chunks[of fault2 vs s] chunkCount_2500
    by (auto simp: vehicleBatch_second_unit withVehicleReadings_def)
  from meterBatch_chunks[of fault rs s] vehicleBatch_chunks[of fault2 vs s] m2 v2 chunkCount_2500
  show ?thesis unfolding batchSize_def[symmetric] by (intro conjI) (simp_all add: batchSize_def)
qed


text \<open>Fleets of 2500 devices on the fresh database: three transactions when nothing fails;
  with the connection lost in the second transaction, two transactions and 1000 rows.\<close>

theorem batch_chunking_witness:
  "length (meterFleet 2500) = 2500
   \<and> thrown (ingestMeterBatch no_faults (meterFleet 2500) db0) = None
   \<and> transactions (ingestMeterBatch no_faults (meterFleet 2500) db0) = 3
   \<and> length (meter_telemetry_history (store (ingestMeterBatch no_faults (meterFleet 2500) db0))) = 2500
   \<and> thrown (ingestMeterBatch (connectionLostAt 1) (meterFleet 2500) db0) = Some ConnectionLost
   \<and> transactions (ingestMeterBatch (connectionLostAt 1) (meterFleet 2500) db0) = 2
   \<and> length (meter_telemetry_history (store (ingestMeterBatch (connectionLostAt 1) (meterFleet 2500) db0))) = 1000
   \<and> length (vehicleFleet 2500) = 2500
   \<and> thrown (ingestVehicleBatch no_faults (vehicleFleet 2500) db0) = None
   \<and> transactions (ingestVehicleBatch no_faults (vehicleFleet 2500) db0) = 3
   \<and> length (vehicle_telemetry_history (store (ingestVehicleBatch no_faults (vehicleFleet 2500) db0))) = 2500
   \<and> thrown (ingestVehicleBatch (connectionLostAt 1) (vehicleFleet 2500) db0) = Some ConnectionLost
   \<and> transactions (ingestVehicleBatch (connectionLostAt 1) (vehicleFleet 2500) db0) = 2
   \<and> length (vehicle_telemetry_history (store (ingestVehicleBatch (connectionLostAt 1) (vehicleFleet 2500) db0))) = 1000"
proof -
  have m_ok: "thrown (ingestMeterBatch no_faults (meterFleet 2500) db0) = None"
    by (rule ingestMeterBatch_succeeds)
       (simp_all add: no_faults_def meterFleet_distinct meterFleet_partition)
  have v_ok: "thrown (ingestVehicleBatch no_faults (vehicleFleet 2500) db0) = None"
    by (rule ingestVehicleBatch_succeeds)
       (simp_all add: no_faults_def vehicleFleet_distinct vehicleFleet_partition)
  have run_m: "ingestMeterBatch (connectionLostAt 1) (meterFleet 2500) db0 =
     \<lparr>thrown = Some ConnectionLost, store = withMeterReadings (take 1000 (meterFleet 2500)) db0,
      logged = [Debug_processed_batch 1, Error_failed ConnectionLost], transactions = 2\<rparr>"
    by (rule meterBatch_lost_at_1) simp_all
  have run_v: "ingestVehicleBatch (connectionLostAt 1) (vehicleFleet 2500) db0 =
     \<lparr>thrown = Some ConnectionLost, store = withVehicleReadings (take 1000 (vehicleFleet 2500)) db0,
      logged = [Debug_processed_batch 1, Error_failed ConnectionLost], transactions = 2\<rparr>"
    by (rule vehicleBatch_lost_at_1) simp_all
  have m_lost: "thrown (ingestMeterBatch (connectionLostAt 1) (meterFleet 2500) db0) = Some ConnectionLost"
    "transactions (ingestMeterBatch (connectionLostAt 1) (meterFleet 2500) db0) = 2"
    unfolding run_m by simp_all
  have v_lost: "thrown (ingestVehicleBatch (connectionLostAt 1) (vehicleFleet 2500) db0) = Some ConnectionLost"
    "transactions (ingestVehicleBatch (connectionLostAt 1) (vehicleFleet 2500) db0) = 2"
    unfolding run_v by simp_all
  have empty: "meter_telemetry_history db0 = []" "vehicle_telemetry_history db0 = []"
    by (simp_all add: db0_def)
  from batch_chunking[of no_faults "meterFleet 2500" db0 no_faults "vehicleFleet 2500"] m_ok v_ok
  have ok: "transactions (ingestMeterBatch no_faults (meterFleet 2500) db0) = 3"
    "store (ingestMeterBatch no_faults (meterFleet 2500) db0) = withMeterReadings (meterFleet 2500) db0"
    "transactions (ingestVehicleBatch no_faults (vehicleFleet 2500) db0) = 3"
    "store (ingestVehicleBatch no_faults (vehicleFleet 2500) db0) = withVehicleReadings (vehicleFleet 2500) db0"
    by auto
  from batch_chunking[of "connectionLostAt 1" "meterFleet 2500" db0 "connectionLostAt 1" "vehicleFleet 2500"]
    m_lost v_lost empty
  have lost: "length (meter_telemetry_history (store (ingestMeterBatch (connectionLostAt 1) (meterFleet 2500) db0))) = 1000"
    "length (vehicle_telemetry_history (store (ingestVehicleBatch (connectionLostAt 1) (vehicleFleet 2500) db0))) = 1000"
    by (simp_all add: batchSize_def withMeterReadings_def withVehicleReadings_def)
  from m_ok v_ok m_lost v_lost ok lost empty show ?thesis
    by (simp add: withMeterReadings_def withVehicleReadings_def)
qed


section \<open>Overwrite policy of the current status\<close>

text \<open>
  Claim C5 says that after reading A and then reading B of one device the current-status
  row holds B's field values. Whose values the row holds is as the claim says; the
  values themselves are kept with the decimals of their columns only. On the fresh
  database, the sample reading of \<^verbatim>\<open>METER_001\<close> followed by the one stamped a minute earlier,
  of \<open>0.0005\<close> kWh at \<open>240.555\<close> V: the current-status row carries the earlier timestamp
  and \<open>0.001\<close> kWh at \<open>240.56\<close> V; and so for \<^verbatim>\<open>VEHICLE_001\<close>.
\<close>

theorem last_applied_wins_counterexample:
  "timestamp meter_001_fine < timestamp meter_001
   \<and> meterId meter_001_fine = meterId meter_001
   \<and> thrown (ingestMeterTelemetry no_faults meter_001 db0) = None
   \<and> thrown (ingestMeterTelemetry no_faults meter_001_fine
               (store (ingestMeterTelemetry no_faults meter_001 db0))) = None
   \<and> kwhConsumedAc meter_001_fine = 0.0005 \<and> voltage meter_001_fine = 240.555
   \<and> map_option cm_kwhConsumedAc
        (current_meter_status
           (store (ingestMeterTelemetry no_faults meter_001_fine
                     (store (ingestMeterTelemetry no_faults meter_001 db0)))) ''METER_001'')
       = Some 0.001
   \<and> map_option cm_voltage
        (current_meter_status
           (store (ingestMeterTelemetry no_faults meter_001_fine
                     (store (ingestMeterTelemetry no_faults meter_001 db0)))) ''METER_001'')
       = Some 240.56
   \<and> map_option cm_lastUpdateTimestamp
        (current_meter_status
           (store (ingestMeterTelemetry no_faults meter_001_fine
                     (store (ingestMeterTelemetry no_faults meter_001 db0)))) ''METER_001'')
       = Some (timestamp meter_001_fine)
   \<and> timestamp_v vehicle_001_fine < timestamp_v vehicle_001
   \<and> vehicleId vehicle_001_fine = vehicleId vehicle_001
   \<and> thrown (ingestVehicleTelemetry no_faults vehicle_001 db0) = None
   \<and> thrown (ingestVehicleTelemetry no_faults vehicle_001_fine
               (store (ingestVehicleTelemetry no_faults vehicle_001 db0))) = None
   \<and> soc vehicle_001_fine = 85.555 \<and> kwhDeliveredDc vehicle_001_fine = 0.0005
   \<and> batteryTemp vehicle_001_fine = Some 35.205
   \<and> map_option cv_soc
        (current_vehicle_status
           (store (ingestVehicleTelemetry no_faults vehicle_001_fine
                     (store (ingestVehicleTelemetry no_faults vehicle_001 db0)))) ''VEHICLE_001'')
       = Some 85.56
   \<and> map_option cv_kwhDeliveredDc
        (current_vehicle_status
           (store (ingestVehicleTelemetry no_faults vehicle_001_fine
                     (store (ingestVehicleTelemetry no_faults vehicle_001 db0)))) ''VEHICLE_001'')
       = Some 0.001
   \<and> map_option cv_batteryTemp
        (current_vehicle_status
           (store (ingestVehicleTelemetry no_faults vehicle_001_fine
                     (store (ingestVehicleTelemetry no_faults vehicle_001 db0)))) ''VEHICLE_001'')
       = Some (Some 35.21)
   \<and> map_option cv_lastUpdateTimestamp
        (current_vehicle_status
           (store (ingestVehicleTelemetry no_faults vehicle_001_fine
                     (store (ingestVehicleTelemetry no_faults vehicle_001 db0)))) ''VEHICLE_001'')
       = Some (timestamp_v vehicle_001_fine)"
proof -
  have m1: "thrown (ingestMeterTelemetry no_faults meter_001 db0) = None"
    by (simp add: ingestMeterTelemetry_def write_defs sample_defs)
  then have s1: "store (ingestMeterTelemetry no_faults meter_001 db0) = withMeterReadings [meter_001] db0"
    by (simp add: ingestMeterTelemetry_store)
  have m2: "thrown (ingestMeterTelemetry no_faults meter_001_fine (withMeterReadings [meter_001] db0)) = None"
    by (simp add: ingestMeterTelemetry_def write_defs sample_defs withMeterReadings_def)
  then have s2: "store (ingestMeterTelemetry no_faults meter_001_fine (withMeterReadings [meter_001] db0))
      = withMeterReadings [meter_001_fine] (withMeterReadings [meter_001] db0)"
    by (simp add: ingestMeterTelemetry_store)
  have v1: "thrown (ingestVehicleTelemetry no_faults vehicle_001 db0) = None"
    by (simp add: ingestVehicleTelemetry_def write_defs sample_defs)
  then have t1: "store (ingestVehicleTelemetry no_faults vehicle_001 db0)
      = withVehicleReadings [vehicle_001] db0"
    by (simp add: ingestVehicleTelemetry_store)
  have v2: "thrown (ingestVehicleTelemetry no_faults vehicle_001_fine
      (withVehicleReadings [vehicle_001] db0)) = None"
    by (simp add: ingestVehicleTelemetry_def write_defs sample_defs withVehicleReadings_def)
  then have t2: "store (ingestVehicleTelemetry no_faults vehicle_001_fine
      (withVehicleReadings [vehicle_001] db0))
      = withVehicleReadings [vehicle_001_fine] (withVehicleReadings [vehicle_001] db0)"
    by (simp add: ingestVehicleTelemetry_store)
  have r3: "decimal_column 3 (5 / 10000) = 1 / 1000"
    by (simp add: decimal_column_def)
  have r2: "decimal_column 2 (240555 / 1000) = 24056 / 100"
    "decimal_column 2 (85555 / 1000) = 8556 / 100"
    "decimal_column 2 (35205 / 1000) = 3521 / 100"
    by (simp_all add: decimal_column_def)
  show ?thesis
    unfolding s1 s2 t1 t2 using m1 m2 v1 v2 r3 r2
    by (simp add: withMeterReadings_def withVehicleReadings_def
        upsert_CurrentMeterStatus_def upsert_CurrentVehicleStatus_def sample_defs)
qed


text \<open>
  Claim C5 as amended. The upsert never looks at the timestamps: when reading A and then
  reading B of the same device are both ingested, whatever their timestamps (so also when
  B is the older one), the current-status row of the device holds B's timestamp and B's
  values as their columns store them (rounded to three decimals for an energy, to two for
  a voltage, a state of charge and a temperature), and the history ends with one row of
  A followed by one row of B, each with the device id, the timestamp and the stored
  values of its reading. When the values of A and B have no more decimals than their
  columns, the stored values are the readings' own. For meters and for vehicles.
\<close>

theorem last_applied_wins:
  fixes s :: db
    and f1 f2 g1 g2 :: faults
    and a b :: MeterTelemetryDto
    and a' b' :: VehicleTelemetryDto
    and na ma nb mb na' ma' nb' mb' :: int
    and ka kb :: "int option"
  defines "m1 \<equiv> ingestMeterTelemetry f1 a s"
    and "m2 \<equiv> ingestMeterTelemetry f2 b (store (ingestMeterTelemetry f1 a s))"
    and "v1 \<equiv> ingestVehicleTelemetry g1 a' s"
    and "v2 \<equiv> ingestVehicleTelemetry g2 b' (store (ingestVehicleTelemetry g1 a' s))"
  shows "(thrown m1 = None \<and> thrown m2 = None \<and> meterId b = meterId a \<longrightarrow>
            (\<exists>c ha hb. current_meter_status (store m2) (meterId a) = Some c
               \<and> cm_kwhConsumedAc c = decimal_column 3 (kwhConsumedAc b)
               \<and> cm_voltage c = decimal_column 2 (voltage b)
               \<and> cm_lastUpdateTimestamp c = timestamp b
               \<and> meter_telemetry_history (store m2) = meter_telemetry_history s @ [ha, hb]
               \<and> mh_meterId ha = meterId a \<and> mh_timestamp ha = timestamp a
               \<and> mh_kwhConsumedAc ha = decimal_column 3 (kwhConsumedAc a)
               \<and> mh_voltage ha = decimal_column 2 (voltage a)
               \<and> mh_meterId hb = meterId b \<and> mh_timestamp hb = timestamp b
               \<and> mh_kwhConsumedAc hb = decimal_column 3 (kwhConsumedAc b)
               \<and> mh_voltage hb = decimal_column 2 (voltage b)
               \<and> (kwhConsumedAc a = real_of_int na / 1000 \<and> voltage a = real_of_int ma / 100
                    \<and> kwhConsumedAc b = real_of_int nb / 1000 \<and> voltage b = real_of_int mb / 100 \<longrightarrow>
                  cm_kwhConsumedAc c = kwhConsumedAc b \<and> cm_voltage c = voltage b
                  \<and> mh_kwhConsumedAc ha = kwhConsumedAc a \<and> mh_voltage ha = voltage a
                  \<and> mh_kwhConsumedAc hb = kwhConsumedAc b \<and> mh_voltage hb = voltage b)))
       \<and> (thrown v1 = None \<and> thrown v2 = None \<and> vehicleId b' = vehicleId a' \<longrightarrow>
            (\<exists>c ha hb. current_vehicle_status (store v2) (vehicleId a') = Some c
               \<and> cv_soc c = decimal_column 2 (soc b')
               \<and> cv_kwhDeliveredDc c = decimal_column 3 (kwhDeliveredDc b')
               \<and> cv_batteryTemp c = map_option (decimal_column 2) (batteryTemp b')
               \<and> cv_lastUpdateTimestamp c = timestamp_v b'
               \<and> vehicle_telemetry_history (store v2) = vehicle_telemetry_history s @ [ha, hb]
               \<and> vh_vehicleId ha = vehicleId a' \<and> vh_timestamp ha = timestamp_v a'
               \<and> vh_soc ha = decimal_column 2 (soc a')
               \<and> vh_kwhDeliveredDc ha = decimal_column 3 (kwhDeliveredDc a')
               \<and> vh_batteryTemp ha = map_option (decimal_column 2) (batteryTemp a')
               \<and> vh_vehicleId hb = vehicleId b' \<and> vh_timestamp hb = timestamp_v b'
               \<and> vh_soc hb = decimal_column 2 (soc b')
               \<and> vh_kwhDeliveredDc hb = decimal_column 3 (kwhDeliveredDc b')
               \<and> vh_batteryTemp hb = map_option (decimal_column 2) (batteryTemp b')
               \<and> (soc a' = real_of_int ma' / 100 \<and> kwhDeliveredDc a' = real_of_int na' / 1000
                    \<and> batteryTemp a' = map_option (\<lambda>j. real_of_int j / 100) ka
                    \<and> soc b' = real_of_int mb' / 100 \<and> kwhDeliveredDc b' = real_of_int nb' / 1000
                    \<and> batteryTemp b' = map_option (\<lambda>j. real_of_int j / 100) kb \<longrightarrow>
                  cv_soc c = soc b' \<and> cv_kwhDeliveredDc c = kwhDeliveredDc b'
                  \<and> cv_batteryTemp c = batteryTemp b'
                  \<and> vh_soc ha = soc a' \<and> vh_kwhDeliveredDc ha = kwhDeliveredDc a'
                  \<and> vh_batteryTemp ha = batteryTemp a'
                  \<and> vh_soc hb = soc b' \<and> vh_kwhDeliveredDc hb = kwhDeliveredDc b'
                  \<and> vh_batteryTemp hb = batteryTemp b')))"
proof -
  have meter: "thrown m1 = None \<and> thrown m2 = None \<and> meterId b = meterId a \<longrightarrow>
            (\<exists>c ha hb. current_meter_status (store m2) (meterId a) = Some c
               \<and> cm_kwhConsumedAc c = decimal_column 3 (kwhConsumedAc b)
               \<and> cm_voltage c = decimal_column 2 (voltage b)
               \<and> cm_lastUpdateTimestamp c = timestamp b
               \<and> meter_telemetry_history (store m2) = meter_telemetry_history s @ [ha, hb]
               \<and> mh_meterId ha = meterId a \<and> mh_timestamp ha = timestamp a
               \<and> mh_kwhConsumedAc ha = decimal_column 3 (kwhConsumedAc a)
               \<and> mh_voltage ha = decimal_column 2 (voltage a)
               \<and> mh_meterId hb = meterId b \<and> mh_timestamp hb = timestamp b
               \<and> mh_kwhConsumedAc hb = decimal_column 3 (kwhConsumedAc b)
               \<and> mh_voltage hb = decimal_column 2 (voltage b)
               \<and> (kwhConsumedAc a = real_of_int na / 1000 \<and> voltage a = real_of_int ma / 100
                    \<and> kwhConsumedAc b = real_of_int nb / 1000 \<and> voltage b = real_of_int mb / 100 \<longrightarrow>
                  cm_kwhConsumedAc c = kwhConsumedAc b \<and> cm_voltage c = voltage b
                  \<and> mh_kwhConsumedAc ha = kwhConsumedAc a \<and> mh_voltage ha = voltage a
                  \<and> mh_kwhConsumedAc hb = kwhConsumedAc b \<and> mh_voltage hb = voltage b))"
  proof
    assume h: "thrown m1 = None \<and> thrown m2 = None \<and> meterId b = meterId a"
    then have s1: "store (ingestMeterTelemetry f1 a s) = withMeterReadings [a] s"
      unfolding m1_def by (simp add: ingestMeterTelemetry_store)
    from h have "thrown (ingestMeterTelemetry f2 b (withMeterReadings [a] s)) = None"
      unfolding m2_def s1 by simp
    then have st: "store m2 = withMeterReadings [b] (withMeterReadings [a] s)"
      unfolding m2_def s1 by (simp add: ingestMeterTelemetry_store)
    obtain c where c:
      "upsert_CurrentMeterStatus b (upsert_CurrentMeterStatus a (current_meter_status s)) (meterId b)
         = Some c"
      "cm_kwhConsumedAc c = decimal_column 3 (kwhConsumedAc b)"
      "cm_voltage c = decimal_column 2 (voltage b)"
      "cm_lastUpdateTimestamp c = timestamp b"
      using upsert_meter_holds[of b "upsert_CurrentMeterStatus a (current_meter_status s)"] by blast
    have row: "current_meter_status (store m2) (meterId a) = Some c"
      "meter_telemetry_history (store m2)
         = meter_telemetry_history s @ [meterHistoryRow a, meterHistoryRow b]"
      unfolding st using c(1) h by (simp_all add: withMeterReadings_def)
    have f: "mh_meterId (meterHistoryRow r) = meterId r"
      "mh_timestamp (meterHistoryRow r) = timestamp r"
      "mh_kwhConsumedAc (meterHistoryRow r) = decimal_column 3 (kwhConsumedAc r)"
      "mh_voltage (meterHistoryRow r) = decimal_column 2 (voltage r)" for r
      by (simp_all add: meterHistoryRow_def)
    have grid: "kwhConsumedAc a = real_of_int na / 1000 \<and> voltage a = real_of_int ma / 100
                    \<and> kwhConsumedAc b = real_of_int nb / 1000 \<and> voltage b = real_of_int mb / 100 \<longrightarrow>
        decimal_column 3 (kwhConsumedAc b) = kwhConsumedAc b
        \<and> decimal_column 2 (voltage b) = voltage b
        \<and> decimal_column 3 (kwhConsumedAc a) = kwhConsumedAc a
        \<and> decimal_column 2 (voltage a) = voltage a"
      using decimal_column_3 decimal_column_2 by blast
    show "\<exists>c ha hb. current_meter_status (store m2) (meterId a) = Some c
               \<and> cm_kwhConsumedAc c = decimal_column 3 (kwhConsumedAc b)
               \<and> cm_voltage c = decimal_column 2 (voltage b)
               \<and> cm_lastUpdateTimestamp c = timestamp b
               \<and> meter_telemetry_history (store m2) = meter_telemetry_history s @ [ha, hb]
               \<and> mh_meterId ha = meterId a \<and> mh_timestamp ha = timestamp a
               \<and> mh_kwhConsumedAc ha = decimal_column 3 (kwhConsumedAc a)
               \<and> mh_voltage ha = decimal_column 2 (voltage a)
               \<and> mh_meterId hb = meterId b \<and> mh_timestamp hb = timestamp b
               \<and> mh_kwhConsumedAc hb = decimal_column 3 (kwhConsumedAc b)
               \<and> mh_voltage hb = decimal_column 2 (voltage b)
               \<and> (kwhConsumedAc a = real_of_int na / 1000 \<and> voltage a = real_of_int ma / 100
                    \<and> kwhConsumedAc b = real_of_int nb / 1000 \<and> voltage b = real_of_int mb / 100 \<longrightarrow>
                  cm_kwhConsumedAc c = kwhConsumedAc b \<and> cm_voltage c = voltage b
                  \<and> mh_kwhConsumedAc ha = kwhConsumedAc a \<and> mh_voltage ha = voltage a
                  \<and> mh_kwhConsumedAc hb = kwhConsumedAc b \<and> mh_voltage hb = voltage b)"
      apply (rule exI[of _ c], rule exI[of _ "meterHistoryRow a"], rule exI[of _ "meterHistoryRow b"])
      using row c(2-) grid unfolding f by simp
  qed
  have vehicle: "thrown v1 = None \<and> thrown v2 = None \<and> vehicleId b' = vehicleId a' \<longrightarrow>
            (\<exists>c ha hb. current_vehicle_status (store v2) (vehicleId a') = Some c
               \<and> cv_soc c = decimal_column 2 (soc b')
               \<and> cv_kwhDeliveredDc c = decimal_column 3 (kwhDeliveredDc b')
               \<and> cv_batteryTemp c = map_option (decimal_column 2) (batteryTemp b')
               \<and> cv_lastUpdateTimestamp c = timestamp_v b'
               \<and> vehicle_telemetry_history (store v2) = vehicle_telemetry_history s @ [ha, hb]
               \<and> vh_vehicleId ha = vehicleId a' \<and> vh_timestamp ha = timestamp_v a'
               \<and> vh_soc ha = decimal_column 2 (soc a')
               \<and> vh_kwhDeliveredDc ha = decimal_column 3 (kwhDeliveredDc a')
               \<and> vh_batteryTemp ha = map_option (decimal_column 2) (batteryTemp a')
               \<and> vh_vehicleId hb = vehicleId b' \<and> vh_timestamp hb = timestamp_v b'
               \<and> vh_soc hb = decimal_column 2 (soc b')
               \<and> vh_kwhDeliveredDc hb = decimal_column 3 (kwhDeliveredDc b')
               \<and> vh_batteryTemp hb = map_option (decimal_column 2) (batteryTemp b')
               \<and> (soc a' = real_of_int ma' / 100 \<and> kwhDeliveredDc a' = real_of_int na' / 1000
                    \<and> batteryTemp a' = map_option (\<lambda>j. real_of_int j / 100) ka
                    \<and> soc b' = real_of_int mb' / 100 \<and> kwhDeliveredDc b' = real_of_int nb' / 1000
                    \<and> batteryTemp b' = map_option (\<lambda>j. real_of_int j / 100) kb \<longrightarrow>
                  cv_soc c = soc b' \<and> cv_kwhDeliveredDc c = kwhDeliveredDc b'
                  \<and> cv_batteryTemp c = batteryTemp b'
                  \<and> vh_soc ha = soc a' \<and> vh_kwhDeliveredDc ha = kwhDeliveredDc a'
                  \<and> vh_batteryTemp ha = batteryTemp a'
                  \<and> vh_soc hb = soc b' \<and> vh_kwhDeliveredDc hb = kwhDeliveredDc b'
                  \<and> vh_batteryTemp hb = batteryTemp b'))"
  proof
    assume h: "thrown v1 = None \<and> thrown v2 = None \<and> vehicleId b' = vehicleId a'"
    then have s1: "store (ingestVehicleTelemetry g1 a' s) = withVehicleReadings [a'] s"
      unfolding v1_def by (simp add: ingestVehicleTelemetry_store)
    from h have "thrown (ingestVehicleTelemetry g2 b' (withVehicleReadings [a'] s)) = None"
      unfolding v2_def s1 by simp
    then have st: "store v2 = withVehicleReadings [b'] (withVehicleReadings [a'] s)"
      unfolding v2_def s1 by (simp add: ingestVehicleTelemetry_store)
    obtain c where c:
      "upsert_CurrentVehicleStatus b' (upsert_CurrentVehicleStatus a' (current_vehicle_status s))
         (vehicleId b') = Some c"
      "cv_soc c = decimal_column 2 (soc b')"
      "cv_kwhDeliveredDc c = decimal_column 3 (kwhDeliveredDc b')"
      "cv_batteryTemp c = map_option (decimal_column 2) (batteryTemp b')"
      "cv_lastUpdateTimestamp c = timestamp_v b'"
      using upsert_vehicle_holds[of b' "upsert_CurrentVehicleStatus a' (current_vehicle_status s)"]
      by blast
    have row: "current_vehicle_status (store v2) (vehicleId a') = Some c"
      "vehicle_telemetry_history (store v2)
         = vehicle_telemetry_history s @ [vehicleHistoryRow a', vehicleHistoryRow b']"
      unfolding st using c(1) h by (simp_all add: withVehicleReadings_def)
    have f: "vh_vehicleId (vehicleHistoryRow r) = vehicleId r"
      "vh_timestamp (vehicleHistoryRow r) = timestamp_v r"
      "vh_soc (vehicleHistoryRow r) = decimal_column 2 (soc r)"
      "vh_kwhDeliveredDc (vehicleHistoryRow r) = decimal_column 3 (kwhDeliveredDc r)"
      "vh_batteryTemp (vehicleHistoryRow r) = map_option (decimal_column 2) (batteryTemp r)" for r
      by (simp_all add: vehicleHistoryRow_def)
    have grid: "soc a' = real_of_int ma' / 100 \<and> kwhDeliveredDc a' = real_of_int na' / 1000
                    \<and> batteryTemp a' = map_option (\<lambda>j. real_of_int j / 100) ka
                    \<and> soc b' = real_of_int mb' / 100 \<and> kwhDeliveredDc b' = real_of_int nb' / 1000
                    \<and> batteryTemp b' = map_option (\<lambda>j. real_of_int j / 100) kb \<longrightarrow>
        decimal_column 2 (soc b') = soc b'
        \<and> decimal_column 3 (kwhDeliveredDc b') = kwhDeliveredDc b'
        \<and> map_option (decimal_column 2) (batteryTemp b') = batteryTemp b'
        \<and> decimal_column 2 (soc a') = soc a'
        \<and> decimal_column 3 (kwhDeliveredDc a') = kwhDeliveredDc a'
        \<and> map_option (decimal_column 2) (batteryTemp a') = batteryTemp a'"
      using decimal_column_3 decimal_column_2 decimal_column_option by metis
    show "\<exists>c ha hb. current_vehicle_status (store v2) (vehicleId a') = Some c
               \<and> cv_soc c = decimal_column 2 (soc b')
               \<and> cv_kwhDeliveredDc c = decimal_column 3 (kwhDeliveredDc b')
               \<and> cv_batteryTemp c = map_option (decimal_column 2) (batteryTemp b')
               \<and> cv_lastUpdateTimestamp c = timestamp_v b'
               \<and> vehicle_telemetry_history (store v2) = vehicle_telemetry_history s @ [ha, hb]
               \<and> vh_vehicleId ha = vehicleId a' \<and> vh_timestamp ha = timestamp_v a'
               \<and> vh_soc ha = decimal_column 2 (soc a')
               \<and> vh_kwhDeliveredDc ha = decimal_column 3 (kwhDeliveredDc a')
               \<and> vh_batteryTemp ha = map_option (decimal_column 2) (batteryTemp a')
               \<and> vh_vehicleId hb = vehicleId b' \<and> vh_timestamp hb = timestamp_v b'
               \<and> vh_soc hb = decimal_column 2 (soc b')
               \<and> vh_kwhDeliveredDc hb = decimal_column 3 (kwhDeliveredDc b')
               \<and> vh_batteryTemp hb = map_option (decimal_column 2) (batteryTemp b')
               \<and> (soc a' = real_of_int ma' / 100 \<and> kwhDeliveredDc a' = real_of_int na' / 1000
                    \<and> batteryTemp a' = map_option (\<lambda>j. real_of_int j / 100) ka
                    \<and> soc b' = real_of_int mb' / 100 \<and> kwhDeliveredDc b' = real_of_int nb' / 1000
                    \<and> batteryTemp b' = map_option (\<lambda>j. real_of_int j / 100) kb \<longrightarrow>
                  cv_soc c = soc b' \<and> cv_kwhDeliveredDc c = kwhDeliveredDc b'
                  \<and> cv_batteryTemp c = batteryTemp b'
                  \<and> vh_soc ha = soc a' \<and> vh_kwhDeliveredDc ha = kwhDeliveredDc a'
                  \<and> vh_batteryTemp ha = batteryTemp a'
                  \<and> vh_soc hb = soc b' \<and> vh_kwhDeliveredDc hb = kwhDeliveredDc b'
                  \<and> vh_batteryTemp hb = batteryTemp b')"
      apply (rule exI[of _ c], rule exI[of _ "vehicleHistoryRow a'"],
          rule exI[of _ "vehicleHistoryRow b'"])
      using row c(2-) grid unfolding f by simp
  qed
  from meter vehicle show ?thesis by blast
qed


text \<open>On the fresh database, the later sample reading first and the earlier one second
  (their values have no more decimals than the columns): the current status is back at
  the earlier reading and the history has the rows of both, the later reading's first.\<close>

theorem last_applied_wins_witness:
  "timestamp meter_001 < timestamp meter_001_later
   \<and> thrown (ingestMeterTelemetry no_faults meter_001_later db0) = None
   \<and> thrown (ingestMeterTelemetry no_faults meter_001
               (store (ingestMeterTelemetry no_faults meter_001_later db0))) = None
   \<and> (\<exists>c ha hb. current_meter_status
             (store (ingestMeterTelemetry no_faults meter_001
                       (store (ingestMeterTelemetry no_faults meter_001_later db0)))) ''METER_001''
           = Some c
         \<and> cm_kwhConsumedAc c = 125.456 \<and> cm_voltage c = 240.5
         \<and> cm_lastUpdateTimestamp c = 1770633000000
         \<and> meter_telemetry_history
             (store (ingestMeterTelemetry no_faults meter_001
                       (store (ingestMeterTelemetry no_faults meter_001_later db0)))) = [ha, hb]
         \<and> mh_meterId ha = ''METER_001'' \<and> mh_timestamp ha = 1770633060000
         \<and> mh_kwhConsumedAc ha = 130 \<and> mh_voltage ha = 239
         \<and> mh_meterId hb = ''METER_001'' \<and> mh_timestamp hb = 1770633000000
         \<and> mh_kwhConsumedAc hb = 125.456 \<and> mh_voltage hb = 240.5)
   \<and> timestamp_v vehicle_001 < timestamp_v vehicle_001_later
   \<and> thrown (ingestVehicleTelemetry no_faults vehicle_001_later db0) = None
   \<and> thrown (ingestVehicleTelemetry no_faults vehicle_001
               (store (ingestVehicleTelemetry no_faults vehicle_001_later db0))) = None
   \<and> (\<exists>c ha hb. current_vehicle_status
             (store (ingestVehicleTelemetry no_faults vehicle_001
                       (store (ingestVehicleTelemetry no_faults vehicle_001_later db0)))) ''VEHICLE_001''
           = Some c
         \<and> cv_soc c = 85.5 \<and> cv_kwhDeliveredDc c = 106.638 \<and> cv_batteryTemp c = Some 35.2
         \<and> cv_lastUpdateTimestamp c = 1770633000000
         \<and> vehicle_telemetry_history
             (store (ingestVehicleTelemetry no_faults vehicle_001
                       (store (ingestVehicleTelemetry no_faults vehicle_001_later db0)))) = [ha, hb]
         \<and> vh_vehicleId ha = ''VEHICLE_001'' \<and> vh_timestamp ha = 1770633060000
         \<and> vh_soc ha = 86 \<and> vh_kwhDeliveredDc ha = 107 \<and> vh_batteryTemp ha = None
         \<and> vh_vehicleId hb = ''VEHICLE_001'' \<and> vh_timestamp hb = 1770633000000
         \<and> vh_soc hb = 85.5 \<and> vh_kwhDeliveredDc hb = 106.638 \<and> vh_batteryTemp hb = Some 35.2)"
proof -
  have order: "timestamp meter_001 < timestamp meter_001_later"
    "timestamp_v vehicle_001 < timestamp_v vehicle_001_later"
    by (simp_all add: sample_defs)
  have ids: "meterId meter_001 = meterId meter_001_later"
    "vehicleId vehicle_001 = vehicleId vehicle_001_later"
    by (simp_all add: sample_defs)
  have grid: "kwhConsumedAc meter_001_later = real_of_int 130000 / 1000"
    "voltage meter_001_later = real_of_int 23900 / 100"
    "kwhConsumedAc meter_001 = real_of_int 125456 / 1000"
    "voltage meter_001 = real_of_int 24050 / 100"
    "soc vehicle_001_later = real_of_int 8600 / 100"
    "kwhDeliveredDc vehicle_001_later = real_of_int 107000 / 1000"
    "batteryTemp vehicle_001_later = map_option (\<lambda>j. real_of_int j / 100) None"
    "soc vehicle_001 = real_of_int 8550 / 100"
    "kwhDeliveredDc vehicle_001 = real_of_int 106638 / 1000"
    "batteryTemp vehicle_001 = map_option (\<lambda>j. real_of_int j / 100) (Some 3520)"
    by (simp_all add: sample_defs)
  have fields: "meterId meter_001_later = ''METER_001''" "meterId meter_001 = ''METER_001''"
    "timestamp meter_001_later = 1770633060000" "timestamp meter_001 = 1770633000000"
    "kwhConsumedAc meter_001_later = 130" "voltage meter_001_later = 239"
    "kwhConsumedAc meter_001 = 125.456" "voltage meter_001 = 240.5"
    "vehicleId vehicle_001_later = ''VEHICLE_001''" "vehicleId vehicle_001 = ''VEHICLE_001''"
    "timestamp_v vehicle_001_later = 1770633060000" "timestamp_v vehicle_001 = 1770633000000"
    "soc vehicle_001_later = 86" "kwhDeliveredDc vehicle_001_later = 107"
    "batteryTemp vehicle_001_later = None"
    "soc vehicle_001 = 85.5" "kwhDeliveredDc vehicle_001 = 106.638"
    "batteryTemp vehicle_001 = Some 35.2"
    "meter_telemetry_history db0 = []" "vehicle_telemetry_history db0 = []"
    by (simp_all add: sample_defs)
  note inst = last_applied_wins[where ?f1.0 = no_faults and a = meter_001_later and s = db0
        and ?f2.0 = no_faults and b = meter_001 and ?g1.0 = no_faults and a' = vehicle_001_later
        and ?g2.0 = no_faults and b' = vehicle_001
        and na = 130000 and ma = 23900 and nb = 125456 and mb = 24050
        and ma' = 8600 and na' = 107000 and ka = None
        and mb' = 8550 and nb' = 106638 and kb = "Some 3520"]
  from inst sample_out_of_order_ok(1,2) ids(1) grid(1-4)
  have meter: "\<exists>c ha hb. current_meter_status
             (store (ingestMeterTelemetry no_faults meter_001
                       (store (ingestMeterTelemetry no_faults meter_001_later db0))))
             (meterId meter_001_later) = Some c
         \<and> cm_kwhConsumedAc c = kwhConsumedAc meter_001 \<and> cm_voltage c = voltage meter_001
         \<and> cm_lastUpdateTimestamp c = timestamp meter_001
         \<and> meter_telemetry_history
             (store (ingestMeterTelemetry no_faults meter_001
                       (store (ingestMeterTelemetry no_faults meter_001_later db0))))
             = meter_telemetry_history db0 @ [ha, hb]
         \<and> mh_meterId ha = meterId meter_001_later \<and> mh_timestamp ha = timestamp meter_001_later
         \<and> mh_kwhConsumedAc ha = kwhConsumedAc meter_001_later
         \<and> mh_voltage ha = voltage meter_001_later
         \<and> mh_meterId hb = meterId meter_001 \<and> mh_timestamp hb = timestamp meter_001
         \<and> mh_kwhConsumedAc hb = kwhConsumedAc meter_001 \<and> mh_voltage hb = voltage meter_001"
    by metis
  from inst sample_out_of_order_ok(3,4) ids(2) grid(5-10)
  have vehicle: "\<exists>c ha hb. current_vehicle_status
             (store (ingestVehicleTelemetry no_faults vehicle_001
                       (store (ingestVehicleTelemetry no_faults vehicle_001_later db0))))
             (vehicleId vehicle_001_later) = Some c
         \<and> cv_soc c = soc vehicle_001 \<and> cv_kwhDeliveredDc c = kwhDeliveredDc vehicle_001
         \<and> cv_batteryTemp c = batteryTemp vehicle_001
         \<and> cv_lastUpdateTimestamp c = timestamp_v vehicle_001
         \<and> vehicle_telemetry_history
             (store (ingestVehicleTelemetry no_faults vehicle_001
                       (store (ingestVehicleTelemetry no_faults vehicle_001_later db0))))
             = vehicle_telemetry_history db0 @ [ha, hb]
         \<and> vh_vehicleId ha = vehicleId vehicle_001_later \<and> vh_timestamp ha = timestamp_v vehicle_001_later
         \<and> vh_soc ha = soc vehicle_001_later \<and> vh_kwhDeliveredDc ha = kwhDeliveredDc vehicle_001_later
         \<and> vh_batteryTemp ha = batteryTemp vehicle_001_later
         \<and> vh_vehicleId hb = vehicleId vehicle_001 \<and> vh_timestamp hb = timestamp_v vehicle_001
         \<and> vh_soc hb = soc vehicle_001 \<and> vh_kwhDeliveredDc hb = kwhDeliveredDc vehicle_001
         \<and> vh_batteryTemp hb = batteryTemp vehicle_001"
    by metis
  from meter vehicle show ?thesis
    unfolding fields using order sample_out_of_order_ok by simp
qed


section \<open>History rows are never lost\<close>

text \<open>
  Claim C6. For every device \<open>dev\<close>, none of the four ingestion calls, failed or not,
  lowers the number of history rows of \<open>dev\<close> in either history table. A single-reading
  call that resolves adds exactly one row to the history of its class (and to the rows of
  its device); a batch call that resolves adds exactly as many rows as it was given
  readings.
\<close>

theorem history_rows_only_grow:
  fixes dev :: string
    and s :: db
    and fm fv fmb fvb :: faults
    and dm :: MeterTelemetryDto
    and dv :: VehicleTelemetryDto
    and rs :: "MeterTelemetryDto list"
    and vs :: "VehicleTelemetryDto list"
  defines "m1 \<equiv> ingestMeterTelemetry fm dm s"
    and "v1 \<equiv> ingestVehicleTelemetry fv dv s"
    and "mb \<equiv> ingestMeterBatch fmb rs s"
    and "vb \<equiv> ingestVehicleBatch fvb vs s"
  shows "meterRowCount dev s \<le> meterRowCount dev (store m1)
       \<and> vehicleRowCount dev s \<le> vehicleRowCount dev (store m1)
       \<and> meterRowCount dev s \<le> meterRowCount dev (store v1)
       \<and> vehicleRowCount dev s \<le> vehicleRowCount dev (store v1)
       \<and> meterRowCount dev s \<le> meterRowCount dev (store mb)
       \<and> vehicleRowCount dev s \<le> vehicleRowCount dev (store mb)
       \<and> meterRowCount dev s \<le> meterRowCount dev (store vb)
       \<and> vehicleRowCount dev s \<le> vehicleRowCount dev (store vb)
       \<and> (thrown m1 = None \<longrightarrow>
            length (meter_telemetry_history (store m1)) = length (meter_telemetry_history s) + 1
          \<and> meterRowCount (meterId dm) (store m1) = meterRowCount (meterId dm) s + 1)
       \<and> (thrown v1 = None \<longrightarrow>
            length (vehicle_telemetry_history (store v1)) = length (vehicle_telemetry_history s) + 1
          \<and> vehicleRowCount (vehicleId dv) (store v1) = vehicleRowCount (vehicleId dv) s + 1)
       \<and> (thrown mb = None \<longrightarrow>
            length (meter_telemetry_history (store mb)) = length (meter_telemetry_history s) + length rs)
       \<and> (thrown vb = None \<longrightarrow>
            length (vehicle_telemetry_history (store vb)) = length (vehicle_telemetry_history s) + length vs)"
proof -
  have grow_m1: "meterRowCount dev s \<le> meterRowCount dev (store m1)"
    "vehicleRowCount dev s \<le> vehicleRowCount dev (store m1)"
    using ingestMeterTelemetry_after[of fm dm s] unfolding m1_def
    by (auto simp: meterRowCount_withMeter)
  have grow_v1: "meterRowCount dev s \<le> meterRowCount dev (store v1)"
    "vehicleRowCount dev s \<le> vehicleRowCount dev (store v1)"
    using ingestVehicleTelemetry_after[of fv dv s] unfolding v1_def
    by (auto simp: vehicleRowCount_withVehicle)
  have grow_mb: "meterRowCount dev s \<le> meterRowCount dev (store mb)"
    "vehicleRowCount dev s \<le> vehicleRowCount dev (store mb)"
    using ingestMeterBatch_after[of fmb rs s] unfolding mb_def
    by (auto simp: meterRowCount_withMeter)
  have grow_vb: "meterRowCount dev s \<le> meterRowCount dev (store vb)"
    "vehicleRowCount dev s \<le> vehicleRowCount dev (store vb)"
    using ingestVehicleBatch_after[of fvb vs s] unfolding vb_def
    by (auto simp: vehicleRowCount_withVehicle)
  have one_m: "thrown m1 = None \<longrightarrow>
            length (meter_telemetry_history (store m1)) = length (meter_telemetry_history s) + 1
          \<and> meterRowCount (meterId dm) (store m1) = meterRowCount (meterId dm) s + 1"
    unfolding m1_def
    by (simp add: ingestMeterTelemetry_store meterRowCount_withMeter) (simp add: withMeterReadings_def)
  have one_v: "thrown v1 = None \<longrightarrow>
            length (vehicle_telemetry_history (store v1)) = length (vehicle_telemetry_history s) + 1
          \<and> vehicleRowCount (vehicleId dv) (store v1) = vehicleRowCount (vehicleId dv) s + 1"
    unfolding v1_def
    by (simp add: ingestVehicleTelemetry_store vehicleRowCount_withVehicle) (simp add: withVehicleReadings_def)
  have n_m: "thrown mb = None \<longrightarrow>
            length (meter_telemetry_history (store mb)) = length (meter_telemetry_history s) + length rs"
    unfolding mb_def by (auto simp: ingestMeterBatch_ok withMeterReadings_def)
  have n_v: "thrown vb = None \<longrightarrow>
            length (vehicle_telemetry_history (store vb)) = length (vehicle_telemetry_history s) + length vs"
    unfolding vb_def by (auto simp: ingestVehicleBatch_ok withVehicleReadings_def)
  from grow_m1 grow_v1 grow_mb grow_vb one_m one_v n_m n_v show ?thesis by blast
qed


theorem history_rows_only_grow_witness:
  "thrown (ingestMeterTelemetry no_faults meter_001 db0) = None
   \<and> length (meter_telemetry_history (store (ingestMeterTelemetry no_faults meter_001 db0))) = 1
   \<and> meterRowCount ''METER_001'' (store (ingestMeterTelemetry no_faults meter_001 db0)) = 1
   \<and> thrown (ingestVehicleTelemetry no_faults vehicle_001 db0) = None
   \<and> length (vehicle_telemetry_history (store (ingestVehicleTelemetry no_faults vehicle_001 db0))) = 1
   \<and> vehicleRowCount ''VEHICLE_001'' (store (ingestVehicleTelemetry no_faults vehicle_001 db0)) = 1
   \<and> thrown (ingestMeterBatch no_faults (meterFleet 2500) db0) = None
   \<and> length (meter_telemetry_history (store (ingestMeterBatch no_faults (meterFleet 2500) db0))) = 2500
   \<and> thrown (ingestVehicleBatch no_faults (vehicleFleet 2500) db0) = None
   \<and> length (vehicle_telemetry_history (store (ingestVehicleBatch no_faults (vehicleFleet 2500) db0))) = 2500"
proof -
  have zero: "meter_telemetry_history db0 = []" "vehicle_telemetry_history db0 = []"
    "meterRowCount ''METER_001'' db0 = 0" "vehicleRowCount ''VEHICLE_001'' db0 = 0"
    "meterId meter_001 = ''METER_001''" "vehicleId vehicle_001 = ''VEHICLE_001''"
    by (simp_all add: sample_defs meterRowCount_def vehicleRowCount_def)
  show ?thesis
    using history_rows_only_grow[where dev = "''METER_001''" and fm = no_faults and dm = meter_001
        and s = db0 and fv = no_faults and dv = vehicle_001 and fmb = no_faults
        and rs = "meterFleet 2500" and fvb = no_faults and vs = "vehicleFleet 2500"]
      sample_single_ok sample_fleet_ok zero
    by simp
qed


section \<open>Two readings of one device in one chunk\<close>

text \<open>
  Claim C7 says that a chunk holding two readings of the same device goes through, the
  later reading winning. It does not: the chunk's bulk upsert proposes two rows with the
  same key in one \<^verbatim>\<open>INSERT ... ON CONFLICT DO UPDATE\<close>, which the engine rejects, so the
  chunk's transaction is rolled back and the batch call throws. On the fresh database
  the batch of the two sample readings of \<^verbatim>\<open>METER_001\<close> throws and stores nothing (and so
  for \<^verbatim>\<open>VEHICLE_001\<close>), while the same two readings ingested one by one are both accepted.
\<close>

theorem duplicate_device_in_chunk:
  "thrown (ingestMeterBatch no_faults [meter_001, meter_001_later] db0) = Some CardinalityViolation
   \<and> store (ingestMeterBatch no_faults [meter_001, meter_001_later] db0) = db0
   \<and> thrown (ingestVehicleBatch no_faults [vehicle_001, vehicle_001_later] db0) = Some CardinalityViolation
   \<and> store (ingestVehicleBatch no_faults [vehicle_001, vehicle_001_later] db0) = db0
   \<and> thrown (ingestMeterTelemetry no_faults meter_001_later
               (store (ingestMeterTelemetry no_faults meter_001 db0))) = None
   \<and> thrown (ingestVehicleTelemetry no_faults vehicle_001_later
               (store (ingestVehicleTelemetry no_faults vehicle_001 db0))) = None"
proof -
  have m: "chunk_loop (\<lambda>k. meterDualWrite (no_faults k)) [meter_001, meter_001_later] 0 db0
             = (Some CardinalityViolation, db0, [], 1)"
    by (rule chunk_loop_fail, simp, rule transaction_rollback)
       (simp add: slice_def batchSize_def write_defs sample_defs)
  have v: "chunk_loop (\<lambda>k. vehicleDualWrite (no_faults k)) [vehicle_001, vehicle_001_later] 0 db0
             = (Some CardinalityViolation, db0, [], 1)"
    by (rule chunk_loop_fail, simp, rule transaction_rollback)
       (simp add: slice_def batchSize_def write_defs sample_defs)
  have one_by_one: "thrown (ingestMeterTelemetry no_faults meter_001_later
               (store (ingestMeterTelemetry no_faults meter_001 db0))) = None"
    "thrown (ingestVehicleTelemetry no_faults vehicle_001_later
               (store (ingestVehicleTelemetry no_faults vehicle_001 db0))) = None"
    by (simp_all add: ingestMeterTelemetry_def ingestVehicleTelemetry_def write_defs sample_defs)
  show ?thesis
    by (simp add: ingestMeterBatch_def ingestVehicleBatch_def m v one_by_one)
qed


section \<open>What the caller learns from a failed batch\<close>

text \<open>
  Claim C8 says the caller is told how many chunks were committed and which one failed.
  The batch functions return nothing and rethrow the storage error as it is: with the
  connection lost in the first transaction or in the second, the caller of a 2500-reading
  batch receives the same error, although nothing is committed in one run and 1000
  readings are in the other.
\<close>

theorem batch_failure_report_counterexample:
  "thrown (ingestMeterBatch (connectionLostAt 0) (meterFleet 2500) db0) = Some ConnectionLost
   \<and> thrown (ingestMeterBatch (connectionLostAt 1) (meterFleet 2500) db0) = Some ConnectionLost
   \<and> store (ingestMeterBatch (connectionLostAt 0) (meterFleet 2500) db0) = db0
   \<and> transactions (ingestMeterBatch (connectionLostAt 0) (meterFleet 2500) db0) = 1
   \<and> length (meter_telemetry_history (store (ingestMeterBatch (connectionLostAt 0) (meterFleet 2500) db0))) = 0
   \<and> transactions (ingestMeterBatch (connectionLostAt 1) (meterFleet 2500) db0) = 2
   \<and> length (meter_telemetry_history (store (ingestMeterBatch (connectionLostAt 1) (meterFleet 2500) db0))) = 1000"
proof -
  have a: "ingestMeterBatch (connectionLostAt 0) (meterFleet 2500) db0 =
     \<lparr>thrown = Some ConnectionLost, store = db0, logged = [Error_failed ConnectionLost],
      transactions = 1\<rparr>"
    by (rule meterBatch_lost_at_0) simp
  have b: "ingestMeterBatch (connectionLostAt 1) (meterFleet 2500) db0 =
     \<lparr>thrown = Some ConnectionLost, store = withMeterReadings (take 1000 (meterFleet 2500)) db0,
      logged = [Debug_processed_batch 1, Error_failed ConnectionLost], transactions = 2\<rparr>"
    by (rule meterBatch_lost_at_1) simp_all
  show ?thesis
    unfolding a b by (simp add: withMeterReadings_def db0_def)
qed


text \<open>
  Claim C8 as amended. When a batch call throws, the error is the one of the first failing
  transaction, say of chunk \<open>k + 1\<close>; the \<open>k\<close> chunks before it are committed; the progress
  is in the log only, one \<^verbatim>\<open>Processed batch j\<close> line for each committed chunk followed by
  the error line; and the failed transaction was the last one run. No call runs more
  transactions than there are chunks: nothing is retried.
\<close>

theorem batch_failure_report:
  "(thrown (ingestMeterBatch fault rs s) = Some e \<longrightarrow>
     (\<exists>k. k < chunkCount (length rs)
       \<and> store (ingestMeterBatch fault rs s) = withMeterReadings (take (k * batchSize) rs) s
       \<and> fst (meterDualWrite (fault k) (slice rs (k * batchSize) (k * batchSize + batchSize))
                (withMeterReadings (take (k * batchSize) rs) s)) = Some e
       \<and> logged (ingestMeterBatch fault rs s)
            = map (\<lambda>j. Debug_processed_batch (j + 1)) [0..<k] @ [Error_failed e]
       \<and> transactions (ingestMeterBatch fault rs s) = k + 1))
   \<and> transactions (ingestMeterBatch fault rs s) \<le> chunkCount (length rs)
   \<and> (thrown (ingestVehicleBatch fault2 vs s) = Some e2 \<longrightarrow>
     (\<exists>k. k < chunkCount (length vs)
       \<and> store (ingestVehicleBatch fault2 vs s) = withVehicleReadings (take (k * batchSize) vs) s
       \<and> fst (vehicleDualWrite (fault2 k) (slice vs (k * batchSize) (k * batchSize + batchSize))
                (withVehicleReadings (take (k * batchSize) vs) s)) = Some e2
       \<and> logged (ingestVehicleBatch fault2 vs s)
            = map (\<lambda>j. Debug_processed_batch (j + 1)) [0..<k] @ [Error_failed e2]
       \<and> transactions (ingestVehicleBatch fault2 vs s) = k + 1))
   \<and> transactions (ingestVehicleBatch fault2 vs s) \<le> chunkCount (length vs)"
  using meterBatch_failure[of fault rs s e] meterBatch_no_retry[of fault rs s]
    vehicleBatch_failure[of fault2 vs s e2] vehicleBatch_no_retry[of fault2 vs s]
  by blast


theorem batch_failure_report_witness:
  "thrown (ingestMeterBatch (connectionLostAt 1) (meterFleet 2500) db0) = Some ConnectionLost
   \<and> logged (ingestMeterBatch (connectionLostAt 1) (meterFleet 2500) db0)
       = [Debug_processed_batch 1, Error_failed ConnectionLost]
   \<and> transactions (ingestMeterBatch (connectionLostAt 1) (meterFleet 2500) db0) = 2
   \<and> chunkCount (length (meterFleet 2500)) = 3
   \<and> thrown (ingestVehicleBatch (connectionLostAt 1) (vehicleFleet 2500) db0) = Some ConnectionLost
   \<and> logged (ingestVehicleBatch (connectionLostAt 1) (vehicleFleet 2500) db0)
       = [Debug_processed_batch 1, Error_failed ConnectionLost]
   \<and> transactions (ingestVehicleBatch (connectionLostAt 1) (vehicleFleet 2500) db0) = 2"
proof -
  have m: "ingestMeterBatch (connectionLostAt 1) (meterFleet 2500) db0 =
     \<lparr>thrown = Some ConnectionLost, store = withMeterReadings (take 1000 (meterFleet 2500)) db0,
      logged = [Debug_processed_batch 1, Error_failed ConnectionLost], transactions = 2\<rparr>"
    by (rule meterBatch_lost_at_1) simp_all
  have v: "ingestVehicleBatch (connectionLostAt 1) (vehicleFleet 2500) db0 =
     \<lparr>thrown = Some ConnectionLost, store = withVehicleReadings (take 1000 (vehicleFleet 2500)) db0,
      logged = [Debug_processed_batch 1, Error_failed ConnectionLost], transactions = 2\<rparr>"
    by (rule vehicleBatch_lost_at_1) simp_all
  have thr: "thrown (ingestMeterBatch (connectionLostAt 1) (meterFleet 2500) db0) = Some ConnectionLost"
    "thrown (ingestVehicleBatch (connectionLostAt 1) (vehicleFleet 2500) db0) = Some ConnectionLost"
    unfolding m v by simp_all
  have tr: "transactions (ingestMeterBatch (connectionLostAt 1) (meterFleet 2500) db0) = 2"
    "transactions (ingestVehicleBatch (connectionLostAt 1) (vehicleFleet 2500) db0) = 2"
    unfolding m v by simp_all
  from batch_failure_report[of "connectionLostAt 1" "meterFleet 2500" db0 ConnectionLost
      "connectionLostAt 1" "vehicleFleet 2500" ConnectionLost] thr tr
  have "logged (ingestMeterBatch (connectionLostAt 1) (meterFleet 2500) db0)
       = [Debug_processed_batch 1, Error_failed ConnectionLost]"
    "logged (ingestVehicleBatch (connectionLostAt 1) (vehicleFleet 2500) db0)
       = [Debug_processed_batch 1, Error_failed ConnectionLost]"
    by auto
  with thr tr chunkCount_2500 show ?thesis by simp
qed


section \<open>Efficiency ratio and health tier\<close>

text \<open>
  Claim C3 says that the tier is healthy whenever the ratio of the delivered energy to the
  source energy is at least \<open>0.85\<close>, and at least degraded whenever it is at least \<open>0.75\<close>.
  The service divides and compares binary64 numbers. After a meter reading of \<open>0.14\<close> kWh
  and a vehicle reading of \<open>0.119\<close> kWh the ratio of the two totals is \<open>0.85\<close> and the
  report says degraded (the quotient of the two binary64 numbers is
  \<open>0.8499999999999999\<close>); after \<open>0.1\<close> kWh and \<open>0.075\<close> kWh the ratio is \<open>0.75\<close> and the
  report says critical.
\<close>

theorem efficiency_classification_counterexample:
  "fleetEnergy (db_with_energy 0.14 0.119) query_time = 0.14
   \<and> vehicleEnergy (db_with_energy 0.14 0.119) ''VEHICLE_001'' query_time = 0.119
   \<and> 0.85 \<le> vehicleEnergy (db_with_energy 0.14 0.119) ''VEHICLE_001'' query_time
               / fleetEnergy (db_with_energy 0.14 0.119) query_time
   \<and> (\<exists>rep. getVehiclePerformance24h no_query_faults query_time (db_with_energy 0.14 0.119)
               ''VEHICLE_001'' = Inr rep
          \<and> healthStatus rep = degraded)
   \<and> fleetEnergy (db_with_energy 0.1 0.075) query_time = 0.1
   \<and> vehicleEnergy (db_with_energy 0.1 0.075) ''VEHICLE_001'' query_time = 0.075
   \<and> 0.75 \<le> vehicleEnergy (db_with_energy 0.1 0.075) ''VEHICLE_001'' query_time
               / fleetEnergy (db_with_energy 0.1 0.075) query_time
   \<and> (\<exists>rep. getVehiclePerformance24h no_query_faults query_time (db_with_energy 0.1 0.075)
               ''VEHICLE_001'' = Inr rep
          \<and> healthStatus rep = critical)"
proof -
  obtain r1 where r1: "getVehiclePerformance24h no_query_faults query_time (db_with_energy 0.14 0.119)
      ''VEHICLE_001'' = Inr r1"
    using sample_query_returns(1) by blast
  obtain r2 where r2: "getVehiclePerformance24h no_query_faults query_time (db_with_energy 0.1 0.075)
      ''VEHICLE_001'' = Inr r2"
    using sample_query_returns(1) by blast
  have t1: "healthStatus r1 = degraded"
    unfolding report_tier[OF r1] sample_totals by (rule sample_tiers)
  have t2: "healthStatus r2 = critical"
    unfolding report_tier[OF r2] sample_totals by (rule sample_tiers)
  have q: "(0.85::real) \<le> 0.119 / 0.14" "(0.75::real) \<le> 0.075 / 0.1"
    by simp_all
  from r1 r2 t1 t2 q show ?thesis
    unfolding sample_totals by blast
qed


text \<open>
  Claim C3 as amended. For every database, time and vehicle, the tier of a report that is
  returned is decided on binary64 numbers: the two totals are read as the binary64
  numbers nearest to them; the ratio is \<open>0\<close> when the source total is not above zero (a
  defined result, not an error, with the tier critical), and otherwise the binary64
  number nearest to the quotient of the two numbers; the tier is healthy when the ratio
  is at least the binary64 number nearest to \<open>0.85\<close>, which is
  \<open>7656119366529843 / 2^53\<close> and lies below \<open>0.85\<close>, degraded when it is below that and at
  least \<open>0.75\<close>, and critical otherwise. A ratio computed as \<open>0.85\<close> is healthy, as
  \<open>0.8499\<close> degraded, as \<open>0.7499\<close> critical. For totals between \<open>0.001\<close> and \<open>2^60\<close>, the
  tier is the one the exact ratio of the totals calls for, unless that ratio lies within
  a relative distance of \<open>2^(-50)\<close> of a threshold: healthy from \<open>0.85 * (1 + 2^(-50))\<close>,
  degraded from \<open>0.75 * (1 + 2^(-50))\<close> to \<open>0.85 * (1 - 2^(-50))\<close>, critical up to
  \<open>0.75 * (1 - 2^(-50))\<close>. The source total is the fleet-wide sum for
  \<^verbatim>\<open>getVehiclePerformance24h\<close> and the sum of the named meter for
  \<^verbatim>\<open>getVehiclePerformanceWithMeter\<close>.
\<close>

theorem efficiency_classification:
  fixes s :: db and now :: instant and v m :: string
  defines "ratio \<equiv> efficiencyRatio_binary64
      (binary64 (fleetEnergy s now)) (binary64 (vehicleEnergy s v now))"
    and "ratio_m \<equiv> efficiencyRatio_binary64
      (binary64 (meterEnergy s m now)) (binary64 (vehicleEnergy s v now))"
  shows "(getVehiclePerformance24h fault now s v = Inr rep \<longrightarrow>
            (healthStatus rep = healthy \<longleftrightarrow> number_ge ratio (binary64 0.85))
          \<and> (healthStatus rep = degraded \<longleftrightarrow>
                number_ge ratio (binary64 0.75) \<and> \<not> number_ge ratio (binary64 0.85))
          \<and> (healthStatus rep = critical \<longleftrightarrow> \<not> number_ge ratio (binary64 0.75))
          \<and> (fleetEnergy s now \<le> 0 \<longrightarrow> ratio = Num 0 \<and> healthStatus rep = critical))
       \<and> (m \<noteq> [] \<and> getVehiclePerformanceWithMeter fault' now s v (Some m) = Inr rep' \<longrightarrow>
            (healthStatus rep' = healthy \<longleftrightarrow> number_ge ratio_m (binary64 0.85))
          \<and> (healthStatus rep' = degraded \<longleftrightarrow>
                number_ge ratio_m (binary64 0.75) \<and> \<not> number_ge ratio_m (binary64 0.85))
          \<and> (healthStatus rep' = critical \<longleftrightarrow> \<not> number_ge ratio_m (binary64 0.75))
          \<and> (meterEnergy s m now \<le> 0 \<longrightarrow> ratio_m = Num 0 \<and> healthStatus rep' = critical))
       \<and> (binary64 source = Num a \<and> 0 < a \<and> binary64 delivered = Num b \<longrightarrow>
            efficiencyRatio_binary64 (binary64 source) (binary64 delivered) = binary64 (b / a))
       \<and> (binary64 source = Num a \<and> \<not> 0 < a \<longrightarrow>
            efficiencyRatio_binary64 (binary64 source) (binary64 delivered) = Num 0)
       \<and> binary64 0.85 = Num (7656119366529843 / 2 ^ 53)
       \<and> binary64 0.75 = Num 0.75
       \<and> (healthStatus_of (Num r) = healthy \<longleftrightarrow> 7656119366529843 / 2 ^ 53 \<le> r)
       \<and> (healthStatus_of (Num r) = degraded \<longleftrightarrow> 0.75 \<le> r \<and> r < 7656119366529843 / 2 ^ 53)
       \<and> (healthStatus_of (Num r) = critical \<longleftrightarrow> r < 0.75)
       \<and> healthStatus_of (binary64 0.85) = healthy
       \<and> healthStatus_of (binary64 0.8499) = degraded
       \<and> healthStatus_of (binary64 0.7499) = critical
       \<and> healthStatus_of (Num 0) = critical
       \<and> (getVehiclePerformance24h fault now s v = Inr rep
            \<and> 1 / 1000 \<le> fleetEnergy s now \<and> fleetEnergy s now \<le> 2 ^ 60
            \<and> 1 / 1000 \<le> vehicleEnergy s v now \<and> vehicleEnergy s v now \<le> 2 ^ 60 \<longrightarrow>
            (0.85 * (1 + 1 / 2 ^ 50) \<le> vehicleEnergy s v now / fleetEnergy s now \<longrightarrow>
               healthStatus rep = healthy)
          \<and> (0.75 * (1 + 1 / 2 ^ 50) \<le> vehicleEnergy s v now / fleetEnergy s now
               \<and> vehicleEnergy s v now / fleetEnergy s now \<le> 0.85 * (1 - 1 / 2 ^ 50) \<longrightarrow>
               healthStatus rep = degraded)
          \<and> (vehicleEnergy s v now / fleetEnergy s now \<le> 0.75 * (1 - 1 / 2 ^ 50) \<longrightarrow>
               healthStatus rep = critical))
       \<and> (m \<noteq> [] \<and> getVehiclePerformanceWithMeter fault' now s v (Some m) = Inr rep'
            \<and> 1 / 1000 \<le> meterEnergy s m now \<and> meterEnergy s m now \<le> 2 ^ 60
            \<and> 1 / 1000 \<le> vehicleEnergy s v now \<and> vehicleEnergy s v now \<le> 2 ^ 60 \<longrightarrow>
            (0.85 * (1 + 1 / 2 ^ 50) \<le> vehicleEnergy s v now / meterEnergy s m now \<longrightarrow>
               healthStatus rep' = healthy)
          \<and> (0.75 * (1 + 1 / 2 ^ 50) \<le> vehicleEnergy s v now / meterEnergy s m now
               \<and> vehicleEnergy s v now / meterEnergy s m now \<le> 0.85 * (1 - 1 / 2 ^ 50) \<longrightarrow>
               healthStatus rep' = degraded)
          \<and> (vehicleEnergy s v now / meterEnergy s m now \<le> 0.75 * (1 - 1 / 2 ^ 50) \<longrightarrow>
               healthStatus rep' = critical))"
proof -
  have A: "getVehiclePerformance24h fault now s v = Inr rep \<longrightarrow>
            (healthStatus rep = healthy \<longleftrightarrow> number_ge ratio (binary64 0.85))
          \<and> (healthStatus rep = degraded \<longleftrightarrow>
                number_ge ratio (binary64 0.75) \<and> \<not> number_ge ratio (binary64 0.85))
          \<and> (healthStatus rep = critical \<longleftrightarrow> \<not> number_ge ratio (binary64 0.75))
          \<and> (fleetEnergy s now \<le> 0 \<longrightarrow> ratio = Num 0 \<and> healthStatus rep = critical)"
  proof
    assume "getVehiclePerformance24h fault now s v = Inr rep"
    then have h: "healthStatus rep = healthStatus_of ratio"
      unfolding ratio_def by (rule report_tier)
    have z: "fleetEnergy s now \<le> 0 \<longrightarrow> ratio = Num 0 \<and> healthStatus_of ratio = critical"
      unfolding ratio_def
      by (simp add: efficiencyRatio_binary64_nonpositive healthStatus_of_points(4))
    show "(healthStatus rep = healthy \<longleftrightarrow> number_ge ratio (binary64 0.85))
          \<and> (healthStatus rep = degraded \<longleftrightarrow>
                number_ge ratio (binary64 0.75) \<and> \<not> number_ge ratio (binary64 0.85))
          \<and> (healthStatus rep = critical \<longleftrightarrow> \<not> number_ge ratio (binary64 0.75))
          \<and> (fleetEnergy s now \<le> 0 \<longrightarrow> ratio = Num 0 \<and> healthStatus rep = critical)"
      unfolding h using healthStatus_of_iff[of ratio] z by blast
  qed
  have B: "m \<noteq> [] \<and> getVehiclePerformanceWithMeter fault' now s v (Some m) = Inr rep' \<longrightarrow>
            (healthStatus rep' = healthy \<longleftrightarrow> number_ge ratio_m (binary64 0.85))
          \<and> (healthStatus rep' = degraded \<longleftrightarrow>
                number_ge ratio_m (binary64 0.75) \<and> \<not> number_ge ratio_m (binary64 0.85))
          \<and> (healthStatus rep' = critical \<longleftrightarrow> \<not> number_ge ratio_m (binary64 0.75))
          \<and> (meterEnergy s m now \<le> 0 \<longrightarrow> ratio_m = Num 0 \<and> healthStatus rep' = critical)"
  proof
    assume "m \<noteq> [] \<and> getVehiclePerformanceWithMeter fault' now s v (Some m) = Inr rep'"
    then have h: "healthStatus rep' = healthStatus_of ratio_m"
      unfolding ratio_m_def using report_tier_meter by blast
    have z: "meterEnergy s m now \<le> 0 \<longrightarrow> ratio_m = Num 0 \<and> healthStatus_of ratio_m = critical"
      unfolding ratio_m_def
      by (simp add: efficiencyRatio_binary64_nonpositive healthStatus_of_points(4))
    show "(healthStatus rep' = healthy \<longleftrightarrow> number_ge ratio_m (binary64 0.85))
          \<and> (healthStatus rep' = degraded \<longleftrightarrow>
                number_ge ratio_m (binary64 0.75) \<and> \<not> number_ge ratio_m (binary64 0.85))
          \<and> (healthStatus rep' = critical \<longleftrightarrow> \<not> number_ge ratio_m (binary64 0.75))
          \<and> (meterEnergy s m now \<le> 0 \<longrightarrow> ratio_m = Num 0 \<and> healthStatus rep' = critical)"
      unfolding h using healthStatus_of_iff[of ratio_m] z by blast
  qed
  have C: "(binary64 source = Num a \<and> 0 < a \<and> binary64 delivered = Num b \<longrightarrow>
            efficiencyRatio_binary64 (binary64 source) (binary64 delivered) = binary64 (b / a))
       \<and> (binary64 source = Num a \<and> \<not> 0 < a \<longrightarrow>
            efficiencyRatio_binary64 (binary64 source) (binary64 delivered) = Num 0)"
    using efficiencyRatio_binary64_finite by blast
  have E: "getVehiclePerformance24h fault now s v = Inr rep
            \<and> 1 / 1000 \<le> fleetEnergy s now \<and> fleetEnergy s now \<le> 2 ^ 60
            \<and> 1 / 1000 \<le> vehicleEnergy s v now \<and> vehicleEnergy s v now \<le> 2 ^ 60 \<longrightarrow>
            (0.85 * (1 + 1 / 2 ^ 50) \<le> vehicleEnergy s v now / fleetEnergy s now \<longrightarrow>
               healthStatus rep = healthy)
          \<and> (0.75 * (1 + 1 / 2 ^ 50) \<le> vehicleEnergy s v now / fleetEnergy s now
               \<and> vehicleEnergy s v now / fleetEnergy s now \<le> 0.85 * (1 - 1 / 2 ^ 50) \<longrightarrow>
               healthStatus rep = degraded)
          \<and> (vehicleEnergy s v now / fleetEnergy s now \<le> 0.75 * (1 - 1 / 2 ^ 50) \<longrightarrow>
               healthStatus rep = critical)"
  proof
    assume h: "getVehiclePerformance24h fault now s v = Inr rep
            \<and> 1 / 1000 \<le> fleetEnergy s now \<and> fleetEnergy s now \<le> 2 ^ 60
            \<and> 1 / 1000 \<le> vehicleEnergy s v now \<and> vehicleEnergy s v now \<le> 2 ^ 60"
    then have t: "healthStatus rep = healthStatus_of
       (efficiencyRatio_binary64 (binary64 (fleetEnergy s now)) (binary64 (vehicleEnergy s v now)))"
      using report_tier by blast
    from h have r: "1 / 1000 \<le> fleetEnergy s now" "fleetEnergy s now \<le> 2 ^ 60"
      "1 / 1000 \<le> vehicleEnergy s v now" "vehicleEnergy s v now \<le> 2 ^ 60" by blast+
    show "(0.85 * (1 + 1 / 2 ^ 50) \<le> vehicleEnergy s v now / fleetEnergy s now \<longrightarrow>
               healthStatus rep = healthy)
          \<and> (0.75 * (1 + 1 / 2 ^ 50) \<le> vehicleEnergy s v now / fleetEnergy s now
               \<and> vehicleEnergy s v now / fleetEnergy s now \<le> 0.85 * (1 - 1 / 2 ^ 50) \<longrightarrow>
               healthStatus rep = degraded)
          \<and> (vehicleEnergy s v now / fleetEnergy s now \<le> 0.75 * (1 - 1 / 2 ^ 50) \<longrightarrow>
               healthStatus rep = critical)"
      unfolding t using tier_of_exact_ratio[OF r] by blast
  qed
  have F: "m \<noteq> [] \<and> getVehiclePerformanceWithMeter fault' now s v (Some m) = Inr rep'
            \<and> 1 / 1000 \<le> meterEnergy s m now \<and> meterEnergy s m now \<le> 2 ^ 60
            \<and> 1 / 1000 \<le> vehicleEnergy s v now \<and> vehicleEnergy s v now \<le> 2 ^ 60 \<longrightarrow>
            (0.85 * (1 + 1 / 2 ^ 50) \<le> vehicleEnergy s v now / meterEnergy s m now \<longrightarrow>
               healthStatus rep' = healthy)
          \<and> (0.75 * (1 + 1 / 2 ^ 50) \<le> vehicleEnergy s v now / meterEnergy s m now
               \<and> vehicleEnergy s v now / meterEnergy s m now \<le> 0.85 * (1 - 1 / 2 ^ 50) \<longrightarrow>
               healthStatus rep' = degraded)
          \<and> (vehicleEnergy s v now / meterEnergy s m now \<le> 0.75 * (1 - 1 / 2 ^ 50) \<longrightarrow>
               healthStatus rep' = critical)"
  proof
    assume h: "m \<noteq> [] \<and> getVehiclePerformanceWithMeter fault' now s v (Some m) = Inr rep'
            \<and> 1 / 1000 \<le> meterEnergy s m now \<and> meterEnergy s m now \<le> 2 ^ 60
            \<and> 1 / 1000 \<le> vehicleEnergy s v now \<and> vehicleEnergy s v now \<le> 2 ^ 60"
    then have t: "healthStatus rep' = healthStatus_of
       (efficiencyRatio_binary64 (binary64 (meterEnergy s m now)) (binary64 (vehicleEnergy s v now)))"
      using report_tier_meter by blast
    from h have r: "1 / 1000 \<le> meterEnergy s m now" "meterEnergy s m now \<le> 2 ^ 60"
      "1 / 1000 \<le> vehicleEnergy s v now" "vehicleEnergy s v now \<le> 2 ^ 60" by blast+
    show "(0.85 * (1 + 1 / 2 ^ 50) \<le> vehicleEnergy s v now / meterEnergy s m now \<longrightarrow>
               healthStatus rep' = healthy)
          \<and> (0.75 * (1 + 1 / 2 ^ 50) \<le> vehicleEnergy s v now / meterEnergy s m now
               \<and> vehicleEnergy s v now / meterEnergy s m now \<le> 0.85 * (1 - 1 / 2 ^ 50) \<longrightarrow>
               healthStatus rep' = degraded)
          \<and> (vehicleEnergy s v now / meterEnergy s m now \<le> 0.75 * (1 - 1 / 2 ^ 50) \<longrightarrow>
               healthStatus rep' = critical)"
      unfolding t using tier_of_exact_ratio[OF r] by blast
  qed
  from A B C E F binary64_thresholds healthStatus_of_Num_iff[of r] healthStatus_of_points
  show ?thesis by blast
qed


text \<open>
  Reports on the fresh database after one meter reading and one vehicle reading: with
  \<open>100\<close> and \<open>85\<close> kWh the computed ratio is the threshold itself and the tier healthy;
  with \<open>100\<close> and \<open>90\<close> healthy, with \<open>10000\<close> and \<open>8499\<close> degraded, with \<open>10000\<close> and
  \<open>7499\<close> critical, from either query function; with no meter reading at all, or none of
  the named meter, critical.
\<close>

theorem efficiency_classification_witness:
  "(\<exists>rep. getVehiclePerformance24h no_query_faults query_time (db_with_energy 100 85) ''VEHICLE_001'' = Inr rep
        \<and> healthStatus rep = healthy)
   \<and> efficiencyRatio_binary64 (binary64 100) (binary64 85) = binary64 (85 / 100)
   \<and> efficiencyRatio_binary64 (binary64 0) (binary64 85) = Num 0
   \<and> (\<exists>rep. getVehiclePerformance24h no_query_faults query_time (db_with_energy 100 90) ''VEHICLE_001'' = Inr rep
        \<and> healthStatus rep = healthy)
   \<and> (\<exists>rep. getVehiclePerformance24h no_query_faults query_time (db_with_energy 10000 8499) ''VEHICLE_001'' = Inr rep
        \<and> healthStatus rep = degraded)
   \<and> (\<exists>rep. getVehiclePerformance24h no_query_faults query_time (db_with_energy 10000 7499) ''VEHICLE_001'' = Inr rep
        \<and> healthStatus rep = critical)
   \<and> (\<exists>rep. getVehiclePerformance24h no_query_faults query_time (withVehicleReadings [vehicle_001] db0) ''VEHICLE_001'' = Inr rep
        \<and> healthStatus rep = critical)
   \<and> (\<exists>rep. getVehiclePerformanceWithMeter no_query_faults query_time (db_with_energy 100 90) ''VEHICLE_001''
              (Some ''METER_001'') = Inr rep
        \<and> healthStatus rep = healthy)
   \<and> (\<exists>rep. getVehiclePerformanceWithMeter no_query_faults query_time (db_with_energy 10000 8499) ''VEHICLE_001''
              (Some ''METER_001'') = Inr rep
        \<and> healthStatus rep = degraded)
   \<and> (\<exists>rep. getVehiclePerformanceWithMeter no_query_faults query_time (db_with_energy 10000 7499) ''VEHICLE_001''
              (Some ''METER_001'') = Inr rep
        \<and> healthStatus rep = critical)
   \<and> (\<exists>rep. getVehiclePerformanceWithMeter no_query_faults query_time (db_with_energy 100 90) ''VEHICLE_001''
              (Some ''METER_002'') = Inr rep
        \<and> healthStatus rep = critical)"
proof -
  have q: "(0.85::real) * (1 + 1 / 2 ^ 50) \<le> 90 / 100"
    "(0.75::real) * (1 + 1 / 2 ^ 50) \<le> 8499 / 10000" "(8499::real) / 10000 \<le> 0.85 * (1 - 1 / 2 ^ 50)"
    "(7499::real) / 10000 \<le> 0.75 * (1 - 1 / 2 ^ 50)"
    "(1::real) / 1000 \<le> 100" "(100::real) \<le> 2 ^ 60" "(1::real) / 1000 \<le> 90" "(90::real) \<le> 2 ^ 60"
    "(1::real) / 1000 \<le> 10000" "(10000::real) \<le> 2 ^ 60" "(1::real) / 1000 \<le> 8499"
    "(8499::real) \<le> 2 ^ 60" "(1::real) / 1000 \<le> 7499" "(7499::real) \<le> 2 ^ 60"
    by simp_all
  have ne: "''METER_001'' \<noteq> []" "''METER_002'' \<noteq> []" by simp_all
  obtain r1 where r1: "getVehiclePerformance24h no_query_faults query_time (db_with_energy 100 85) ''VEHICLE_001'' = Inr r1"
    using sample_query_returns(1) by blast
  note T1 = efficiency_classification[where fault = no_query_faults and now = query_time
      and s = "db_with_energy 100 85" and v = "''VEHICLE_001''" and rep = r1 and m = "[]"
      and source = 100 and a = 100 and delivered = 85 and b = 85]
  from T1 r1 have "healthStatus r1 = healthy \<longleftrightarrow>
      number_ge (efficiencyRatio_binary64 (binary64 (fleetEnergy (db_with_energy 100 85) query_time))
        (binary64 (vehicleEnergy (db_with_energy 100 85) ''VEHICLE_001'' query_time))) (binary64 0.85)"
    by blast
  then have t1: "healthStatus r1 = healthy"
    unfolding sample_totals sample_ratios binary64_thresholds by simp
  from T1 binary64_samples(1,2) have c1: "efficiencyRatio_binary64 (binary64 100) (binary64 85)
      = binary64 (85 / 100)"
    by simp
  note T0 = efficiency_classification[where fault = no_query_faults and now = query_time
      and s = "withVehicleReadings [vehicle_001] db0" and v = "''VEHICLE_001''" and m = "[]"
      and source = 0 and a = 0 and delivered = 85]
  from T0 have c0: "efficiencyRatio_binary64 (binary64 0) (binary64 85) = Num 0"
    by simp
  obtain r0 where r0: "getVehiclePerformance24h no_query_faults query_time (withVehicleReadings [vehicle_001] db0) ''VEHICLE_001'' = Inr r0"
    using sample_query_returns(4) by blast
  from T0[where rep = r0] r0 sample_energy(6) have t0: "healthStatus r0 = critical"
    by simp
  obtain r2 where r2: "getVehiclePerformance24h no_query_faults query_time (db_with_energy 100 90) ''VEHICLE_001'' = Inr r2"
    using sample_query_returns(1) by blast
  have "healthStatus r2 = healthy"
    using efficiency_classification[where fault = no_query_faults and now = query_time
        and s = "db_with_energy 100 90" and v = "''VEHICLE_001''" and rep = r2 and m = "[]"] r2 q
    unfolding sample_totals by blast
  with r2 have r2_ok: "\<exists>rep. getVehiclePerformance24h no_query_faults query_time (db_with_energy 100 90) ''VEHICLE_001'' = Inr rep
      \<and> healthStatus rep = healthy"
    by blast
  obtain r3 where r3: "getVehiclePerformance24h no_query_faults query_time (db_with_energy 10000 8499) ''VEHICLE_001'' = Inr r3"
    using sample_query_returns(1) by blast
  have "healthStatus r3 = degraded"
    using efficiency_classification[where fault = no_query_faults and now = query_time
        and s = "db_with_energy 10000 8499" and v = "''VEHICLE_001''" and rep = r3 and m = "[]"] r3 q
    unfolding sample_totals by blast
  with r3 have r3_ok: "\<exists>rep. getVehiclePerformance24h no_query_faults query_time (db_with_energy 10000 8499) ''VEHICLE_001'' = Inr rep
      \<and> healthStatus rep = degraded"
    by blast
  obtain r4 where r4: "getVehiclePerformance24h no_query_faults query_time (db_with_energy 10000 7499) ''VEHICLE_001'' = Inr r4"
    using sample_query_returns(1) by blast
  have "healthStatus r4 = critical"
    using efficiency_classification[where fault = no_query_faults and now = query_time
        and s = "db_with_energy 10000 7499" and v = "''VEHICLE_001''" and rep = r4 and m = "[]"] r4 q
    unfolding sample_totals by blast
  with r4 have r4_ok: "\<exists>rep. getVehiclePerformance24h no_query_faults query_time (db_with_energy 10000 7499) ''VEHICLE_001'' = Inr rep
      \<and> healthStatus rep = critical"
    by blast
  obtain r5 where r5: "getVehiclePerformanceWithMeter no_query_faults query_time (db_with_energy 100 90) ''VEHICLE_001'' (Some ''METER_001'') = Inr r5"
    using sample_query_returns(5) by blast
  have "healthStatus r5 = healthy"
    using efficiency_classification[where fault' = no_query_faults and now = query_time
        and s = "db_with_energy 100 90" and v = "''VEHICLE_001''" and rep' = r5 and m = "''METER_001''"] r5 q ne
    unfolding sample_totals by blast
  with r5 have r5_ok: "\<exists>rep. getVehiclePerformanceWithMeter no_query_faults query_time (db_with_energy 100 90) ''VEHICLE_001'' (Some ''METER_001'') = Inr rep
      \<and> healthStatus rep = healthy"
    by blast
  obtain r6 where r6: "getVehiclePerformanceWithMeter no_query_faults query_time (db_with_energy 10000 8499) ''VEHICLE_001'' (Some ''METER_001'') = Inr r6"
    using sample_query_returns(5) by blast
  have "healthStatus r6 = degraded"
    using efficiency_classification[where fault' = no_query_faults and now = query_time
        and s = "db_with_energy 10000 8499" and v = "''VEHICLE_001''" and rep' = r6 and m = "''METER_001''"] r6 q ne
    unfolding sample_totals by blast
  with r6 have r6_ok: "\<exists>rep. getVehiclePerformanceWithMeter no_query_faults query_time (db_with_energy 10000 8499) ''VEHICLE_001'' (Some ''METER_001'') = Inr rep
      \<and> healthStatus rep = degraded"
    by blast
  obtain r7 where r7: "getVehiclePerformanceWithMeter no_query_faults query_time (db_with_energy 10000 7499) ''VEHICLE_001'' (Some ''METER_001'') = Inr r7"
    using sample_query_returns(5) by blast
  have "healthStatus r7 = critical"
    using efficiency_classification[where fault' = no_query_faults and now = query_time
        and s = "db_with_energy 10000 7499" and v = "''VEHICLE_001''" and rep' = r7 and m = "''METER_001''"] r7 q ne
    unfolding sample_totals by blast
  with r7 have r7_ok: "\<exists>rep. getVehiclePerformanceWithMeter no_query_faults query_time (db_with_energy 10000 7499) ''VEHICLE_001'' (Some ''METER_001'') = Inr rep
      \<and> healthStatus rep = critical"
    by blast
  obtain r8 where r8: "getVehiclePerformanceWithMeter no_query_faults query_time (db_with_energy 100 90) ''VEHICLE_001'' (Some ''METER_002'') = Inr r8"
    using sample_query_returns(5) by blast
  from efficiency_classification[where fault' = no_query_faults and now = query_time
        and s = "db_with_energy 100 90" and v = "''VEHICLE_001''" and rep' = r8 and m = "''METER_002''"]
    r8 ne sample_energy_with(2)
  have "healthStatus r8 = critical"
    by simp
  with r8 have r8_ok: "\<exists>rep. getVehiclePerformanceWithMeter no_query_faults query_time (db_with_energy 100 90) ''VEHICLE_001'' (Some ''METER_002'') = Inr rep
      \<and> healthStatus rep = critical"
    by blast
  from r1 t1 c1 c0 r0 t0 r2_ok r3_ok r4_ok r5_ok r6_ok r7_ok r8_ok show ?thesis
    by blast
qed


section \<open>Missing vehicle data against missing meter data\<close>

text \<open>
  Claim C4. When the vehicle query itself runs and no vehicle-history row of the vehicle
  lies in the window, both query functions throw \<^verbatim>\<open>NotFoundException\<close>. When both queries
  run, the vehicle has rows in the window and no meter-history row matches (no row at
  all in the window, or none of the named meter), the call returns a report with
  \<^verbatim>\<open>totalKwhConsumedAc = 0\<close>, \<^verbatim>\<open>efficiencyRatio = 0\<close> and the tier critical.
\<close>

theorem report_asymmetry:
  "(fault 0 = None \<and> vehicleWindow s v (now - 86400000) now = [] \<longrightarrow>
      getVehiclePerformance24h fault now s v = Inl NotFoundException
    \<and> getVehiclePerformanceWithMeter fault now s v mo = Inl NotFoundException)
   \<and> (fault 0 = None \<and> fault 1 = None \<and> vehicleWindow s v (now - 86400000) now \<noteq> []
       \<and> meterWindow s (now - 86400000) now None = [] \<longrightarrow>
      (\<exists>rep. getVehiclePerformance24h fault now s v = Inr rep
         \<and> totalKwhConsumedAc rep = 0 \<and> efficiencyRatio rep = 0 \<and> healthStatus rep = critical))
   \<and> (fault 0 = None \<and> fault 1 = None \<and> vehicleWindow s v (now - 86400000) now \<noteq> []
       \<and> m \<noteq> [] \<and> meterWindow s (now - 86400000) now (Some m) = [] \<longrightarrow>
      (\<exists>rep. getVehiclePerformanceWithMeter fault now s v (Some m) = Inr rep
         \<and> totalKwhConsumedAc rep = 0 \<and> efficiencyRatio rep = 0 \<and> healthStatus rep = critical))"
proof -
  have nf: "fault 0 = None \<Longrightarrow> vehicleWindow s v (now - 86400000) now = [] \<Longrightarrow>
      getVehiclePerformance24h fault now s v = Inl NotFoundException
    \<and> getVehiclePerformanceWithMeter fault now s v mo = Inl NotFoundException"
    by (simp add: getVehiclePerformance24h_def getVehiclePerformanceWithMeter_def vehicleQuery_def)
  have a: "\<exists>rep. getVehiclePerformance24h fault now s v = Inr rep
         \<and> totalKwhConsumedAc rep = 0 \<and> efficiencyRatio rep = 0 \<and> healthStatus rep = critical"
    if f: "fault 0 = None" "fault 1 = None" and w: "vehicleWindow s v (now - 86400000) now \<noteq> []"
      and none: "meterWindow s (now - 86400000) now None = []"
  proof -
    from vehicleQuery_single[OF w] obtain stats
      where q: "vehicleQuery s v (now - 86400000) now = [stats]" by blast
    have "getVehiclePerformance24h fault now s v
        = Inr (performanceResult v stats (meterQuery s (now - 86400000) now None))"
      using f q by (simp add: getVehiclePerformance24h_def)
    with no_meter_rows_result[OF q none] show ?thesis by simp
  qed
  have b: "\<exists>rep. getVehiclePerformanceWithMeter fault now s v (Some m) = Inr rep
         \<and> totalKwhConsumedAc rep = 0 \<and> efficiencyRatio rep = 0 \<and> healthStatus rep = critical"
    if f: "fault 0 = None" "fault 1 = None" and w: "vehicleWindow s v (now - 86400000) now \<noteq> []"
      and m: "m \<noteq> []" and none: "meterWindow s (now - 86400000) now (Some m) = []"
  proof -
    from vehicleQuery_single[OF w] obtain stats
      where q: "vehicleQuery s v (now - 86400000) now = [stats]" by blast
    have "getVehiclePerformanceWithMeter fault now s v (Some m)
        = Inr (performanceResult v stats (meterQuery s (now - 86400000) now (Some m)))"
      using f q m by (simp add: getVehiclePerformanceWithMeter_def)
    with no_meter_rows_result[OF q none] show ?thesis by simp
  qed
  from nf a b show ?thesis by blast
qed


theorem report_asymmetry_witness:
  "vehicleWindow db0 ''VEHICLE_001'' (query_time - 86400000) query_time = []
   \<and> getVehiclePerformance24h no_query_faults query_time db0 ''VEHICLE_001'' = Inl NotFoundException
   \<and> getVehiclePerformanceWithMeter no_query_faults query_time db0 ''VEHICLE_001'' (Some ''METER_001'')
       = Inl NotFoundException
   \<and> vehicleWindow (withVehicleReadings [vehicle_001] db0) ''VEHICLE_001''
        (query_time - 86400000) query_time \<noteq> []
   \<and> meterWindow (withVehicleReadings [vehicle_001] db0) (query_time - 86400000) query_time None = []
   \<and> (\<exists>rep. getVehiclePerformance24h no_query_faults query_time
               (withVehicleReadings [vehicle_001] db0) ''VEHICLE_001'' = Inr rep
          \<and> totalKwhConsumedAc rep = 0 \<and> efficiencyRatio rep = 0 \<and> healthStatus rep = critical)
   \<and> (\<exists>rep. getVehiclePerformanceWithMeter no_query_faults query_time
               (withVehicleReadings [vehicle_001] db0) ''VEHICLE_001'' (Some ''METER_001'') = Inr rep
          \<and> totalKwhConsumedAc rep = 0 \<and> efficiencyRatio rep = 0 \<and> healthStatus rep = critical)"
proof -
  have h: "no_query_faults 0 = None" "no_query_faults 1 = None"
    "vehicleWindow db0 ''VEHICLE_001'' (query_time - 86400000) query_time = []"
    "vehicleWindow (withVehicleReadings [vehicle_001] db0) ''VEHICLE_001''
        (query_time - 86400000) query_time \<noteq> []"
    "meterWindow (withVehicleReadings [vehicle_001] db0) (query_time - 86400000) query_time None = []"
    "meterWindow (withVehicleReadings [vehicle_001] db0) (query_time - 86400000) query_time
        (Some ''METER_001'') = []"
    by (simp_all add: no_query_faults_def vehicleWindow_def meterWindow_def query_time_def
        withVehicleReadings_def vehicleHistoryRow_def sample_defs)
  show ?thesis
    using report_asymmetry[of no_query_faults db0 "''VEHICLE_001''" query_time "Some ''METER_001''"
        "''METER_001''"]
      report_asymmetry[of no_query_faults "withVehicleReadings [vehicle_001] db0" "''VEHICLE_001''"
        query_time None "''METER_001''"] h
    by simp
qed


section \<open>Which meter readings enter the ratio\<close>





section \<open>Battery temperature that was never reported\<close>

text \<open>
  Claim C10. When every vehicle-history row of the vehicle in the window has a null
  battery temperature, a report that is returned has \<^verbatim>\<open>avgBatteryTemp = 0\<close>. A reading
  ingested without \<^verbatim>\<open>batteryTemp\<close> is stored with a null battery temperature in the
  current-status row of its vehicle and in its new history row.
\<close>

theorem null_battery_temperature:
  "(getVehiclePerformance24h fault now s v = Inr rep
      \<and> (\<forall>r \<in> set (vehicleWindow s v (now - 86400000) now). vh_batteryTemp r = None) \<longrightarrow>
      avgBatteryTemp rep = 0)
   \<and> (getVehiclePerformanceWithMeter fault now s v mo = Inr rep'
      \<and> (\<forall>r \<in> set (vehicleWindow s v (now - 86400000) now). vh_batteryTemp r = None) \<longrightarrow>
      avgBatteryTemp rep' = 0)
   \<and> (batteryTemp d = None \<and> thrown (ingestVehicleTelemetry wfault d s') = None \<longrightarrow>
      (\<exists>c. current_vehicle_status (store (ingestVehicleTelemetry wfault d s')) (vehicleId d) = Some c
          \<and> cv_batteryTemp c = None)
      \<and> (\<exists>h. vehicle_telemetry_history (store (ingestVehicleTelemetry wfault d s'))
                = vehicle_telemetry_history s' @ [h]
          \<and> vh_vehicleId h = vehicleId d \<and> vh_batteryTemp h = None))"
proof -
  have avg: "\<forall>r \<in> set (vehicleWindow s v (now - 86400000) now). vh_batteryTemp r = None \<Longrightarrow>
      vehicleQuery s v (now - 86400000) now = [stats] \<Longrightarrow>
      avgBatteryTemp (performanceResult v stats mq) = 0" for stats mq
    using sql_AVG_all_null[of "map vh_batteryTemp (vehicleWindow s v (now - 86400000) now)"]
    by (auto simp: performanceResult_def Let_def parseFloat_or_0_def dest!: vehicleQuery_cases(2))
  have a: "getVehiclePerformance24h fault now s v = Inr rep \<Longrightarrow>
      \<forall>r \<in> set (vehicleWindow s v (now - 86400000) now). vh_batteryTemp r = None \<Longrightarrow>
      avgBatteryTemp rep = 0"
    using avg by (auto dest!: performance24h_Inr)
  have b: "getVehiclePerformanceWithMeter fault now s v mo = Inr rep' \<Longrightarrow>
      \<forall>r \<in> set (vehicleWindow s v (now - 86400000) now). vh_batteryTemp r = None \<Longrightarrow>
      avgBatteryTemp rep' = 0"
    using avg by (auto dest!: performanceWithMeter_Inr)
  have c: "batteryTemp d = None \<Longrightarrow> thrown (ingestVehicleTelemetry wfault d s') = None \<Longrightarrow>
      (\<exists>c. current_vehicle_status (store (ingestVehicleTelemetry wfault d s')) (vehicleId d) = Some c
          \<and> cv_batteryTemp c = None)
      \<and> (\<exists>h. vehicle_telemetry_history (store (ingestVehicleTelemetry wfault d s'))
                = vehicle_telemetry_history s' @ [h]
          \<and> vh_vehicleId h = vehicleId d \<and> vh_batteryTemp h = None)"
    using upsert_vehicle_holds[of d "current_vehicle_status s'"]
    by (auto simp: ingestVehicleTelemetry_store withVehicleReadings_def vehicleHistoryRow_def)
  from a b c show ?thesis by blast
qed


theorem null_battery_temperature_witness:
  "batteryTemp vehicle_001_later = None
   \<and> thrown (ingestVehicleTelemetry no_faults vehicle_001_later db0) = None
   \<and> (\<exists>c. current_vehicle_status (store (ingestVehicleTelemetry no_faults vehicle_001_later db0))
               ''VEHICLE_001'' = Some c \<and> cv_batteryTemp c = None)
   \<and> (\<exists>h. vehicle_telemetry_history (store (ingestVehicleTelemetry no_faults vehicle_001_later db0)) = [h]
          \<and> vh_batteryTemp h = None)
   \<and> (\<exists>rep. getVehiclePerformance24h no_query_faults query_time
               (store (ingestVehicleTelemetry no_faults vehicle_001_later db0)) ''VEHICLE_001'' = Inr rep
          \<and> avgBatteryTemp rep = 0)
   \<and> (\<exists>rep. getVehiclePerformanceWithMeter no_query_faults query_time
               (store (ingestVehicleTelemetry no_faults vehicle_001_later db0)) ''VEHICLE_001''
               (Some ''METER_001'') = Inr rep
          \<and> avgBatteryTemp rep = 0)"
proof -
  let ?s = "store (ingestVehicleTelemetry no_faults vehicle_001_later db0)"
  have ok: "thrown (ingestVehicleTelemetry no_faults vehicle_001_later db0) = None"
    by (rule sample_out_of_order_ok(3))
  then have st: "?s = withVehicleReadings [vehicle_001_later] db0"
    by (simp add: ingestVehicleTelemetry_store)
  have d: "batteryTemp vehicle_001_later = None" "vehicleId vehicle_001_later = ''VEHICLE_001''"
    "vehicle_telemetry_history db0 = []"
    by (simp_all add: sample_defs)
  have nulls: "\<forall>r \<in> set (vehicleWindow ?s ''VEHICLE_001'' (query_time - 86400000) query_time).
      vh_batteryTemp r = None"
    unfolding st
    by (simp add: vehicleWindow_def withVehicleReadings_def vehicleHistoryRow_def sample_defs)
  obtain r1 where r1: "getVehiclePerformance24h no_query_faults query_time ?s ''VEHICLE_001'' = Inr r1"
    unfolding st by (simp add: query_defs sample_defs)
  obtain r2 where r2: "getVehiclePerformanceWithMeter no_query_faults query_time ?s ''VEHICLE_001''
      (Some ''METER_001'') = Inr r2"
    unfolding st by (simp add: query_defs sample_defs)
  from null_battery_temperature[of no_query_faults query_time ?s "''VEHICLE_001''" r1
      "Some ''METER_001''" r2 vehicle_001_later no_faults db0] ok d nulls r1 r2
  show ?thesis by auto
qed


end
